theory Spec2Isabelle
  imports Complex_Main "HOL-Library.Multiset" "HOL-Library.Log_Nat"
begin

section \<open>Numbers, typed arrays and tensors\<close>

text \<open>
  A JavaScript number is modelled as a rational extended with the two infinities and NaN.
  The sign of zero is not modelled. Rounding is modelled in the elementwise binary
  kernels \<open>add\<close>, \<open>subtract\<close>, \<open>multiply\<close>, \<open>divide\<close> and \<open>neg\<close>, whose results are
  compared number by number: there every arithmetic operation rounds to binary64 and
  every store into a \<open>Float32Array\<close> rounds to binary32. The other kernels are studied for
  their index arithmetic, their comparisons, their NaN handling and the typed arrays they
  write to, and compute with unrounded numbers. Reading a typed array out of range gives
  \<open>undefined\<close>, which every numeric context used here (\<open>isNaN\<close>, \<open><\<close>, \<open>>\<close>, \<open>+\<close>, \<open>*\<close>)
  treats as NaN, so such a read is NaN.
\<close>

datatype jsnum = NaN | NegInf | Fin rat | PosInf

datatype dtype = Float32 | Int32 | Bool

datatype error = ShapeMismatch | AxesNotInnerMost | RangeError | TypeError

fun isNaN :: "jsnum \<Rightarrow> bool" where
  "isNaN NaN = True"
| "isNaN _ = False"

text \<open>\<open>a < b\<close> on numbers: false as soon as one side is NaN.\<close>

fun js_less :: "jsnum \<Rightarrow> jsnum \<Rightarrow> bool" where
  "js_less NaN _ = False"
| "js_less _ NaN = False"
| "js_less PosInf _ = False"
| "js_less _ NegInf = False"
| "js_less NegInf _ = True"
| "js_less (Fin a) (Fin b) = (a < b)"
| "js_less (Fin a) PosInf = True"

text \<open>\<open>a === b\<close> on numbers: NaN is not equal to itself.\<close>

definition js_eq :: "jsnum \<Rightarrow> jsnum \<Rightarrow> bool" where
  "js_eq a b = (\<not> isNaN a \<and> a = b)"

fun js_neg :: "jsnum \<Rightarrow> jsnum" where
  "js_neg NaN = NaN"
| "js_neg NegInf = PosInf"
| "js_neg PosInf = NegInf"
| "js_neg (Fin a) = Fin (- a)"

fun js_add :: "jsnum \<Rightarrow> jsnum \<Rightarrow> jsnum" where
  "js_add NaN _ = NaN"
| "js_add _ NaN = NaN"
| "js_add PosInf NegInf = NaN"
| "js_add NegInf PosInf = NaN"
| "js_add PosInf _ = PosInf"
| "js_add _ PosInf = PosInf"
| "js_add NegInf _ = NegInf"
| "js_add _ NegInf = NegInf"
| "js_add (Fin a) (Fin b) = Fin (a + b)"

definition js_sub :: "jsnum \<Rightarrow> jsnum \<Rightarrow> jsnum" where
  "js_sub a b = js_add a (js_neg b)"

text \<open>An infinity times a finite number: NaN at zero, otherwise the product of the signs.\<close>

definition inf_times :: "bool \<Rightarrow> rat \<Rightarrow> jsnum" where
  "inf_times positive a =
     (if a = 0 then NaN else if (0 < a) = positive then PosInf else NegInf)"

fun js_mul :: "jsnum \<Rightarrow> jsnum \<Rightarrow> jsnum" where
  "js_mul NaN _ = NaN"
| "js_mul _ NaN = NaN"
| "js_mul (Fin a) (Fin b) = Fin (a * b)"
| "js_mul (Fin a) PosInf = inf_times True a"
| "js_mul (Fin a) NegInf = inf_times False a"
| "js_mul PosInf (Fin b) = inf_times True b"
| "js_mul NegInf (Fin b) = inf_times False b"
| "js_mul PosInf PosInf = PosInf"
| "js_mul NegInf NegInf = PosInf"
| "js_mul PosInf NegInf = NegInf"
| "js_mul NegInf PosInf = NegInf"

text \<open>Division; a zero divisor counts as positive zero (the sign of zero is not modelled).\<close>

fun js_div :: "jsnum \<Rightarrow> jsnum \<Rightarrow> jsnum" where
  "js_div NaN _ = NaN"
| "js_div _ NaN = NaN"
| "js_div (Fin a) (Fin b) =
     (if b = 0 then (if a = 0 then NaN else if 0 < a then PosInf else NegInf)
      else Fin (a / b))"
| "js_div (Fin a) PosInf = Fin 0"
| "js_div (Fin a) NegInf = Fin 0"
| "js_div PosInf (Fin b) = (if 0 \<le> b then PosInf else NegInf)"
| "js_div NegInf (Fin b) = (if 0 \<le> b then NegInf else PosInf)"
| "js_div PosInf PosInf = NaN"
| "js_div PosInf NegInf = NaN"
| "js_div NegInf PosInf = NaN"
| "js_div NegInf NegInf = NaN"

text \<open>
  Conversions applied by a store into an \<open>Int32Array\<close> (ToInt32) and a \<open>Uint8Array\<close>
  (ToUint8): NaN and the infinities become 0, a fraction is truncated towards zero, and
  the integer wraps modulo \<open>2^32\<close> (into the signed range) or \<open>2^8\<close>.
\<close>

definition js_trunc :: "rat \<Rightarrow> int" where
  "js_trunc r = (if 0 \<le> r then \<lfloor>r\<rfloor> else \<lceil>r\<rceil>)"

definition toInt32 :: "int \<Rightarrow> int" where
  "toInt32 v = (v + 2147483648) mod 4294967296 - 2147483648"

definition toUint8 :: "int \<Rightarrow> int" where
  "toUint8 v = v mod 256"

fun ta_convert :: "dtype \<Rightarrow> jsnum \<Rightarrow> jsnum" where
  "ta_convert Float32 v = v"
| "ta_convert Int32 (Fin r) = Fin (of_int (toInt32 (js_trunc r)))"
| "ta_convert Int32 _ = Fin 0"
| "ta_convert Bool (Fin r) = Fin (of_int (toUint8 (js_trunc r)))"
| "ta_convert Bool _ = Fin 0"

text \<open>\<open>arr[i]\<close> and \<open>arr[i] = v\<close> on a typed array; a store out of range is ignored.\<close>

definition ta_get :: "jsnum list \<Rightarrow> nat \<Rightarrow> jsnum" where
  "ta_get arr i = (if i < length arr then arr ! i else NaN)"

definition ta_set :: "dtype \<Rightarrow> jsnum list \<Rightarrow> nat \<Rightarrow> jsnum \<Rightarrow> jsnum list" where
  "ta_set dt arr i v = (if i < length arr then arr[i := ta_convert dt v] else arr)"

text \<open>
  Rounding to a binary floating-point format, to the nearest value, ties to the even
  significand (roundTiesToEven of IEEE 754, the rounding of ECMAScript). The format has
  \<open>prec\<close> bits of precision, \<open>emin\<close> is the exponent of its least normal number, and a
  rounded magnitude of \<open>2^emax\<close> or more overflows to the infinity. For a magnitude
  \<open>2^e \<le> |r| < 2^(e+1)\<close> the values of the format are the multiples of
  \<open>2^(e - prec + 1)\<close>, and below \<open>2^emin\<close> (the subnormal range) the multiples of
  \<open>2^(emin - prec + 1)\<close>. binary32 is \<open>prec = 24\<close>, \<open>emin = -126\<close>, \<open>emax = 128\<close>; binary64 is
  \<open>prec = 53\<close>, \<open>emin = -1022\<close>, \<open>emax = 1024\<close>.
\<close>

definition pow2 :: "int \<Rightarrow> rat" where
  "pow2 e = 2 powi e"

definition round_half_even :: "rat \<Rightarrow> int" where
  "round_half_even r =
     (let f = \<lfloor>r\<rfloor>; d = r - of_int f
      in if d < 1 / 2 then f else if 1 / 2 < d then f + 1 else if even f then f else f + 1)"

text \<open>
  The exponent \<open>e\<close> with \<open>2^e \<le> r < 2^(e+1)\<close> of a positive rational \<open>p / q\<close>: the difference
  of the bit lengths of \<open>p\<close> and \<open>q\<close>, or one less.
\<close>

definition floor_log2 :: "rat \<Rightarrow> int" where
  "floor_log2 r =
     (let (p, q) = quotient_of r; e = bitlen p - bitlen q
      in if r < pow2 e then e - 1 else e)"

definition round_binary :: "nat \<Rightarrow> int \<Rightarrow> int \<Rightarrow> rat \<Rightarrow> jsnum" where
  "round_binary prec emin emax r =
     (if r = 0 then Fin 0
      else let e = max (floor_log2 \<bar>r\<bar>) emin;
               ulp = pow2 (e - int prec + 1);
               m = of_int (round_half_even (\<bar>r\<bar> / ulp)) * ulp
           in if pow2 emax \<le> m then (if 0 < r then PosInf else NegInf)
              else Fin (if 0 < r then m else - m))"

fun round_to :: "nat \<Rightarrow> int \<Rightarrow> int \<Rightarrow> jsnum \<Rightarrow> jsnum" where
  "round_to prec emin emax (Fin r) = round_binary prec emin emax r"
| "round_to prec emin emax v = v"

text \<open>\<open>Math.fround\<close>, the conversion of a store into a \<open>Float32Array\<close>.\<close>

definition fround :: "jsnum \<Rightarrow> jsnum" where
  "fround v = round_to 24 (- 126) 128 v"

text \<open>The rounding of the exact result of an arithmetic operation to a number.\<close>

definition dround :: "jsnum \<Rightarrow> jsnum" where
  "dround v = round_to 53 (- 1022) 1024 v"

text \<open>\<open>a + b\<close>, \<open>a * b\<close> and \<open>a / b\<close> on numbers, rounded.\<close>

definition js_plus :: "jsnum \<Rightarrow> jsnum \<Rightarrow> jsnum" where
  "js_plus a b = dround (js_add a b)"

definition js_times :: "jsnum \<Rightarrow> jsnum \<Rightarrow> jsnum" where
  "js_times a b = dround (js_mul a b)"

definition js_over :: "jsnum \<Rightarrow> jsnum \<Rightarrow> jsnum" where
  "js_over a b = dround (js_div a b)"

text \<open>
  \<open>arr[i] = v\<close> on a typed array, with the rounding of a \<open>Float32Array\<close>. The values that
  a \<open>Float32Array\<close> can hold are those that the store leaves as they are.
\<close>

definition ta_store :: "dtype \<Rightarrow> jsnum list \<Rightarrow> nat \<Rightarrow> jsnum \<Rightarrow> jsnum list" where
  "ta_store dt arr i v = ta_set dt arr i (case dt of Float32 \<Rightarrow> fround v | _ \<Rightarrow> v)"

definition float32_value :: "jsnum \<Rightarrow> bool" where
  "float32_value v = (fround v = v)"

record NDArray =
  shape :: "nat list"
  dtype :: dtype
  getValues :: "jsnum list"

text \<open>
  Modelled from the spec: \<open>util.sizeFromShape\<close>, \<open>NDArray.zeros\<close>, \<open>NDArray.make\<close>, the
  \<open>rank\<close> and \<open>size\<close> accessors (util.ts and ndarray.ts are not among the sources). The
  spec: a tensor holds a shape, a dtype and a contiguous row-major buffer of
  \<open>size = product(shape)\<close> elements.
\<close>

definition sizeFromShape :: "nat list \<Rightarrow> nat" where
  "sizeFromShape shp = prod_list shp"

definition zeros :: "nat list \<Rightarrow> dtype \<Rightarrow> NDArray" where
  "zeros shp dt = \<lparr>shape = shp, dtype = dt, getValues = replicate (sizeFromShape shp) (Fin 0)\<rparr>"

definition make_nd :: "nat list \<Rightarrow> jsnum list \<Rightarrow> dtype \<Rightarrow> NDArray" where
  "make_nd shp vs dt = \<lparr>shape = shp, dtype = dt, getValues = vs\<rparr>"

definition rank :: "NDArray \<Rightarrow> nat" where
  "rank a = length (shape a)"

definition size_nd :: "NDArray \<Rightarrow> nat" where
  "size_nd a = sizeFromShape (shape a)"

text \<open>
  Modelled from the spec: \<open>axis_util.assertAxesAreInnerMostDims\<close> and
  \<open>axis_util.computeOutAndReduceShapes\<close> (axis_util.ts is not among the sources). The spec:
  the axes are partitioned into kept and reduced ones, and the reduced axes must be
  exactly the trailing (innermost) axes.
\<close>

definition axesAreInnerMostDims :: "nat list \<Rightarrow> nat \<Rightarrow> bool" where
  "axesAreInnerMostDims axes rnk = (length axes \<le> rnk \<and> axes = [rnk - length axes..<rnk])"

definition computeOutAndReduceShapes :: "nat list \<Rightarrow> nat list \<Rightarrow> nat list \<times> nat list" where
  "computeOutAndReduceShapes shp axes =
     (map (\<lambda>d. shp ! d) (filter (\<lambda>d. d \<notin> set axes) [0..<length shp]),
      map (\<lambda>d. shp ! d) axes)"

section \<open>Reductions\<close>

text \<open>
  The inner loop of \<open>min\<close>: \<open>for (j = 0; j < reduceSize; ++j)\<close> over the remaining values
  of \<open>j\<close>, with the running minimum \<open>m\<close>. A NaN ends the loop with NaN.
\<close>

fun min_scan :: "jsnum list \<Rightarrow> nat \<Rightarrow> nat list \<Rightarrow> jsnum \<Rightarrow> jsnum" where
  "min_scan aVals offset [] m = m"
| "min_scan aVals offset (j # js) m =
     (let v = ta_get aVals (offset + j) in
      if isNaN v then NaN
      else if js_less v m then min_scan aVals offset js v
      else min_scan aVals offset js m)"

text \<open>\<open>MathBackendCPU.min\<close>: the running minimum of every window starts at \<open>aVals[0]\<close>.\<close>

definition min_op :: "NDArray \<Rightarrow> nat list \<Rightarrow> error + NDArray" where
  "min_op x axes =
     (if \<not> axesAreInnerMostDims axes (rank x) then Inl AxesNotInnerMost
      else
        let (outShape, reduceShape) = computeOutAndReduceShapes (shape x) axes;
            result = zeros outShape (dtype x);
            reduceSize = sizeFromShape reduceShape;
            aVals = getValues x;
            vals = fold (\<lambda>i vals.
                     ta_set (dtype x) vals i
                       (min_scan aVals (i * reduceSize) [0..<reduceSize] (ta_get aVals 0)))
                     [0..<length (getValues result)] (getValues result)
        in Inr (result\<lparr>getValues := vals\<rparr>))"

text \<open>
  The inner loops of \<open>argMin\<close> and \<open>argMax\<close>, with the running extremum \<open>m\<close> and its index
  \<open>mi\<close>. \<open>util.NAN_INT32\<close> is a constant of util.ts, which is not among the sources: it
  is the parameter \<open>nanIdx\<close>.
\<close>

fun argMin_scan :: "jsnum list \<Rightarrow> nat \<Rightarrow> int \<Rightarrow> nat list \<Rightarrow> jsnum \<Rightarrow> int \<Rightarrow> int" where
  "argMin_scan aVals offset nanIdx [] m mi = mi"
| "argMin_scan aVals offset nanIdx (j # js) m mi =
     (let v = ta_get aVals (offset + j) in
      if isNaN v then nanIdx
      else if js_less v m then argMin_scan aVals offset nanIdx js v (int j)
      else argMin_scan aVals offset nanIdx js m mi)"

fun argMax_scan :: "jsnum list \<Rightarrow> nat \<Rightarrow> int \<Rightarrow> nat list \<Rightarrow> jsnum \<Rightarrow> int \<Rightarrow> int" where
  "argMax_scan aVals offset nanIdx [] m mi = mi"
| "argMax_scan aVals offset nanIdx (j # js) m mi =
     (let v = ta_get aVals (offset + j) in
      if isNaN v then nanIdx
      else if js_less m v then argMax_scan aVals offset nanIdx js v (int j)
      else argMax_scan aVals offset nanIdx js m mi)"

definition argMin :: "int \<Rightarrow> NDArray \<Rightarrow> nat list \<Rightarrow> error + NDArray" where
  "argMin nanIdx x axes =
     (if \<not> axesAreInnerMostDims axes (rank x) then Inl AxesNotInnerMost
      else
        let (outShape, reduceShape) = computeOutAndReduceShapes (shape x) axes;
            result = zeros outShape Int32;
            reduceSize = sizeFromShape reduceShape;
            aVals = getValues x;
            vals = fold (\<lambda>i vals.
                     ta_set Int32 vals i
                       (Fin (of_int (argMin_scan aVals (i * reduceSize) nanIdx [0..<reduceSize]
                          (ta_get aVals (i * reduceSize)) 0))))
                     [0..<length (getValues result)] (getValues result)
        in Inr (result\<lparr>getValues := vals\<rparr>))"

definition argMax :: "int \<Rightarrow> NDArray \<Rightarrow> nat list \<Rightarrow> error + NDArray" where
  "argMax nanIdx x axes =
     (if \<not> axesAreInnerMostDims axes (rank x) then Inl AxesNotInnerMost
      else
        let (outShape, reduceShape) = computeOutAndReduceShapes (shape x) axes;
            result = zeros outShape Int32;
            reduceSize = sizeFromShape reduceShape;
            aVals = getValues x;
            vals = fold (\<lambda>i vals.
                     ta_set Int32 vals i
                       (Fin (of_int (argMax_scan aVals (i * reduceSize) nanIdx [0..<reduceSize]
                          (ta_get aVals (i * reduceSize)) 0))))
                     [0..<length (getValues result)] (getValues result)
        in Inr (result\<lparr>getValues := vals\<rparr>))"

text \<open>
  The claim's words for \<open>argMin\<close> and \<open>argMax\<close>: offset \<open>j\<close> of the window \<open>w\<close> holds its
  minimum (maximum), and is the first offset that does.
\<close>

definition first_min_at :: "jsnum list \<Rightarrow> nat \<Rightarrow> bool" where
  "first_min_at w j =
     (j < length w \<and> list_all (\<lambda>k. \<not> js_less (w ! k) (w ! j)) [0..<length w]
      \<and> list_all (\<lambda>k. js_less (w ! j) (w ! k)) [0..<j])"

definition first_max_at :: "jsnum list \<Rightarrow> nat \<Rightarrow> bool" where
  "first_max_at w j =
     (j < length w \<and> list_all (\<lambda>k. \<not> js_less (w ! j) (w ! k)) [0..<length w]
      \<and> list_all (\<lambda>k. js_less (w ! k) (w ! j)) [0..<j])"

text \<open>
  What the claim says of one output element \<open>v\<close> and its window \<open>w\<close>: the sentinel when
  the window holds a NaN, otherwise the offset of the extremum.
\<close>

definition arg_result_ok :: "(jsnum list \<Rightarrow> nat \<Rightarrow> bool) \<Rightarrow> int \<Rightarrow> jsnum list \<Rightarrow> jsnum \<Rightarrow> bool" where
  "arg_result_ok first_at nanIdx w v =
     (if list_ex isNaN w then v = Fin (of_int nanIdx)
      else list_ex (\<lambda>j. v = Fin (of_int (int j)) \<and> first_at w j) [0..<length w])"

definition in_window_index :: "jsnum list \<Rightarrow> jsnum \<Rightarrow> bool" where
  "in_window_index w v = list_ex (\<lambda>j. v = Fin (of_int (int j))) [0..<length w]"

text \<open>
  The invariant of a tensor (spec, data model): the shape is a sequence of positive
  integers and the buffer holds \<open>product(shape)\<close> elements.
\<close>

definition well_formed :: "NDArray \<Rightarrow> bool" where
  "well_formed a =
     (length (getValues a) = sizeFromShape (shape a) \<and> list_all (\<lambda>d. 0 < d) (shape a))"

text \<open>
  The claim's words for \<open>min\<close>: the minimum of the elements of the element's own
  window, NaN as soon as the window holds a NaN.
\<close>

definition window :: "jsnum list \<Rightarrow> nat \<Rightarrow> nat \<Rightarrow> jsnum list" where
  "window aVals reduceSize i = take reduceSize (drop (i * reduceSize) aVals)"

fun least_of :: "jsnum \<Rightarrow> jsnum list \<Rightarrow> jsnum" where
  "least_of m [] = m"
| "least_of m (v # vs) = least_of (if js_less v m then v else m) vs"

definition window_min_spec :: "jsnum list \<Rightarrow> jsnum" where
  "window_min_spec w = (if list_ex isNaN w then NaN else least_of (hd w) w)"

section \<open>Top-k\<close>

text \<open>
  \<open>Array.prototype.sort(comparefn)\<close> of the JavaScript runtime, as ECMAScript 2019
  specifies it for a consistent comparator: a stable sort in which \<open>a\<close> comes after \<open>b\<close>
  when \<open>comparefn(a, b) > 0\<close>. A comparator result that is NaN counts as \<open>+0\<close>. The model
  is an insertion sort that inserts the elements from the last to the first. For a
  consistent comparator every stable sort gives the same order, and the model is the
  runtime's sort. The comparator of \<open>topK\<close>, \<open>b.value - a.value\<close>, is not consistent when a
  value is NaN; ECMAScript then leaves the order to the implementation, and the model is
  one such order, not the one of every runtime. On \<open>[1, NaN, 5]\<close> every comparison is NaN,
  and the model moves nothing, as the insertion sort and the run detection of V8 do; on
  \<open>[1, 5, NaN, 3]\<close> V8 gives \<open>[5, 3, 1, NaN]\<close> and the model \<open>[5, 1, NaN, 3]\<close>. What is
  proved of the order is proved of tensors without NaN.
\<close>

fun js_insert :: "('a \<Rightarrow> 'a \<Rightarrow> jsnum) \<Rightarrow> 'a \<Rightarrow> 'a list \<Rightarrow> 'a list" where
  "js_insert comparefn a [] = [a]"
| "js_insert comparefn a (b # bs) =
     (if js_less (Fin 0) (comparefn a b) then b # js_insert comparefn a bs else a # b # bs)"

definition js_sort :: "('a \<Rightarrow> 'a \<Rightarrow> jsnum) \<Rightarrow> 'a list \<Rightarrow> 'a list" where
  "js_sort comparefn xs = foldr (js_insert comparefn) xs []"

text \<open>
  Allocation of a typed array of \<open>k\<close> elements (\<open>new Int32Array(k)\<close>, and
  \<open>util.getTypedArrayFromDType(dtype, k)\<close>, modelled from the spec: util.ts is not among
  the sources, the spec names it only as the allocation of the output buffer of the
  tensor's dtype). A negative length throws a RangeError and allocates nothing, and so
  does a length above \<open>limit\<close>, the greatest length at which the runtime allocates a
  typed array of that element type. The limit is the runtime's (at most \<open>2^53 - 1\<close>, and
  less where the engine or the memory says so): it is a parameter of \<open>topK\<close>, one limit
  for each element type. The state threaded through is the number of typed arrays
  allocated so far.
\<close>

definition new_typed_array :: "nat \<Rightarrow> int \<Rightarrow> nat \<Rightarrow> (error + jsnum list) \<times> nat" where
  "new_typed_array limit k allocated =
     (if k < 0 \<or> int limit < k then (Inl RangeError, allocated)
      else (Inr (replicate (nat k) (Fin 0)), Suc allocated))"

text \<open>
  The copy loop of \<open>topK\<close>, \<open>for (i = 0; i < k; i++)\<close>, over the remaining values of \<open>i\<close>.
  An element of \<open>valuesAndIndices\<close> is a pair (value, index). Past the end of the array
  \<open>valuesAndIndices[i]\<close> is \<open>undefined\<close>, and reading its \<open>value\<close> throws a TypeError.
\<close>

fun topK_copy :: "(jsnum \<times> nat) list \<Rightarrow> dtype \<Rightarrow> nat list \<Rightarrow> jsnum list \<times> jsnum list
    \<Rightarrow> error + jsnum list \<times> jsnum list" where
  "topK_copy valuesAndIndices dt [] (topkValues, topkIndices) = Inr (topkValues, topkIndices)"
| "topK_copy valuesAndIndices dt (i # is) (topkValues, topkIndices) =
     (if i < length valuesAndIndices
      then topK_copy valuesAndIndices dt is
             (ta_set dt topkValues i (fst (valuesAndIndices ! i)),
              ta_set Int32 topkIndices i (Fin (of_nat (snd (valuesAndIndices ! i)))))
      else Inl TypeError)"

text \<open>
  \<open>MathBackendCPU.topK\<close>. The result is the contents of the two typed arrays that
  \<open>Array1D.new\<close> wraps, with the number of typed arrays allocated.
\<close>

definition topK ::
  "(dtype \<Rightarrow> nat) \<Rightarrow> NDArray \<Rightarrow> int \<Rightarrow> nat \<Rightarrow> (error + jsnum list \<times> jsnum list) \<times> nat" where
  "topK maxLength ndarray k allocated =
     (let vals = getValues ndarray;
          valuesAndIndices =
            js_sort (\<lambda>a b. js_sub (fst b) (fst a))
              (map (\<lambda>i. (ta_get vals i, i)) [0..<length vals])
      in case new_typed_array (maxLength (dtype ndarray)) k allocated of
           (Inl e, allocated1) \<Rightarrow> (Inl e, allocated1)
         | (Inr topkValues, allocated1) \<Rightarrow>
             (case new_typed_array (maxLength Int32) k allocated1 of
                (Inl e, allocated2) \<Rightarrow> (Inl e, allocated2)
              | (Inr topkIndices, allocated2) \<Rightarrow>
                  (topK_copy valuesAndIndices (dtype ndarray) [0..<nat k]
                     (topkValues, topkIndices), allocated2)))"

definition topKValues ::
  "(dtype \<Rightarrow> nat) \<Rightarrow> NDArray \<Rightarrow> int \<Rightarrow> nat \<Rightarrow> (error + jsnum list) \<times> nat" where
  "topKValues maxLength x k allocated =
     (case topK maxLength x k allocated of
        (Inl e, allocated1) \<Rightarrow> (Inl e, allocated1)
      | (Inr r, allocated1) \<Rightarrow> (Inr (fst r), allocated1))"

definition topKIndices ::
  "(dtype \<Rightarrow> nat) \<Rightarrow> NDArray \<Rightarrow> int \<Rightarrow> nat \<Rightarrow> (error + jsnum list) \<times> nat" where
  "topKIndices maxLength x k allocated =
     (case topK maxLength x k allocated of
        (Inl e, allocated1) \<Rightarrow> (Inl e, allocated1)
      | (Inr r, allocated1) \<Rightarrow> (Inr (snd r), allocated1))"

text \<open>
  The claim's words for \<open>topK\<close>: pair \<open>p\<close> stands before pair \<open>q\<close> in the descending
  stable order when its value is greater, or the values are equal and its index smaller.
\<close>

definition desc_stable :: "jsnum \<times> nat \<Rightarrow> jsnum \<times> nat \<Rightarrow> bool" where
  "desc_stable p q = (js_less (fst q) (fst p) \<or> (fst p = fst q \<and> snd p < snd q))"

text \<open>The values of a typed array of dtype \<open>dt\<close> are unchanged by a store into another one.\<close>

definition conforms :: "dtype \<Rightarrow> jsnum \<Rightarrow> bool" where
  "conforms dt v = (ta_convert dt v = v)"

section \<open>Broadcasting and elementwise binary operations\<close>

text \<open>
  Modelled from the spec: \<open>broadcast_util.assertAndGetBroadcastShape\<close> and
  \<open>broadcast_util.getBroadcastDims\<close> (broadcast_util.ts is not among the sources). The
  spec: the two shapes are right-aligned; each aligned pair of dimensions must be equal or
  hold a 1, else the call fails with a shape mismatch; the output dimension is the larger
  one. The broadcast dimensions of an operand are the positions where it has size 1 and
  the output does not; they are counted in the operand's own axes, as the kernel indexes
  the operand's location with them.
\<close>

fun broadcast_rev :: "nat list \<Rightarrow> nat list \<Rightarrow> error + nat list" where
  "broadcast_rev [] bs = Inr bs"
| "broadcast_rev as [] = Inr as"
| "broadcast_rev (a # as) (b # bs) =
     (if a = b \<or> a = 1 \<or> b = 1
      then (case broadcast_rev as bs of Inl e \<Rightarrow> Inl e | Inr r \<Rightarrow> Inr (max a b # r))
      else Inl ShapeMismatch)"

definition assertAndGetBroadcastShape :: "nat list \<Rightarrow> nat list \<Rightarrow> error + nat list" where
  "assertAndGetBroadcastShape shapeA shapeB =
     (case broadcast_rev (rev shapeA) (rev shapeB) of Inl e \<Rightarrow> Inl e | Inr r \<Rightarrow> Inr (rev r))"

definition getBroadcastDims :: "nat list \<Rightarrow> nat list \<Rightarrow> nat list" where
  "getBroadcastDims inShape outShape =
     filter (\<lambda>d. inShape ! d = 1
                \<and> 1 < (drop (length outShape - length inShape) outShape) ! d)
       [0..<length inShape]"

text \<open>
  Modelled from the spec: \<open>NDArray.indexToLoc\<close> and \<open>NDArray.locToIndex\<close> (ndarray.ts is not
  among the sources). The spec: the multi-index \<open>(i0, ..., ik)\<close> maps to the linear offset
  \<open>sum(i_d * stride_d)\<close> with \<open>stride_d = product(shape[d+1:])\<close>.
\<close>

fun indexToLoc :: "nat list \<Rightarrow> nat \<Rightarrow> nat list" where
  "indexToLoc [] index = []"
| "indexToLoc (d # ds) index = (index div prod_list ds) # indexToLoc ds (index mod prod_list ds)"

fun locToIndex :: "nat list \<Rightarrow> nat list \<Rightarrow> nat" where
  "locToIndex (d # ds) (l # ls) = l * prod_list ds + locToIndex ds ls"
| "locToIndex _ _ = 0"

text \<open>\<open>loc.slice(-r)\<close>: the last \<open>r\<close> elements, and the whole array when \<open>r\<close> is 0.\<close>

definition slice_last :: "nat \<Rightarrow> 'a list \<Rightarrow> 'a list" where
  "slice_last r loc = (if r = 0 then loc else drop (length loc - r) loc)"

text \<open>
  \<open>MathBackendCPU.broadcastedBinaryOp\<close>. The broadcast dimensions lie within the
  operand's location, so that \<open>aLoc[d] = 0\<close> never extends the array.
\<close>

definition broadcastedBinaryOp ::
  "NDArray \<Rightarrow> NDArray \<Rightarrow> dtype \<Rightarrow> (jsnum \<Rightarrow> jsnum \<Rightarrow> jsnum) \<Rightarrow> error + NDArray" where
  "broadcastedBinaryOp a b dt op =
     (case assertAndGetBroadcastShape (shape a) (shape b) of
        Inl e \<Rightarrow> Inl e
      | Inr newShape \<Rightarrow>
          let result = zeros newShape dt;
              aValues = getValues a;
              bValues = getValues b;
              aBroadcastDims = getBroadcastDims (shape a) newShape;
              bBroadcastDims = getBroadcastDims (shape b) newShape;
              newValues = fold (\<lambda>i newValues.
                  let loc = indexToLoc newShape i;
                      aLoc = fold (\<lambda>d aLoc. aLoc[d := 0]) aBroadcastDims (slice_last (rank a) loc);
                      aIndex = locToIndex (shape a) aLoc;
                      bLoc = fold (\<lambda>d bLoc. bLoc[d := 0]) bBroadcastDims (slice_last (rank b) loc);
                      bIndex = locToIndex (shape b) bLoc
                  in ta_store dt newValues i (op (ta_get aValues aIndex) (ta_get bValues bIndex)))
                [0..<length (getValues result)] (getValues result)
          in Inr (result\<lparr>getValues := newValues\<rparr>))"

text \<open>
  Modelled from the spec: the constants \<open>Scalar.ONE\<close> and \<open>Scalar.NEG_ONE\<close> and the accessor
  \<open>Scalar.get\<close> (ndarray.ts is not among the sources): rank-0 float32 tensors holding 1
  and -1, and the single element of a scalar.
\<close>

definition Scalar_ONE :: NDArray where
  "Scalar_ONE = \<lparr>shape = [], dtype = Float32, getValues = [Fin 1]\<rparr>"

definition Scalar_NEG_ONE :: NDArray where
  "Scalar_NEG_ONE = \<lparr>shape = [], dtype = Float32, getValues = [Fin (- 1)]\<rparr>"

definition scalar_get :: "NDArray \<Rightarrow> jsnum" where
  "scalar_get c = ta_get (getValues c) 0"

definition scaledArrayAdd :: "NDArray \<Rightarrow> NDArray \<Rightarrow> NDArray \<Rightarrow> NDArray \<Rightarrow> error + NDArray" where
  "scaledArrayAdd c1 a c2 b =
     (let c1Val = scalar_get c1; c2Val = scalar_get c2
      in broadcastedBinaryOp a b Float32
           (\<lambda>aVal bVal. js_plus (js_times c1Val aVal) (js_times c2Val bVal)))"

definition add :: "NDArray \<Rightarrow> NDArray \<Rightarrow> error + NDArray" where
  "add a b = scaledArrayAdd Scalar_ONE a Scalar_ONE b"

definition subtract :: "NDArray \<Rightarrow> NDArray \<Rightarrow> error + NDArray" where
  "subtract a b = scaledArrayAdd Scalar_ONE a Scalar_NEG_ONE b"

text \<open>
  \<open>aValues[i % a.size]\<close>: the remainder by 0 is NaN, and the element at NaN is
  \<open>undefined\<close>.
\<close>

definition ta_get_mod :: "jsnum list \<Rightarrow> nat \<Rightarrow> nat \<Rightarrow> jsnum" where
  "ta_get_mod arr i n = (if n = 0 then NaN else ta_get arr (i mod n))"

text \<open>
  \<open>MathBackendCPU.multiply\<close> and \<open>divide\<close>. The output buffer is a fresh \<open>Float32Array\<close>;
  \<open>NDArray.make\<close> without a dtype makes a float32 tensor.
\<close>

definition multiply :: "NDArray \<Rightarrow> NDArray \<Rightarrow> error + NDArray" where
  "multiply a b =
     (case assertAndGetBroadcastShape (shape a) (shape b) of
        Inl e \<Rightarrow> Inl e
      | Inr newShape \<Rightarrow>
          let aValues = getValues a;
              bValues = getValues b;
              newValues = fold (\<lambda>i newValues.
                  ta_store Float32 newValues i
                    (js_times (ta_get_mod aValues i (size_nd a)) (ta_get_mod bValues i (size_nd b))))
                [0..<sizeFromShape newShape] (replicate (sizeFromShape newShape) (Fin 0))
          in Inr (make_nd newShape newValues Float32))"

definition divide :: "NDArray \<Rightarrow> NDArray \<Rightarrow> error + NDArray" where
  "divide a b =
     (case assertAndGetBroadcastShape (shape a) (shape b) of
        Inl e \<Rightarrow> Inl e
      | Inr newShape \<Rightarrow>
          let aValues = getValues a;
              bValues = getValues b;
              newValues = fold (\<lambda>i newValues.
                  ta_store Float32 newValues i
                    (js_over (ta_get_mod aValues i (size_nd a)) (ta_get_mod bValues i (size_nd b))))
                [0..<sizeFromShape newShape] (replicate (sizeFromShape newShape) (Fin 0))
          in Inr (make_nd newShape newValues Float32))"

definition neg :: "NDArray \<Rightarrow> error + NDArray" where
  "neg x = multiply Scalar_NEG_ONE x"

section \<open>Sampling\<close>

text \<open>A loop whose body may throw: the first error ends it.\<close>

fun fold_err :: "('a \<Rightarrow> 's \<Rightarrow> error + 's) \<Rightarrow> 'a list \<Rightarrow> 's \<Rightarrow> error + 's" where
  "fold_err f [] s = Inr s"
| "fold_err f (x # xs) s = (case f x s of Inl e \<Rightarrow> Inl e | Inr s' \<Rightarrow> fold_err f xs s')"

text \<open>
  The cumulative distribution of one batch row of \<open>multinomial\<close>: a \<open>Float32Array\<close> of
  \<open>numEvents - 1\<close> elements (here \<open>numEvents\<close> is at least 1), with \<open>cdf[0] = probVals[offset]\<close>
  and the running sums after it.
\<close>

definition build_cdf :: "jsnum list \<Rightarrow> nat \<Rightarrow> nat \<Rightarrow> jsnum list" where
  "build_cdf probVals offset numEvents =
     (let cdf0 = replicate (numEvents - 1) (Fin 0);
          cdf1 = ta_set Float32 cdf0 0 (ta_get probVals offset)
      in fold (\<lambda>event cdf.
                 ta_set Float32 cdf event
                   (js_add (ta_get cdf (event - 1)) (ta_get probVals (offset + event))))
           [1..<length cdf1] cdf1)"

text \<open>
  The innermost loop, \<open>for (event = 0; event < cdf.length; event++)\<close>, over the remaining
  events: the first event whose cumulative probability exceeds the draw \<open>r\<close> is stored at
  \<open>pos\<close>, and the loop ends there.
\<close>

fun find_event :: "jsnum \<Rightarrow> jsnum list \<Rightarrow> nat list \<Rightarrow> jsnum list \<Rightarrow> nat \<Rightarrow> jsnum list" where
  "find_event r cdf [] resVals pos = resVals"
| "find_event r cdf (event # es) resVals pos =
     (if js_less r (ta_get cdf event) then ta_set Int32 resVals pos (Fin (of_nat event))
      else find_event r cdf es resVals pos)"

text \<open>
  The loop over the samples of one row. \<open>random\<close> is the generator returned by
  \<open>seedrandom.alea\<close>: a call gives the next draw and changes the generator's state \<open>g\<close>.
  The library is not part of the repository: the generator is a parameter.
\<close>

fun sample_loop :: "('g \<Rightarrow> jsnum \<times> 'g) \<Rightarrow> jsnum list \<Rightarrow> nat \<Rightarrow> nat list \<Rightarrow> 'g \<Rightarrow> jsnum list
    \<Rightarrow> jsnum list" where
  "sample_loop random cdf outOffset [] g resVals = resVals"
| "sample_loop random cdf outOffset (sampleId # ids) g resVals =
     (let (r, g') = random g;
          resVals1 = ta_set Int32 resVals (outOffset + sampleId) (Fin (of_nat (length cdf)));
          resVals2 = find_event r cdf [0..<length cdf] resVals1 (outOffset + sampleId)
      in sample_loop random cdf outOffset ids g' resVals2)"

text \<open>
  \<open>MathBackendCPU.multinomial\<close>. \<open>alea seed\<close> is the state of a generator freshly seeded
  with \<open>seed.toString()\<close>; it is made anew inside the loop over the batch rows. With no
  event, \<open>new Float32Array(numEvents - 1)\<close> throws a RangeError in the first row.
\<close>

definition multinomial ::
  "('s \<Rightarrow> 'g) \<Rightarrow> ('g \<Rightarrow> jsnum \<times> 'g) \<Rightarrow> NDArray \<Rightarrow> nat \<Rightarrow> 's \<Rightarrow> error + NDArray" where
  "multinomial alea random probabilities numSamples seed =
     (let batchSize = shape probabilities ! 0;
          numEvents = shape probabilities ! 1;
          res = zeros [batchSize, numSamples] Int32;
          probVals = getValues probabilities
      in case fold_err (\<lambda>b resVals.
                 let offset = b * numEvents
                 in if numEvents = 0 then Inl RangeError
                    else
                      let cdf = build_cdf probVals offset numEvents;
                          g = alea seed;
                          outOffset = b * numSamples
                      in Inr (sample_loop random cdf outOffset [0..<numSamples] g resVals))
               [0..<batchSize] (getValues res) of
           Inl e \<Rightarrow> Inl e
         | Inr resVals \<Rightarrow> Inr (res\<lparr>getValues := resVals\<rparr>))"

text \<open>
  For the proofs about \<open>multinomial\<close>: the event the two innermost steps leave at a
  position, and the events of one row, in the order of the draws.
\<close>

fun pick_event :: "jsnum \<Rightarrow> jsnum list \<Rightarrow> nat list \<Rightarrow> nat \<Rightarrow> nat" where
  "pick_event r cdf [] dflt = dflt"
| "pick_event r cdf (event # es) dflt =
     (if js_less r (ta_get cdf event) then event else pick_event r cdf es dflt)"

fun row_samples :: "('g \<Rightarrow> jsnum \<times> 'g) \<Rightarrow> jsnum list \<Rightarrow> nat \<Rightarrow> 'g \<Rightarrow> jsnum list" where
  "row_samples random cdf 0 g = []"
| "row_samples random cdf (Suc n) g =
     ta_convert Int32 (Fin (of_nat (pick_event (fst (random g)) cdf [0..<length cdf] (length cdf))))
       # row_samples random cdf n (snd (random g))"

section \<open>Convolution and pooling\<close>

text \<open>
  The geometry descriptor \<open>Conv2DInfo\<close> (conv_util.ts is not among the sources; the fields
  are those the kernels read). \<open>padTop\<close> and \<open>padLeft\<close> are \<open>padInfo.top\<close> and
  \<open>padInfo.left\<close>; a padding may be negative.
\<close>

record Conv2DInfo =
  batchSize :: nat
  inHeight :: nat
  inWidth :: nat
  inChannels :: nat
  outHeight :: nat
  outWidth :: nat
  outChannels :: nat
  filterHeight :: nat
  filterWidth :: nat
  strideHeight :: nat
  strideWidth :: nat
  padTop :: int
  padLeft :: int
  inShape :: "nat list"
  filterShape :: "nat list"
  outShape :: "nat list"

text \<open>
  Modelled from the spec: \<open>Array4D.get\<close>, \<open>Array4D.set\<close> and \<open>Array1D.get\<close> (ndarray.ts is
  not among the sources). The spec: the multi-index maps to the linear offset
  \<open>sum(i_d * stride_d)\<close> with \<open>stride_d = product(shape[d+1:])\<close>. The indices are JavaScript
  numbers, here integers; an element out of range reads as \<open>undefined\<close>, and a store out
  of range is ignored.
\<close>

definition index4 :: "nat list \<Rightarrow> int \<Rightarrow> int \<Rightarrow> int \<Rightarrow> int \<Rightarrow> int" where
  "index4 shp i j k l =
     i * int (shp ! 1 * shp ! 2 * shp ! 3) + j * int (shp ! 2 * shp ! 3) + k * int (shp ! 3) + l"

definition ta_get_int :: "jsnum list \<Rightarrow> int \<Rightarrow> jsnum" where
  "ta_get_int arr i = (if 0 \<le> i \<and> i < int (length arr) then arr ! nat i else NaN)"

definition ta_set_int :: "dtype \<Rightarrow> jsnum list \<Rightarrow> int \<Rightarrow> jsnum \<Rightarrow> jsnum list" where
  "ta_set_int dt arr i v =
     (if 0 \<le> i \<and> i < int (length arr) then arr[nat i := ta_convert dt v] else arr)"

definition get4 :: "NDArray \<Rightarrow> int \<Rightarrow> int \<Rightarrow> int \<Rightarrow> int \<Rightarrow> jsnum" where
  "get4 a i j k l = ta_get_int (getValues a) (index4 (shape a) i j k l)"

definition set4 :: "NDArray \<Rightarrow> jsnum \<Rightarrow> int \<Rightarrow> int \<Rightarrow> int \<Rightarrow> int \<Rightarrow> NDArray" where
  "set4 a v i j k l =
     a\<lparr>getValues := ta_set_int (dtype a) (getValues a) (index4 (shape a) i j k l) v\<rparr>"

definition get1 :: "NDArray \<Rightarrow> int \<Rightarrow> jsnum" where
  "get1 a i = ta_get_int (getValues a) i"

text \<open>\<open>for (v = lo; v < hi; ++v)\<close> over integers: the values \<open>lo, ..., hi - 1\<close>.\<close>

definition int_range :: "int \<Rightarrow> int \<Rightarrow> int list" where
  "int_range lo hi = map (\<lambda>n. lo + int n) [0..<nat (hi - lo)]"

text \<open>
  \<open>MathBackendCPU.conv2d\<close>. The corner of the rows is computed with \<open>padLeft\<close> and the
  corner of the columns with \<open>padTop\<close>, as the source has it.
\<close>

definition conv2d :: "NDArray \<Rightarrow> NDArray \<Rightarrow> NDArray option \<Rightarrow> Conv2DInfo \<Rightarrow> NDArray" where
  "conv2d x filter' bias convInfo =
     (let filterHeight = int (filterHeight convInfo);
          filterWidth = int (filterWidth convInfo);
          padLeft = padLeft convInfo;
          padTop = padTop convInfo;
          y = zeros (outShape convInfo) Float32
      in fold (\<lambda>b. fold (\<lambda>d2. fold (\<lambda>yR.
           let xRCorner = int yR * int (strideHeight convInfo) - padLeft;
               xRMin = max 0 xRCorner;
               xRMax = min (int (inHeight convInfo)) (filterHeight + xRCorner)
           in fold (\<lambda>yC y.
                let xCCorner = int yC * int (strideWidth convInfo) - padTop;
                    xCMin = max 0 xCCorner;
                    xCMax = min (int (inWidth convInfo)) (filterWidth + xCCorner);
                    dotProd = fold (\<lambda>xR.
                        let wR = xR - xRCorner
                        in fold (\<lambda>xC.
                             let wC = xC - xCCorner
                             in fold (\<lambda>d1 dotProd.
                                  let pixel = get4 x (int b) xR xC (int d1);
                                      weight = get4 filter' wR wC (int d1) (int d2)
                                  in js_add dotProd (js_mul pixel weight))
                                [0..<inChannels convInfo])
                           (int_range xCMin xCMax))
                      (int_range xRMin xRMax) (Fin 0);
                    biasVal = (case bias of Some bv \<Rightarrow> get1 bv (int d2) | None \<Rightarrow> Fin 0)
                in set4 y (js_add dotProd biasVal) (int b) (int yR) (int yC) (int d2))
             [0..<outWidth convInfo])
           [0..<outHeight convInfo])
         [0..<outChannels convInfo])
       [0..<batchSize convInfo] y)"

text \<open>
  The claim's words for \<open>conv2d\<close>: the output element at \<open>(b, yR, yC, d2)\<close> is the sum of
  \<open>x[b, xR, xC, d1] * filter'[wR, wC, d1, d2]\<close> over the input channels and the window whose
  row corner is \<open>strideHeight * yR - padTop\<close> and whose column corner is
  \<open>strideWidth * yC - padLeft\<close>, clipped against the input, plus the bias.
\<close>

definition conv2d_claim ::
  "NDArray \<Rightarrow> NDArray \<Rightarrow> NDArray option \<Rightarrow> Conv2DInfo \<Rightarrow> nat \<Rightarrow> nat \<Rightarrow> nat \<Rightarrow> nat \<Rightarrow> jsnum" where
  "conv2d_claim x filter' bias convInfo b yR yC d2 =
     (let xRCorner = int yR * int (strideHeight convInfo) - padTop convInfo;
          xCCorner = int yC * int (strideWidth convInfo) - padLeft convInfo;
          rows = int_range (max 0 xRCorner)
                   (min (int (inHeight convInfo)) (int (filterHeight convInfo) + xRCorner));
          cols = int_range (max 0 xCCorner)
                   (min (int (inWidth convInfo)) (int (filterWidth convInfo) + xCCorner));
          dotProd = fold (\<lambda>xR. fold (\<lambda>xC. fold (\<lambda>d1 acc.
                        js_add acc (js_mul (get4 x (int b) xR xC (int d1))
                          (get4 filter' (xR - xRCorner) (xC - xCCorner) (int d1) (int d2))))
                      [0..<inChannels convInfo]) cols) rows (Fin 0)
      in js_add dotProd (case bias of Some bv \<Rightarrow> get1 bv (int d2) | None \<Rightarrow> Fin 0))"

text \<open>\<open>a >= b\<close> and \<open>Math.floor\<close> on numbers, and the integer a number holds.\<close>

definition js_ge :: "jsnum \<Rightarrow> jsnum \<Rightarrow> bool" where
  "js_ge a b = (\<not> isNaN a \<and> \<not> isNaN b \<and> \<not> js_less a b)"

fun js_floor :: "jsnum \<Rightarrow> jsnum" where
  "js_floor (Fin r) = Fin (of_int \<lfloor>r\<rfloor>)"
| "js_floor v = v"

fun js_to_int :: "jsnum \<Rightarrow> int" where
  "js_to_int (Fin r) = \<lfloor>r\<rfloor>"
| "js_to_int _ = 0"

text \<open>
  \<open>MathBackendCPU.maxPoolPositions\<close>: for every output position, the flat offset within
  the filter of the first greatest element of its window, or -1.
\<close>

definition maxPoolPositions :: "NDArray \<Rightarrow> Conv2DInfo \<Rightarrow> NDArray" where
  "maxPoolPositions x convInfo =
     (let maxPositions = zeros (outShape convInfo) Float32;
          strideHeight = int (strideHeight convInfo);
          strideWidth = int (strideWidth convInfo);
          filterHeight = int (filterHeight convInfo);
          filterWidth = int (filterWidth convInfo);
          padTop = padTop convInfo;
          padLeft = padLeft convInfo
      in fold (\<lambda>b. fold (\<lambda>d. fold (\<lambda>yR.
           let xRCorner = int yR * strideHeight - padTop;
               xRMin = max 0 xRCorner;
               xRMax = min (int (inHeight convInfo)) (filterHeight + xRCorner)
           in fold (\<lambda>yC maxPositions.
                let xCCorner = int yC * strideWidth - padLeft;
                    xCMin = max 0 xCCorner;
                    xCMax = min (int (inWidth convInfo)) (filterWidth + xCCorner);
                    (maxValue, maxPosition) = fold (\<lambda>xR.
                        let wR = xR - xRCorner
                        in fold (\<lambda>xC (maxValue, maxPosition).
                             let wC = xC - xCCorner;
                                 pixel = get4 x (int b) xR xC (int d)
                             in if js_less maxValue pixel then (pixel, wR * filterWidth + wC)
                                else (maxValue, maxPosition))
                           (int_range xCMin xCMax))
                      (int_range xRMin xRMax) (NegInf, - 1)
                in set4 maxPositions (Fin (of_int maxPosition)) (int b) (int yR) (int yC) (int d))
             [0..<outWidth convInfo])
           [0..<outHeight convInfo])
         [0..<inChannels convInfo])
       [0..<batchSize convInfo] maxPositions)"

text \<open>
  \<open>MathBackendCPU.maxPoolBackprop\<close>. \<open>dyR\<close> and \<open>dyC\<close> are quotients, used as indices
  once the three tests have found them to be integers within the output; \<open>continue\<close>
  leaves \<open>dotProd\<close> as it is.
\<close>

definition maxPoolBackprop :: "NDArray \<Rightarrow> NDArray \<Rightarrow> Conv2DInfo \<Rightarrow> NDArray" where
  "maxPoolBackprop dy x convInfo =
     (let maxPositions = maxPoolPositions x convInfo;
          strideHeight = int (strideHeight convInfo);
          strideWidth = int (strideWidth convInfo);
          filterHeight = int (filterHeight convInfo);
          filterWidth = int (filterWidth convInfo);
          padLeft = filterWidth - 1 - padLeft convInfo;
          padTop = filterHeight - 1 - padTop convInfo;
          dx = zeros (shape x) Float32
      in fold (\<lambda>b. fold (\<lambda>d. fold (\<lambda>dxR. fold (\<lambda>dxC dx.
           let dyRCorner = int dxR - padTop;
               dyCCorner = int dxC - padLeft;
               dotProd = fold (\<lambda>wR dotProd.
                   let dyR = js_div (Fin (of_int (dyRCorner + int wR))) (Fin (of_int strideHeight))
                   in if js_less dyR (Fin 0) \<or> js_ge dyR (Fin (of_nat (outHeight convInfo)))
                         \<or> \<not> js_eq (js_floor dyR) dyR
                      then dotProd
                      else fold (\<lambda>wC dotProd.
                          let dyC = js_div (Fin (of_int (dyCCorner + int wC)))
                                      (Fin (of_int strideWidth))
                          in if js_less dyC (Fin 0) \<or> js_ge dyC (Fin (of_nat (outWidth convInfo)))
                                \<or> \<not> js_eq (js_floor dyC) dyC
                             then dotProd
                             else
                               let maxPos = js_sub (Fin (of_int (filterHeight * filterWidth - 1)))
                                     (get4 maxPositions (int b) (js_to_int dyR) (js_to_int dyC)
                                        (int d));
                                   curPos = int wR * filterWidth + int wC;
                                   mask = (if js_eq maxPos (Fin (of_int curPos)) then 1 else 0 :: rat)
                               in if mask = 0 then dotProd
                                  else
                                    let pixel = get4 dy (int b) (js_to_int dyR) (js_to_int dyC)
                                                  (int d)
                                    in js_add dotProd (js_mul pixel (Fin mask)))
                        [0..<Conv2DInfo.filterWidth convInfo] dotProd)
                 [0..<Conv2DInfo.filterHeight convInfo] (Fin 0)
           in set4 dx dotProd (int b) (int dxR) (int dxC) (int d))
         [0..<inWidth convInfo])
         [0..<inHeight convInfo])
         [0..<inChannels convInfo])
       [0..<batchSize convInfo] dx)"

text \<open>
  The claim's words for \<open>maxPoolBackprop\<close>. The window of the output position
  \<open>(yR, yC)\<close> is the filter footprint with corner
  \<open>(strideHeight * yR - padTop, strideWidth * yC - padLeft)\<close> clipped against the input.
  The window has its strict maximum at the position \<open>p\<close> when \<open>p\<close> lies in it, the element
  at \<open>p\<close> is greater than \<open>-Infinity\<close>, and every other element of the window is smaller.
\<close>

definition pool_window :: "Conv2DInfo \<Rightarrow> nat \<Rightarrow> nat \<Rightarrow> (int \<times> int) list" where
  "pool_window convInfo yR yC =
     (let xRCorner = int yR * int (strideHeight convInfo) - padTop convInfo;
          xCCorner = int yC * int (strideWidth convInfo) - padLeft convInfo
      in List.product
           (int_range (max 0 xRCorner)
              (min (int (inHeight convInfo)) (int (filterHeight convInfo) + xRCorner)))
           (int_range (max 0 xCCorner)
              (min (int (inWidth convInfo)) (int (filterWidth convInfo) + xCCorner))))"

definition strict_max_at ::
  "NDArray \<Rightarrow> Conv2DInfo \<Rightarrow> nat \<Rightarrow> nat \<Rightarrow> nat \<Rightarrow> nat \<Rightarrow> int \<times> int \<Rightarrow> bool" where
  "strict_max_at x convInfo b d yR yC p =
     (list_ex (\<lambda>q. q = p) (pool_window convInfo yR yC)
      \<and> js_less NegInf (get4 x (int b) (fst p) (snd p) (int d))
      \<and> list_all (\<lambda>q. q = p \<or> js_less (get4 x (int b) (fst q) (snd q) (int d))
                                   (get4 x (int b) (fst p) (snd p) (int d)))
           (pool_window convInfo yR yC))"




text \<open>The sum of numbers is \<open>js_add\<close>, from 0.\<close>

instantiation jsnum :: comm_monoid_add
begin

definition zero_jsnum :: jsnum where
  "zero_jsnum = Fin 0"

definition plus_jsnum :: "jsnum \<Rightarrow> jsnum \<Rightarrow> jsnum" where
  "plus_jsnum a b = js_add a b"

instance
proof
  fix a b c :: jsnum
  show "a + b + c = a + (b + c)"
    unfolding plus_jsnum_def by (cases a; cases b; cases c) simp_all
  show "a + b = b + a"
    unfolding plus_jsnum_def by (cases a; cases b) simp_all
  show "0 + a = a"
    unfolding plus_jsnum_def zero_jsnum_def by (cases a) simp_all
qed

end





section \<open>The backend on a store of typed arrays\<close>

text \<open>
  The kernels once more, with the typed arrays held in a store, for the question which
  typed arrays a kernel writes to. The store is the list of the typed arrays allocated so
  far; a typed array is known by its position in the list, and an allocation appends one.
  A tensor holds its shape, its dtype and its typed array. An element that a kernel reads
  is read from the store as it is at that moment, so that a store into an operand would
  show in the later reads. The numbers are not rounded in this section: the rounding
  changes the value that a store writes, not the typed array it writes to.
\<close>

type_synonym store = "jsnum list list"

record Tensor =
  tshape :: "nat list"
  tdtype :: dtype
  tvalues :: nat

definition contents :: "store \<Rightarrow> nat \<Rightarrow> jsnum list" where
  "contents st a = (if a < length st then st ! a else [])"

definition alloc :: "jsnum list \<Rightarrow> store \<Rightarrow> nat \<times> store" where
  "alloc vs st = (length st, st @ [vs])"

text \<open>\<open>new Float32Array(n)\<close>, \<open>new Int32Array(n)\<close>, \<open>new Uint8Array(n)\<close>: \<open>n\<close> zeros.\<close>

definition new_array :: "nat \<Rightarrow> store \<Rightarrow> nat \<times> store" where
  "new_array n st = alloc (replicate n (Fin 0)) st"

text \<open>\<open>arr[i]\<close> and \<open>arr[i] = v\<close> on the typed array \<open>a\<close> of element type \<open>dt\<close>.\<close>

definition load :: "store \<Rightarrow> nat \<Rightarrow> nat \<Rightarrow> jsnum" where
  "load st a i = ta_get (contents st a) i"

definition load_int :: "store \<Rightarrow> nat \<Rightarrow> int \<Rightarrow> jsnum" where
  "load_int st a i = ta_get_int (contents st a) i"

definition store_at :: "dtype \<Rightarrow> nat \<Rightarrow> nat \<Rightarrow> jsnum \<Rightarrow> store \<Rightarrow> store" where
  "store_at dt a i v st = (if a < length st then st[a := ta_set dt (st ! a) i v] else st)"

definition store_at_int :: "dtype \<Rightarrow> nat \<Rightarrow> int \<Rightarrow> jsnum \<Rightarrow> store \<Rightarrow> store" where
  "store_at_int dt a i v st =
     (if a < length st then st[a := ta_set_int dt (st ! a) i v] else st)"

text \<open>
  An index that is a number: an element of a typed array is denoted by an integer only.
  At any other number a read gives \<open>undefined\<close> and a store is ignored.
\<close>

fun js_index :: "jsnum \<Rightarrow> int option" where
  "js_index (Fin r) = (if r = of_int \<lfloor>r\<rfloor> then Some \<lfloor>r\<rfloor> else None)"
| "js_index _ = None"

definition load_js :: "store \<Rightarrow> nat \<Rightarrow> jsnum \<Rightarrow> jsnum" where
  "load_js st a idx = (case js_index idx of Some i \<Rightarrow> load_int st a i | None \<Rightarrow> NaN)"

definition store_at_js :: "dtype \<Rightarrow> nat \<Rightarrow> jsnum \<Rightarrow> jsnum \<Rightarrow> store \<Rightarrow> store" where
  "store_at_js dt a idx v st =
     (case js_index idx of Some i \<Rightarrow> store_at_int dt a i v st | None \<Rightarrow> st)"

text \<open>\<open>arr[i % arr.length]\<close>.\<close>

definition load_mod :: "store \<Rightarrow> nat \<Rightarrow> nat \<Rightarrow> jsnum" where
  "load_mod st a i = ta_get_mod (contents st a) i (length (contents st a))"

text \<open>
  Modelled from the spec: the constructors and accessors of ndarray.ts, which is not among
  the sources. The spec: each tensor exclusively owns its buffer. \<open>NDArray.zeros\<close> and
  \<open>ArrayND.zeros\<close> allocate a zero-filled typed array of \<open>product(shape)\<close> elements;
  \<open>NDArray.make\<close> and \<open>ArrayND.new\<close> wrap the typed array they are given, as a float32
  tensor when no dtype is passed; \<open>getValues\<close> and \<open>dataSync\<close> give the tensor's typed
  array; \<open>get\<close> and \<open>set\<close> read and write the element at the linear offset
  \<open>sum(i_d * stride_d)\<close> with \<open>stride_d = product(shape[d+1:])\<close>.
\<close>

definition zeros_st :: "nat list \<Rightarrow> dtype \<Rightarrow> store \<Rightarrow> Tensor \<times> store" where
  "zeros_st shp dt st =
     (let (values, st1) = new_array (sizeFromShape shp) st
      in (\<lparr>tshape = shp, tdtype = dt, tvalues = values\<rparr>, st1))"

definition make_st :: "nat list \<Rightarrow> nat \<Rightarrow> dtype \<Rightarrow> Tensor" where
  "make_st shp values dt = \<lparr>tshape = shp, tdtype = dt, tvalues = values\<rparr>"

definition trank :: "Tensor \<Rightarrow> nat" where
  "trank t = length (tshape t)"

definition tsize :: "Tensor \<Rightarrow> nat" where
  "tsize t = sizeFromShape (tshape t)"

fun loc_index :: "nat list \<Rightarrow> int list \<Rightarrow> int" where
  "loc_index (d # ds) (l # ls) = l * int (prod_list ds) + loc_index ds ls"
| "loc_index _ _ = 0"

definition get_st :: "store \<Rightarrow> Tensor \<Rightarrow> int list \<Rightarrow> jsnum" where
  "get_st st t loc = load_int st (tvalues t) (loc_index (tshape t) loc)"

definition set_st :: "Tensor \<Rightarrow> jsnum \<Rightarrow> int list \<Rightarrow> store \<Rightarrow> store" where
  "set_st t v loc st = store_at_int (tdtype t) (tvalues t) (loc_index (tshape t) loc) v st"

text \<open>\<open>get\<close> and \<open>set\<close> at coordinates that are numbers.\<close>

fun loc_index_js :: "nat list \<Rightarrow> jsnum list \<Rightarrow> jsnum" where
  "loc_index_js (d # ds) (l # ls) =
     js_add (js_mul (Fin (of_nat (prod_list ds))) l) (loc_index_js ds ls)"
| "loc_index_js _ _ = Fin 0"

definition get_js :: "store \<Rightarrow> Tensor \<Rightarrow> jsnum list \<Rightarrow> jsnum" where
  "get_js st t loc = load_js st (tvalues t) (loc_index_js (tshape t) loc)"

definition set_js :: "Tensor \<Rightarrow> jsnum \<Rightarrow> jsnum list \<Rightarrow> store \<Rightarrow> store" where
  "set_js t v loc st = store_at_js (tdtype t) (tvalues t) (loc_index_js (tshape t) loc) v st"

text \<open>
  What the claim asks of a call that started in the store \<open>st\<close>: every typed array of
  \<open>st\<close> is in the resulting store, at its place and with its contents, and the typed
  array of the tensor returned is one allocated since.
\<close>

definition extends :: "store \<Rightarrow> store \<Rightarrow> bool" where
  "extends st st' = (length st \<le> length st' \<and> take (length st) st' = st)"

definition keeps :: "nat \<Rightarrow> store \<Rightarrow> store \<Rightarrow> bool" where
  "keeps n base st = (n \<le> length base \<and> length base \<le> length st \<and> take n st = take n base)"

definition allocated_since :: "store \<Rightarrow> store \<Rightarrow> Tensor \<Rightarrow> bool" where
  "allocated_since st st' t = (length st \<le> tvalues t \<and> tvalues t < length st')"

definition pure_call :: "store \<Rightarrow> Tensor \<times> store \<Rightarrow> bool" where
  "pure_call st out = (extends st (snd out) \<and> allocated_since st (snd out) (fst out))"

definition pure_call_err :: "store \<Rightarrow> (error + Tensor) \<times> store \<Rightarrow> bool" where
  "pure_call_err st out =
     (extends st (snd out)
      \<and> (case fst out of Inl e \<Rightarrow> True | Inr t \<Rightarrow> allocated_since st (snd out) t))"

subsection \<open>Copies, slices and concatenations\<close>

text \<open>\<open>MathBackendCPU.clone\<close>; \<open>new Float32Array(values)\<close> copies the elements.\<close>

definition clone_st :: "Tensor \<Rightarrow> store \<Rightarrow> Tensor \<times> store" where
  "clone_st x st =
     (let (values, st1) = alloc (map (ta_convert Float32) (contents st (tvalues x))) st
      in (make_st (tshape x) values Float32, st1))"

text \<open>
  \<open>TypedArray.prototype.slice(start, final)\<close>: a new typed array with the elements from
  \<open>start\<close> up to \<open>final\<close>, a negative bound counting from the end.
\<close>

definition ta_slice :: "jsnum list \<Rightarrow> int \<Rightarrow> int \<Rightarrow> jsnum list" where
  "ta_slice arr start final =
     (let len = int (length arr);
          k = (if start < 0 then max (len + start) 0 else min start len);
          e = (if final < 0 then max (len + final) 0 else min final len)
      in take (nat (e - k)) (drop (nat k) arr))"

text \<open>\<open>MathBackendCPU.slice1D\<close>; \<open>start\<close> is the argument \<open>begin\<close>.\<close>

definition slice1D_st :: "Tensor \<Rightarrow> int \<Rightarrow> int \<Rightarrow> store \<Rightarrow> Tensor \<times> store" where
  "slice1D_st x start size' st =
     (let (newVals, st1) = alloc (ta_slice (contents st (tvalues x)) start (start + size')) st
      in (make_st [length (contents st1 newVals)] newVals Float32, st1))"

definition slice2D_st :: "Tensor \<Rightarrow> int \<times> int \<Rightarrow> nat \<times> nat \<Rightarrow> store \<Rightarrow> Tensor \<times> store" where
  "slice2D_st x start size' st =
     (let (size0, size1) = size';
          (result, st1) = zeros_st [size0, size1] Float32 st;
          (startI, startJ) = start
      in (result,
          fold (\<lambda>i. fold (\<lambda>j st.
              let val = get_st st x [int i + startI, int j + startJ]
              in set_st result val [int i, int j] st)
            [0..<size1])
          [0..<size0] st1))"

definition slice3D_st ::
  "Tensor \<Rightarrow> int \<times> int \<times> int \<Rightarrow> nat \<times> nat \<times> nat \<Rightarrow> store \<Rightarrow> Tensor \<times> store" where
  "slice3D_st x start size' st =
     (let (size0, size1, size2) = size';
          (result, st1) = zeros_st [size0, size1, size2] Float32 st;
          (startI, startJ, startK) = start
      in (result,
          fold (\<lambda>i. fold (\<lambda>j. fold (\<lambda>k st.
              let val = get_st st x [int i + startI, int j + startJ, int k + startK]
              in set_st result val [int i, int j, int k] st)
            [0..<size2])
            [0..<size1])
          [0..<size0] st1))"

definition slice4D_st ::
  "Tensor \<Rightarrow> int \<times> int \<times> int \<times> int \<Rightarrow> nat \<times> nat \<times> nat \<times> nat \<Rightarrow> store \<Rightarrow> Tensor \<times> store" where
  "slice4D_st x start size' st =
     (let (size0, size1, size2, size3) = size';
          (result, st1) = zeros_st [size0, size1, size2, size3] Float32 st;
          (startI, startJ, startK, startL) = start
      in (result,
          fold (\<lambda>i. fold (\<lambda>j. fold (\<lambda>k. fold (\<lambda>l st.
              let val = get_st st x
                          [int i + startI, int j + startJ, int k + startK, int l + startL]
              in set_st result val [int i, int j, int k, int l] st)
            [0..<size3])
            [0..<size2])
            [0..<size1])
          [0..<size0] st1))"

text \<open>
  Modelled from the spec: \<open>concat_util.computeOutShape\<close> (concat_util.ts is not among the
  sources): the output shape of a concatenation is the shape of the first operand with
  the dimension of the second added along the axis. The operands have the same rank and
  the axis is one of their axes.
\<close>

definition computeOutShape :: "nat list \<Rightarrow> nat list \<Rightarrow> nat \<Rightarrow> nat list" where
  "computeOutShape shapeA shapeB axis = shapeA[axis := shapeA ! axis + shapeB ! axis]"

text \<open>
  \<open>target.set(source, offset)\<close> on typed arrays: a RangeError when the source does not
  fit, otherwise the elements of the source are stored from \<open>offset\<close> on.
\<close>

definition ta_set_all :: "dtype \<Rightarrow> nat \<Rightarrow> nat \<Rightarrow> nat \<Rightarrow> store \<Rightarrow> error option \<times> store" where
  "ta_set_all dt target source offset st =
     (if length (contents st target) < offset + length (contents st source)
      then (Some RangeError, st)
      else (None,
            fold (\<lambda>i st. store_at dt target (offset + i) (load st source i) st)
              [0..<length (contents st source)] st))"

text \<open>
  The branch of the concatenations along axis 0: \<open>vals.set(aVals, 0)\<close> and
  \<open>vals.set(bVals, a.size)\<close>.
\<close>

definition concat_axis0 :: "Tensor \<Rightarrow> Tensor \<Rightarrow> Tensor \<Rightarrow> store \<Rightarrow> (error + Tensor) \<times> store" where
  "concat_axis0 a b result st =
     (let aVals = tvalues a;
          bVals = tvalues b;
          vals = tvalues result
      in case ta_set_all (tdtype result) vals aVals 0 st of
           (Some e, st1) \<Rightarrow> (Inl e, st1)
         | (None, st1) \<Rightarrow>
             (case ta_set_all (tdtype result) vals bVals (tsize a) st1 of
                (Some e, st2) \<Rightarrow> (Inl e, st2)
              | (None, st2) \<Rightarrow> (Inr result, st2)))"

definition concat1D_st :: "Tensor \<Rightarrow> Tensor \<Rightarrow> store \<Rightarrow> (error + Tensor) \<times> store" where
  "concat1D_st a b st =
     (let outShape = computeOutShape (tshape a) (tshape b) 0;
          (result, st1) = zeros_st outShape Float32 st
      in concat_axis0 a b result st1)"

text \<open>
  The element the loops of the concatenations store at the location \<open>index\<close>: from \<open>a\<close>
  below its dimension along the axis, otherwise from \<open>b\<close> at the location moved back by
  that dimension. When the axis is not an axis of the location, \<open>index[axis]\<close> is
  \<open>undefined\<close>, the comparison is false, and \<open>b\<close> is read at the location as it is.
\<close>

definition concat_value :: "store \<Rightarrow> Tensor \<Rightarrow> Tensor \<Rightarrow> nat \<Rightarrow> int list \<Rightarrow> jsnum" where
  "concat_value st a b axis index =
     (if axis < length index \<and> index ! axis < int (tshape a ! axis) then get_st st a index
      else get_st st b (index[axis := index ! axis - int (tshape a ! axis)]))"

definition concat2D_st :: "Tensor \<Rightarrow> Tensor \<Rightarrow> nat \<Rightarrow> store \<Rightarrow> (error + Tensor) \<times> store" where
  "concat2D_st a b axis st =
     (let outShape = computeOutShape (tshape a) (tshape b) axis;
          (result, st1) = zeros_st outShape Float32 st
      in if axis = 0 then concat_axis0 a b result st1
         else
           (Inr result,
            fold (\<lambda>i. fold (\<lambda>j st.
                let value = concat_value st a b axis [int i, int j]
                in set_st result value [int i, int j] st)
              [0..<outShape ! 1])
            [0..<outShape ! 0] st1))"

definition concat3D_st :: "Tensor \<Rightarrow> Tensor \<Rightarrow> nat \<Rightarrow> store \<Rightarrow> (error + Tensor) \<times> store" where
  "concat3D_st a b axis st =
     (let outShape = computeOutShape (tshape a) (tshape b) axis;
          (result, st1) = zeros_st outShape Float32 st
      in if axis = 0 then concat_axis0 a b result st1
         else
           (Inr result,
            fold (\<lambda>i. fold (\<lambda>j. fold (\<lambda>k st.
                let value = concat_value st a b axis [int i, int j, int k]
                in set_st result value [int i, int j, int k] st)
              [0..<outShape ! 2])
              [0..<outShape ! 1])
            [0..<outShape ! 0] st1))"

definition concat4D_st :: "Tensor \<Rightarrow> Tensor \<Rightarrow> nat \<Rightarrow> store \<Rightarrow> (error + Tensor) \<times> store" where
  "concat4D_st a b axis st =
     (let outShape = computeOutShape (tshape a) (tshape b) axis;
          (result, st1) = zeros_st outShape Float32 st
      in if axis = 0 then concat_axis0 a b result st1
         else
           (Inr result,
            fold (\<lambda>i. fold (\<lambda>j. fold (\<lambda>k. fold (\<lambda>l st.
                let value = concat_value st a b axis [int i, int j, int k, int l]
                in set_st result value [int i, int j, int k, int l] st)
              [0..<outShape ! 3])
              [0..<outShape ! 2])
              [0..<outShape ! 1])
            [0..<outShape ! 0] st1))"

subsection \<open>Elementwise binary operations and the matrix product\<close>

definition broadcastedBinaryOp_st ::
  "Tensor \<Rightarrow> Tensor \<Rightarrow> dtype \<Rightarrow> (jsnum \<Rightarrow> jsnum \<Rightarrow> jsnum) \<Rightarrow> store
    \<Rightarrow> (error + Tensor) \<times> store" where
  "broadcastedBinaryOp_st a b dt op st =
     (case assertAndGetBroadcastShape (tshape a) (tshape b) of
        Inl e \<Rightarrow> (Inl e, st)
      | Inr newShape \<Rightarrow>
          let (result, st1) = zeros_st newShape dt st;
              newValues = tvalues result;
              aValues = tvalues a;
              bValues = tvalues b;
              aBroadcastDims = getBroadcastDims (tshape a) newShape;
              bBroadcastDims = getBroadcastDims (tshape b) newShape
          in (Inr result,
              fold (\<lambda>i st.
                  let loc = indexToLoc newShape i;
                      aLoc = fold (\<lambda>d aLoc. aLoc[d := 0]) aBroadcastDims
                               (slice_last (trank a) loc);
                      aIndex = locToIndex (tshape a) aLoc;
                      bLoc = fold (\<lambda>d bLoc. bLoc[d := 0]) bBroadcastDims
                               (slice_last (trank b) loc);
                      bIndex = locToIndex (tshape b) bLoc
                  in store_at dt newValues i
                       (op (load st aValues aIndex) (load st bValues bIndex)) st)
                [0..<length (contents st1 newValues)] st1))"

text \<open>
  \<open>Scalar.ONE\<close> and \<open>Scalar.NEG_ONE\<close> are tensors made once by ndarray.ts, which is not
  among the sources: they are the parameters \<open>ONE\<close> and \<open>NEG_ONE\<close>, tensors of the store
  like the operands. \<open>c.get()\<close> reads the element 0 of a scalar.
\<close>

definition scaledArrayAdd_st ::
  "Tensor \<Rightarrow> Tensor \<Rightarrow> Tensor \<Rightarrow> Tensor \<Rightarrow> store \<Rightarrow> (error + Tensor) \<times> store" where
  "scaledArrayAdd_st c1 a c2 b st =
     (let c1Val = load st (tvalues c1) 0;
          c2Val = load st (tvalues c2) 0
      in broadcastedBinaryOp_st a b Float32
           (\<lambda>aVal bVal. js_add (js_mul c1Val aVal) (js_mul c2Val bVal)) st)"

definition add_st :: "Tensor \<Rightarrow> Tensor \<Rightarrow> Tensor \<Rightarrow> store \<Rightarrow> (error + Tensor) \<times> store" where
  "add_st ONE a b st = scaledArrayAdd_st ONE a ONE b st"

definition subtract_st ::
  "Tensor \<Rightarrow> Tensor \<Rightarrow> Tensor \<Rightarrow> Tensor \<Rightarrow> store \<Rightarrow> (error + Tensor) \<times> store" where
  "subtract_st ONE NEG_ONE a b st = scaledArrayAdd_st ONE a NEG_ONE b st"

definition multiply_st :: "Tensor \<Rightarrow> Tensor \<Rightarrow> store \<Rightarrow> (error + Tensor) \<times> store" where
  "multiply_st a b st =
     (case assertAndGetBroadcastShape (tshape a) (tshape b) of
        Inl e \<Rightarrow> (Inl e, st)
      | Inr newShape \<Rightarrow>
          let (newValues, st1) = new_array (sizeFromShape newShape) st;
              aValues = tvalues a;
              bValues = tvalues b
          in (Inr (make_st newShape newValues Float32),
              fold (\<lambda>i st.
                  store_at Float32 newValues i
                    (js_mul (ta_get_mod (contents st aValues) i (tsize a))
                       (ta_get_mod (contents st bValues) i (tsize b))) st)
                [0..<length (contents st1 newValues)] st1))"

definition divide_st :: "Tensor \<Rightarrow> Tensor \<Rightarrow> store \<Rightarrow> (error + Tensor) \<times> store" where
  "divide_st a b st =
     (case assertAndGetBroadcastShape (tshape a) (tshape b) of
        Inl e \<Rightarrow> (Inl e, st)
      | Inr newShape \<Rightarrow>
          let (newValues, st1) = new_array (sizeFromShape newShape) st;
              aValues = tvalues a;
              bValues = tvalues b
          in (Inr (make_st newShape newValues Float32),
              fold (\<lambda>i st.
                  store_at Float32 newValues i
                    (js_div (ta_get_mod (contents st aValues) i (tsize a))
                       (ta_get_mod (contents st bValues) i (tsize b))) st)
                [0..<length (contents st1 newValues)] st1))"

definition neg_st :: "Tensor \<Rightarrow> Tensor \<Rightarrow> store \<Rightarrow> (error + Tensor) \<times> store" where
  "neg_st NEG_ONE x st = multiply_st NEG_ONE x st"

text \<open>
  \<open>util.isValNaN\<close> and \<open>util.getNaN\<close> are functions of util.ts, which is not among the
  sources: they are the parameters \<open>isValNaN\<close> and \<open>getNaN\<close>.
\<close>

definition equal_st ::
  "(jsnum \<Rightarrow> dtype \<Rightarrow> bool) \<Rightarrow> (dtype \<Rightarrow> jsnum) \<Rightarrow> Tensor \<Rightarrow> Tensor \<Rightarrow> store
    \<Rightarrow> (error + Tensor) \<times> store" where
  "equal_st isValNaN getNaN a b st =
     broadcastedBinaryOp_st a b Bool
       (\<lambda>aVal bVal.
          if isValNaN aVal (tdtype a) \<or> isValNaN bVal (tdtype b) then getNaN Bool
          else if js_eq aVal bVal then Fin 1 else Fin 0) st"

datatype MatrixOrientation = REGULAR | TRANSPOSED

text \<open>
  \<open>MathBackendCPU.matMul\<close>. The state of the two outer loops is the counter \<open>index\<close>
  and the store.
\<close>

definition matMul_st ::
  "Tensor \<Rightarrow> Tensor \<Rightarrow> MatrixOrientation \<Rightarrow> MatrixOrientation \<Rightarrow> store \<Rightarrow> Tensor \<times> store" where
  "matMul_st a b aOrientation bOrientation st =
     (let sharedDim = (if aOrientation = REGULAR then tshape a ! 1 else tshape a ! 0);
          leftDim = (if aOrientation = REGULAR then tshape a ! 0 else tshape a ! 1);
          rightDim = (if bOrientation = REGULAR then tshape b ! 1 else tshape b ! 0);
          normalGetter = (\<lambda>st matrix i j. get_st st matrix [int i, int j]);
          transposedGetter = (\<lambda>st matrix i j. get_st st matrix [int j, int i]);
          aGetter = (if aOrientation = REGULAR then normalGetter else transposedGetter);
          bGetter = (if bOrientation = REGULAR then normalGetter else transposedGetter);
          (values, st1) = new_array (leftDim * rightDim) st
      in (make_st [leftDim, rightDim] values Float32,
          snd (fold (\<lambda>i. fold (\<lambda>j (index, st).
                 let sum' = fold (\<lambda>k sum'.
                                js_add sum' (js_mul (aGetter st a i k) (bGetter st b k j)))
                              [0..<sharedDim] (Fin 0)
                 in (Suc index, store_at Float32 values index sum' st))
               [0..<rightDim])
             [0..<leftDim] (0, st1))))"

subsection \<open>Reductions and top-k\<close>

text \<open>
  \<open>SumTypesMap\<close> is a table of types.ts, which is not among the sources: it is the
  parameter \<open>SumTypesMap\<close>.
\<close>

definition sum_st ::
  "(dtype \<Rightarrow> dtype) \<Rightarrow> Tensor \<Rightarrow> nat list \<Rightarrow> store \<Rightarrow> (error + Tensor) \<times> store" where
  "sum_st SumTypesMap x axes st =
     (if \<not> axesAreInnerMostDims axes (trank x) then (Inl AxesNotInnerMost, st)
      else
        let (outShape, reduceShape) = computeOutAndReduceShapes (tshape x) axes;
            resultDtype = SumTypesMap (tdtype x);
            (result, st1) = zeros_st outShape resultDtype st;
            reduceSize = sizeFromShape reduceShape;
            vals = tvalues result;
            aVals = tvalues x
        in (Inr result,
            fold (\<lambda>i st.
                let offset = i * reduceSize;
                    sum' = fold (\<lambda>j sum'. js_add sum' (load st aVals (offset + j)))
                             [0..<reduceSize] (Fin 0)
                in store_at resultDtype vals i sum' st)
              [0..<length (contents st1 vals)] st1))"

definition argMin_st ::
  "int \<Rightarrow> Tensor \<Rightarrow> nat list \<Rightarrow> store \<Rightarrow> (error + Tensor) \<times> store" where
  "argMin_st nanIdx x axes st =
     (if \<not> axesAreInnerMostDims axes (trank x) then (Inl AxesNotInnerMost, st)
      else
        let (outShape, reduceShape) = computeOutAndReduceShapes (tshape x) axes;
            (result, st1) = zeros_st outShape Int32 st;
            reduceSize = sizeFromShape reduceShape;
            vals = tvalues result;
            aVals = tvalues x
        in (Inr result,
            fold (\<lambda>i st.
                let offset = i * reduceSize;
                    minIndex = argMin_scan (contents st aVals) offset nanIdx [0..<reduceSize]
                                 (load st aVals offset) 0
                in store_at Int32 vals i (Fin (of_int minIndex)) st)
              [0..<length (contents st1 vals)] st1))"

definition argMax_st ::
  "int \<Rightarrow> Tensor \<Rightarrow> nat list \<Rightarrow> store \<Rightarrow> (error + Tensor) \<times> store" where
  "argMax_st nanIdx x axes st =
     (if \<not> axesAreInnerMostDims axes (trank x) then (Inl AxesNotInnerMost, st)
      else
        let (outShape, reduceShape) = computeOutAndReduceShapes (tshape x) axes;
            (result, st1) = zeros_st outShape Int32 st;
            reduceSize = sizeFromShape reduceShape;
            vals = tvalues result;
            aVals = tvalues x
        in (Inr result,
            fold (\<lambda>i st.
                let offset = i * reduceSize;
                    maxIndex = argMax_scan (contents st aVals) offset nanIdx [0..<reduceSize]
                                 (load st aVals offset) 0
                in store_at Int32 vals i (Fin (of_int maxIndex)) st)
              [0..<length (contents st1 vals)] st1))"

text \<open>The inner loop of \<open>max\<close>, as \<open>min_scan\<close> is the one of \<open>min\<close>.\<close>

fun max_scan :: "jsnum list \<Rightarrow> nat \<Rightarrow> nat list \<Rightarrow> jsnum \<Rightarrow> jsnum" where
  "max_scan aVals offset [] m = m"
| "max_scan aVals offset (j # js) m =
     (let v = ta_get aVals (offset + j) in
      if isNaN v then NaN
      else if js_less m v then max_scan aVals offset js v
      else max_scan aVals offset js m)"

definition min_st :: "Tensor \<Rightarrow> nat list \<Rightarrow> store \<Rightarrow> (error + Tensor) \<times> store" where
  "min_st x axes st =
     (if \<not> axesAreInnerMostDims axes (trank x) then (Inl AxesNotInnerMost, st)
      else
        let (outShape, reduceShape) = computeOutAndReduceShapes (tshape x) axes;
            (result, st1) = zeros_st outShape (tdtype x) st;
            reduceSize = sizeFromShape reduceShape;
            vals = tvalues result;
            aVals = tvalues x
        in (Inr result,
            fold (\<lambda>i st.
                let offset = i * reduceSize;
                    m = min_scan (contents st aVals) offset [0..<reduceSize] (load st aVals 0)
                in store_at (tdtype x) vals i m st)
              [0..<length (contents st1 vals)] st1))"

definition max_st :: "Tensor \<Rightarrow> nat list \<Rightarrow> store \<Rightarrow> (error + Tensor) \<times> store" where
  "max_st x axes st =
     (if \<not> axesAreInnerMostDims axes (trank x) then (Inl AxesNotInnerMost, st)
      else
        let (outShape, reduceShape) = computeOutAndReduceShapes (tshape x) axes;
            (result, st1) = zeros_st outShape (tdtype x) st;
            reduceSize = sizeFromShape reduceShape;
            vals = tvalues result;
            aVals = tvalues x
        in (Inr result,
            fold (\<lambda>i st.
                let offset = i * reduceSize;
                    m = max_scan (contents st aVals) offset [0..<reduceSize]
                          (load st aVals offset)
                in store_at (tdtype x) vals i m st)
              [0..<length (contents st1 vals)] st1))"

text \<open>
  Allocation of a typed array of \<open>k\<close> elements, \<open>k\<close> a number: a negative length, or one
  above the limit of the runtime for the element type, throws a RangeError and allocates
  nothing.
\<close>

definition new_array_int :: "nat \<Rightarrow> int \<Rightarrow> store \<Rightarrow> (error + nat) \<times> store" where
  "new_array_int limit k st =
     (if k < 0 \<or> int limit < k then (Inl RangeError, st)
      else let (a, st1) = new_array (nat k) st in (Inr a, st1))"

fun topK_copy_st ::
  "(jsnum \<times> nat) list \<Rightarrow> dtype \<Rightarrow> nat \<Rightarrow> nat \<Rightarrow> nat list \<Rightarrow> store \<Rightarrow> error option \<times> store" where
  "topK_copy_st valuesAndIndices dt topkValues topkIndices [] st = (None, st)"
| "topK_copy_st valuesAndIndices dt topkValues topkIndices (i # is) st =
     (if i < length valuesAndIndices
      then topK_copy_st valuesAndIndices dt topkValues topkIndices is
             (store_at Int32 topkIndices i (Fin (of_nat (snd (valuesAndIndices ! i))))
                (store_at dt topkValues i (fst (valuesAndIndices ! i)) st))
      else (Some TypeError, st))"

definition topK_st ::
  "(dtype \<Rightarrow> nat) \<Rightarrow> Tensor \<Rightarrow> int \<Rightarrow> store \<Rightarrow> (error + Tensor \<times> Tensor) \<times> store" where
  "topK_st maxLength ndarray k st =
     (let values = tvalues ndarray;
          valuesAndIndices =
            js_sort (\<lambda>a b. js_sub (fst b) (fst a))
              (map (\<lambda>i. (load st values i, i)) [0..<length (contents st values)])
      in case new_array_int (maxLength (tdtype ndarray)) k st of
           (Inl e, st1) \<Rightarrow> (Inl e, st1)
         | (Inr topkValues, st1) \<Rightarrow>
             (case new_array_int (maxLength Int32) k st1 of
                (Inl e, st2) \<Rightarrow> (Inl e, st2)
              | (Inr topkIndices, st2) \<Rightarrow>
                  (case topK_copy_st valuesAndIndices (tdtype ndarray) topkValues topkIndices
                          [0..<nat k] st2 of
                     (Some e, st3) \<Rightarrow> (Inl e, st3)
                   | (None, st3) \<Rightarrow>
                       (Inr (make_st [length (contents st3 topkValues)] topkValues Float32,
                             make_st [length (contents st3 topkIndices)] topkIndices Float32),
                        st3))))"

definition topKValues_st ::
  "(dtype \<Rightarrow> nat) \<Rightarrow> Tensor \<Rightarrow> int \<Rightarrow> store \<Rightarrow> (error + Tensor) \<times> store" where
  "topKValues_st maxLength x k st =
     (case topK_st maxLength x k st of
        (Inl e, st1) \<Rightarrow> (Inl e, st1)
      | (Inr r, st1) \<Rightarrow> (Inr (fst r), st1))"

definition topKIndices_st ::
  "(dtype \<Rightarrow> nat) \<Rightarrow> Tensor \<Rightarrow> int \<Rightarrow> store \<Rightarrow> (error + Tensor) \<times> store" where
  "topKIndices_st maxLength x k st =
     (case topK_st maxLength x k st of
        (Inl e, st1) \<Rightarrow> (Inl e, st1)
      | (Inr r, st1) \<Rightarrow> (Inr (snd r), st1))"

subsection \<open>Elementwise unary operations\<close>

text \<open>
  \<open>Math.ceil\<close>, \<open>Math.abs\<close>, \<open>Math.max\<close> and \<open>Math.min\<close> on numbers. The transcendental
  functions of the runtime (\<open>Math.exp\<close>, \<open>Math.log\<close>, \<open>Math.sqrt\<close>, the trigonometric and
  hyperbolic ones) and \<open>util.tanh\<close> are parameters of the kernels that call them.
\<close>

fun js_ceil :: "jsnum \<Rightarrow> jsnum" where
  "js_ceil (Fin r) = Fin (of_int \<lceil>r\<rceil>)"
| "js_ceil v = v"

fun js_abs :: "jsnum \<Rightarrow> jsnum" where
  "js_abs (Fin r) = Fin \<bar>r\<bar>"
| "js_abs NegInf = PosInf"
| "js_abs v = v"

definition js_max :: "jsnum \<Rightarrow> jsnum \<Rightarrow> jsnum" where
  "js_max a b = (if isNaN a \<or> isNaN b then NaN else if js_less a b then b else a)"

definition js_min :: "jsnum \<Rightarrow> jsnum \<Rightarrow> jsnum" where
  "js_min a b = (if isNaN a \<or> isNaN b then NaN else if js_less b a then b else a)"

text \<open>
  The loop the elementwise kernels share: \<open>newValues[i] = f(values[i])\<close> for every \<open>i\<close>
  below \<open>values.length\<close>, into a new \<open>Float32Array\<close> of \<open>n\<close> elements that \<open>NDArray.make\<close>
  wraps with the shape of the operand. The kernels from \<open>ceil\<close> to \<open>square\<close> allocate
  \<open>values.length\<close> elements, the others \<open>x.size\<close>.
\<close>

definition map_values :: "nat \<Rightarrow> (jsnum \<Rightarrow> jsnum) \<Rightarrow> Tensor \<Rightarrow> store \<Rightarrow> Tensor \<times> store" where
  "map_values n f x st =
     (let values = tvalues x;
          (newValues, st1) = new_array n st
      in (make_st (tshape x) newValues Float32,
          fold (\<lambda>i st. store_at Float32 newValues i (f (load st values i)) st)
            [0..<length (contents st1 values)] st1))"

definition ceil_st :: "Tensor \<Rightarrow> store \<Rightarrow> Tensor \<times> store" where
  "ceil_st x st = map_values (length (contents st (tvalues x))) js_ceil x st"

definition floor_st :: "Tensor \<Rightarrow> store \<Rightarrow> Tensor \<times> store" where
  "floor_st x st = map_values (length (contents st (tvalues x))) js_floor x st"

definition exp_st :: "(jsnum \<Rightarrow> jsnum) \<Rightarrow> Tensor \<Rightarrow> store \<Rightarrow> Tensor \<times> store" where
  "exp_st Math_exp x st = map_values (length (contents st (tvalues x))) Math_exp x st"

definition log_st :: "(jsnum \<Rightarrow> jsnum) \<Rightarrow> Tensor \<Rightarrow> store \<Rightarrow> Tensor \<times> store" where
  "log_st Math_log x st = map_values (length (contents st (tvalues x))) Math_log x st"

definition sqrt_st :: "(jsnum \<Rightarrow> jsnum) \<Rightarrow> Tensor \<Rightarrow> store \<Rightarrow> Tensor \<times> store" where
  "sqrt_st Math_sqrt x st = map_values (length (contents st (tvalues x))) Math_sqrt x st"

definition square_st :: "Tensor \<Rightarrow> store \<Rightarrow> Tensor \<times> store" where
  "square_st x st =
     map_values (length (contents st (tvalues x))) (\<lambda>value. js_mul value value) x st"

definition relu_st ::
  "(jsnum \<Rightarrow> dtype \<Rightarrow> bool) \<Rightarrow> (dtype \<Rightarrow> jsnum) \<Rightarrow> Tensor \<Rightarrow> store \<Rightarrow> Tensor \<times> store" where
  "relu_st isValNaN getNaN x st =
     (let (res, st1) = zeros_st (tshape x) (tdtype x) st;
          resVals = tvalues res;
          inVals = tvalues x
      in (res,
          fold (\<lambda>i st.
              let val = load st inVals i
              in if isValNaN val (tdtype x)
                 then store_at (tdtype res) resVals i (getNaN (tdtype res)) st
                 else store_at (tdtype res) resVals i (js_max (Fin 0) (load st inVals i)) st)
            [0..<length (contents st1 inVals)] st1))"

definition elu_st :: "(jsnum \<Rightarrow> jsnum) \<Rightarrow> Tensor \<Rightarrow> store \<Rightarrow> Tensor \<times> store" where
  "elu_st Math_exp x st =
     map_values (tsize x)
       (\<lambda>v. if js_ge v (Fin 0) then v else js_sub (Math_exp v) (Fin 1)) x st"

definition eluDer_st :: "(jsnum \<Rightarrow> jsnum) \<Rightarrow> Tensor \<Rightarrow> store \<Rightarrow> Tensor \<times> store" where
  "eluDer_st Math_exp x st =
     map_values (tsize x) (\<lambda>v. if js_ge v (Fin 0) then Fin 1 else Math_exp v) x st"

text \<open>The two constants of \<open>selu\<close>, as the decimal fractions the source writes.\<close>

definition selu_scaleAlpha :: jsnum where
  "selu_scaleAlpha = Fin (17580993408473768599402175208123 / 10000000000000000000000000000000)"

definition selu_scale :: jsnum where
  "selu_scale = Fin (10507009873554804934193349852946 / 10000000000000000000000000000000)"

definition selu_st :: "(jsnum \<Rightarrow> jsnum) \<Rightarrow> Tensor \<Rightarrow> store \<Rightarrow> Tensor \<times> store" where
  "selu_st Math_exp x st =
     map_values (tsize x)
       (\<lambda>v. if js_ge v (Fin 0) then js_mul selu_scale v
            else js_mul selu_scaleAlpha (js_sub (Math_exp v) (Fin 1))) x st"

definition leakyRelu_st :: "Tensor \<Rightarrow> jsnum \<Rightarrow> store \<Rightarrow> Tensor \<times> store" where
  "leakyRelu_st x alpha st =
     map_values (tsize x) (\<lambda>v. if js_ge v (Fin 0) then v else js_mul alpha v) x st"

definition clip_st :: "Tensor \<Rightarrow> jsnum \<Rightarrow> jsnum \<Rightarrow> store \<Rightarrow> Tensor \<times> store" where
  "clip_st x min' max' st =
     map_values (tsize x) (\<lambda>value. js_min max' (js_max min' value)) x st"

definition abs_st :: "Tensor \<Rightarrow> store \<Rightarrow> Tensor \<times> store" where
  "abs_st x st = map_values (tsize x) js_abs x st"

definition sigmoid_st :: "(jsnum \<Rightarrow> jsnum) \<Rightarrow> Tensor \<Rightarrow> store \<Rightarrow> Tensor \<times> store" where
  "sigmoid_st Math_exp x st =
     map_values (tsize x)
       (\<lambda>value. js_div (Fin 1) (js_add (Fin 1) (Math_exp (js_neg value)))) x st"

definition sin_st :: "(jsnum \<Rightarrow> jsnum) \<Rightarrow> Tensor \<Rightarrow> store \<Rightarrow> Tensor \<times> store" where
  "sin_st Math_sin x st = map_values (tsize x) Math_sin x st"

definition cos_st :: "(jsnum \<Rightarrow> jsnum) \<Rightarrow> Tensor \<Rightarrow> store \<Rightarrow> Tensor \<times> store" where
  "cos_st Math_cos x st = map_values (tsize x) Math_cos x st"

definition tan_st :: "(jsnum \<Rightarrow> jsnum) \<Rightarrow> Tensor \<Rightarrow> store \<Rightarrow> Tensor \<times> store" where
  "tan_st Math_tan x st = map_values (tsize x) Math_tan x st"

definition asin_st :: "(jsnum \<Rightarrow> jsnum) \<Rightarrow> Tensor \<Rightarrow> store \<Rightarrow> Tensor \<times> store" where
  "asin_st Math_asin x st = map_values (tsize x) Math_asin x st"

definition acos_st :: "(jsnum \<Rightarrow> jsnum) \<Rightarrow> Tensor \<Rightarrow> store \<Rightarrow> Tensor \<times> store" where
  "acos_st Math_acos x st = map_values (tsize x) Math_acos x st"

definition atan_st :: "(jsnum \<Rightarrow> jsnum) \<Rightarrow> Tensor \<Rightarrow> store \<Rightarrow> Tensor \<times> store" where
  "atan_st Math_atan x st = map_values (tsize x) Math_atan x st"

definition sinh_st :: "(jsnum \<Rightarrow> jsnum) \<Rightarrow> Tensor \<Rightarrow> store \<Rightarrow> Tensor \<times> store" where
  "sinh_st Math_sinh x st = map_values (tsize x) Math_sinh x st"

definition cosh_st :: "(jsnum \<Rightarrow> jsnum) \<Rightarrow> Tensor \<Rightarrow> store \<Rightarrow> Tensor \<times> store" where
  "cosh_st Math_cosh x st = map_values (tsize x) Math_cosh x st"

definition tanh_st :: "(jsnum \<Rightarrow> jsnum) \<Rightarrow> Tensor \<Rightarrow> store \<Rightarrow> Tensor \<times> store" where
  "tanh_st util_tanh x st = map_values (tsize x) util_tanh x st"

definition step_st :: "Tensor \<Rightarrow> jsnum \<Rightarrow> store \<Rightarrow> Tensor \<times> store" where
  "step_st x alpha st =
     map_values (tsize x)
       (\<lambda>value. if js_less (Fin 0) value then Fin 1
                else if js_less value (Fin 0) then alpha else value) x st"

subsection \<open>Convolutions\<close>

definition conv2d_st ::
  "Tensor \<Rightarrow> Tensor \<Rightarrow> Tensor option \<Rightarrow> Conv2DInfo \<Rightarrow> store \<Rightarrow> Tensor \<times> store" where
  "conv2d_st x filter' bias convInfo st =
     (let filterHeight = int (filterHeight convInfo);
          filterWidth = int (filterWidth convInfo);
          padLeft = padLeft convInfo;
          padTop = padTop convInfo;
          (y, st1) = zeros_st (outShape convInfo) Float32 st
      in (y,
          fold (\<lambda>b. fold (\<lambda>d2. fold (\<lambda>yR.
            let xRCorner = int yR * int (strideHeight convInfo) - padLeft;
                xRMin = max 0 xRCorner;
                xRMax = min (int (inHeight convInfo)) (filterHeight + xRCorner)
            in fold (\<lambda>yC st.
                 let xCCorner = int yC * int (strideWidth convInfo) - padTop;
                     xCMin = max 0 xCCorner;
                     xCMax = min (int (inWidth convInfo)) (filterWidth + xCCorner);
                     dotProd = fold (\<lambda>xR.
                         let wR = xR - xRCorner
                         in fold (\<lambda>xC.
                              let wC = xC - xCCorner
                              in fold (\<lambda>d1 dotProd.
                                   let pixel = get_st st x [int b, xR, xC, int d1];
                                       weight = get_st st filter' [wR, wC, int d1, int d2]
                                   in js_add dotProd (js_mul pixel weight))
                                 [0..<inChannels convInfo])
                            (int_range xCMin xCMax))
                       (int_range xRMin xRMax) (Fin 0);
                     biasVal = (case bias of Some bv \<Rightarrow> get_st st bv [int d2] | None \<Rightarrow> Fin 0)
                 in set_st y (js_add dotProd biasVal) [int b, int yR, int yC, int d2] st)
              [0..<outWidth convInfo])
            [0..<outHeight convInfo])
            [0..<outChannels convInfo])
          [0..<batchSize convInfo] st1))"

text \<open>
  \<open>for (v = lo; v < hi; ++v)\<close> with bounds that are numbers, \<open>lo\<close> an integer, an
  infinity or NaN: the integers from \<open>lo\<close> below \<open>hi\<close>. The loop does not run when
  \<open>lo\<close> is \<open>+Infinity\<close> or a bound is NaN. In the two gradient passes the upper bounds
  are \<open>Math.min\<close> of a dimension and a quotient and are never \<open>+Infinity\<close>, and the lower
  bounds are \<open>Math.max\<close> of 0 and a number and are never \<open>-Infinity\<close>. In
  \<open>depthwiseConv2D\<close> the upper bound is the quotient \<open>chMul\<close>, which is \<open>+Infinity\<close> or NaN
  only when there is no input channel, and then the loop is not reached.
\<close>

fun js_range :: "jsnum \<Rightarrow> jsnum \<Rightarrow> int list" where
  "js_range (Fin lo) (Fin hi) = int_range \<lceil>lo\<rceil> \<lceil>hi\<rceil>"
| "js_range _ _ = []"

definition conv2dDerInput_st :: "Tensor \<Rightarrow> Tensor \<Rightarrow> Conv2DInfo \<Rightarrow> store \<Rightarrow> Tensor \<times> store" where
  "conv2dDerInput_st dy filter' convInfo st =
     (let filterHeight = int (filterHeight convInfo);
          filterWidth = int (filterWidth convInfo);
          topPad = filterHeight - 1 - padTop convInfo;
          leftPad = filterWidth - 1 - padLeft convInfo;
          strideHeight = int (strideHeight convInfo);
          strideWidth = int (strideWidth convInfo);
          (dx, st1) = zeros_st (inShape convInfo) Float32 st
      in (dx,
          fold (\<lambda>b. fold (\<lambda>d1. fold (\<lambda>xR.
            let xRCorner = int xR - leftPad;
                xRMin = js_max (Fin 0)
                          (js_ceil (js_div (Fin (of_int xRCorner)) (Fin (of_int strideHeight))));
                yRMax = js_min (Fin (of_nat (outHeight convInfo)))
                          (js_div (Fin (of_int (filterHeight + xRCorner)))
                             (Fin (of_int strideHeight)))
            in fold (\<lambda>xC st.
                 let xCCorner = int xC - topPad;
                     xCMin = js_max (Fin 0)
                               (js_ceil (js_div (Fin (of_int xCCorner))
                                  (Fin (of_int strideWidth))));
                     yCMax = js_min (Fin (of_nat (outWidth convInfo)))
                               (js_div (Fin (of_int (filterWidth + xCCorner)))
                                  (Fin (of_int strideWidth)));
                     dotProd = fold (\<lambda>yR.
                         let wR = yR * strideHeight - xRCorner
                         in fold (\<lambda>yC.
                              let wC = yC * strideWidth - xCCorner
                              in fold (\<lambda>d2 dotProd.
                                   let pixel = get_st st dy [int b, yR, yC, int d2];
                                       weight = get_st st filter'
                                         [filterHeight - 1 - wR, filterWidth - 1 - wC,
                                          int d1, int d2]
                                   in js_add dotProd (js_mul pixel weight))
                                 [0..<outChannels convInfo])
                            (js_range xCMin yCMax))
                       (js_range xRMin yRMax) (Fin 0)
                 in set_st dx dotProd [int b, int xR, int xC, int d1] st)
              [0..<inWidth convInfo])
            [0..<inHeight convInfo])
            [0..<inChannels convInfo])
          [0..<batchSize convInfo] st1))"

definition conv2dDerFilter_st :: "Tensor \<Rightarrow> Tensor \<Rightarrow> Conv2DInfo \<Rightarrow> store \<Rightarrow> Tensor \<times> store" where
  "conv2dDerFilter_st x dy convInfo st =
     (let strideHeight = int (strideHeight convInfo);
          strideWidth = int (strideWidth convInfo);
          (dW, st1) = zeros_st (filterShape convInfo) Float32 st;
          leftPad = padLeft convInfo;
          topPad = padTop convInfo
      in (dW,
          fold (\<lambda>wR.
            let yRMin = js_max (Fin 0)
                          (js_ceil (js_div (Fin (of_int (topPad - int wR)))
                             (Fin (of_int strideHeight))));
                yRMax = js_min (Fin (of_nat (outHeight convInfo)))
                          (js_div (Fin (of_int (int (inHeight convInfo) + topPad - int wR)))
                             (Fin (of_int strideHeight)))
            in fold (\<lambda>wC.
                 let yCMin = js_max (Fin 0)
                               (js_ceil (js_div (Fin (of_int (leftPad - int wC)))
                                  (Fin (of_int strideWidth))));
                     yCMax = js_min (Fin (of_nat (outWidth convInfo)))
                               (js_div (Fin (of_int (int (inWidth convInfo) + leftPad - int wC)))
                                  (Fin (of_int strideWidth)))
                 in fold (\<lambda>d1. fold (\<lambda>d2 st.
                      let dotProd = fold (\<lambda>b. fold (\<lambda>yR.
                              let xR = int wR + yR * strideHeight - topPad
                              in fold (\<lambda>yC dotProd.
                                   let xC = int wC + yC * strideWidth - leftPad
                                   in js_add dotProd
                                        (js_mul (get_st st x [int b, xR, xC, int d1])
                                           (get_st st dy [int b, yR, yC, int d2])))
                                 (js_range yCMin yCMax))
                            (js_range yRMin yRMax))
                          [0..<batchSize convInfo] (Fin 0)
                      in set_st dW dotProd [int wR, int wC, int d1, int d2] st)
                    [0..<outChannels convInfo])
                   [0..<inChannels convInfo])
              [0..<filterWidth convInfo])
          [0..<filterHeight convInfo] st1))"

definition conv2dDerBias_st :: "Tensor \<Rightarrow> store \<Rightarrow> Tensor \<times> store" where
  "conv2dDerBias_st dy st =
     (let batchSize = tshape dy ! 0;
          numRows = tshape dy ! 1;
          numCols = tshape dy ! 2;
          outDepth = tshape dy ! 3;
          (values, st1) = new_array outDepth st
      in (make_st [length (contents st1 values)] values Float32,
          fold (\<lambda>d2 st.
              let sum' = fold (\<lambda>b. fold (\<lambda>r. fold (\<lambda>c sum'.
                             js_add sum' (get_st st dy [int b, int r, int c, int d2]))
                           [0..<numCols]) [0..<numRows]) [0..<batchSize] (Fin 0)
              in store_at Float32 values d2 sum' st)
            [0..<outDepth] st1))"

text \<open>
  \<open>MathBackendCPU.depthwiseConv2D\<close>. The channel multiplier \<open>chMul\<close> is a quotient, and
  so is the channel \<open>d1 * chMul + q\<close> the element is stored at.
\<close>

definition depthwiseConv2D_st :: "Tensor \<Rightarrow> Tensor \<Rightarrow> Conv2DInfo \<Rightarrow> store \<Rightarrow> Tensor \<times> store" where
  "depthwiseConv2D_st x filter' convInfo st =
     (let filterHeight = int (filterHeight convInfo);
          filterWidth = int (filterWidth convInfo);
          padLeft = padLeft convInfo;
          padTop = padTop convInfo;
          chMul = js_div (Fin (of_nat (outChannels convInfo))) (Fin (of_nat (inChannels convInfo)));
          (y, st1) = zeros_st (outShape convInfo) Float32 st
      in (y,
          fold (\<lambda>b. fold (\<lambda>d1. fold (\<lambda>yR.
            let xRCorner = int yR * int (strideHeight convInfo) - padLeft;
                xRMin = max 0 xRCorner;
                xRMax = min (int (inHeight convInfo)) (filterHeight + xRCorner)
            in fold (\<lambda>yC.
                 let xCCorner = int yC * int (strideWidth convInfo) - padTop;
                     xCMin = max 0 xCCorner;
                     xCMax = min (int (inWidth convInfo)) (filterWidth + xCCorner)
                 in fold (\<lambda>q st.
                      let dotProd = fold (\<lambda>xR.
                              let wR = xR - xRCorner
                              in fold (\<lambda>xC dotProd.
                                   let wC = xC - xCCorner;
                                       pixel = get_st st x [int b, xR, xC, int d1];
                                       weight = get_st st filter' [wR, wC, int d1, q]
                                   in js_add dotProd (js_mul pixel weight))
                                 (int_range xCMin xCMax))
                            (int_range xRMin xRMax) (Fin 0)
                      in set_js y dotProd
                           [Fin (of_nat b), Fin (of_nat yR), Fin (of_nat yC),
                            js_add (js_mul (Fin (of_nat d1)) chMul) (Fin (of_int q))] st)
                    (js_range (Fin 0) chMul))
              [0..<outWidth convInfo])
            [0..<outHeight convInfo])
            [0..<inChannels convInfo])
          [0..<batchSize convInfo] st1))"

subsection \<open>Tiling and transposition\<close>

text \<open>
  \<open>MathBackendCPU.tile\<close>. \<open>reps\<close> has an entry for every axis of \<open>x\<close>. Each of the three
  dtypes has its typed array, so the error for an unknown dtype is not raised. A dimension
  of \<open>x\<close> that is 0 makes the result empty, so no remainder by 0 is taken.
\<close>

definition tile_st :: "Tensor \<Rightarrow> nat list \<Rightarrow> store \<Rightarrow> Tensor \<times> store" where
  "tile_st x reps st =
     (let newShape = map (\<lambda>i. tshape x ! i * reps ! i) [0..<trank x];
          (resultValues, st1) = new_array (sizeFromShape newShape) st;
          result = make_st newShape resultValues (tdtype x);
          values = tvalues x
      in (result,
          fold (\<lambda>i st.
              let newLoc = indexToLoc (tshape result) i;
                  originalLoc = map (\<lambda>i. newLoc ! i mod tshape x ! i) [0..<trank x];
                  originalIndex = locToIndex (tshape x) originalLoc
              in store_at (tdtype x) resultValues i (load st values originalIndex) st)
            [0..<tsize result] st1))"

text \<open>\<open>MathBackendCPU.transpose\<close>. \<open>perm\<close> holds an axis of \<open>x\<close> for every axis of \<open>x\<close>.\<close>

definition transpose_st :: "Tensor \<Rightarrow> nat list \<Rightarrow> store \<Rightarrow> Tensor \<times> store" where
  "transpose_st x perm st =
     (let newShape = map (\<lambda>i. tshape x ! (perm ! i)) [0..<trank x];
          (resultValues, st1) = new_array (tsize x) st;
          values = tvalues x;
          result = make_st newShape resultValues Float32
      in (result,
          fold (\<lambda>i st.
              let loc = indexToLoc (tshape x) i;
                  newLoc = map (\<lambda>i. loc ! (perm ! i)) [0..<length loc];
                  newIndex = locToIndex (tshape result) newLoc
              in store_at Float32 resultValues newIndex (load st values i) st)
            [0..<tsize x] st1))"

subsection \<open>Pooling\<close>

datatype PoolType = PoolMax | PoolMin | PoolAvg

text \<open>
  The two loops of \<open>pool\<close> over a window, over the remaining columns and rows, with the
  state \<open>(minMaxValue, avgValue)\<close>. A NaN element makes both NaN and ends the loop over
  the columns; the loop over the rows ends after the row that left \<open>minMaxValue\<close> NaN.
\<close>

fun pool_columns ::
  "store \<Rightarrow> Tensor \<Rightarrow> PoolType \<Rightarrow> int \<Rightarrow> int \<Rightarrow> int \<Rightarrow> int \<Rightarrow> int list \<Rightarrow> jsnum \<times> jsnum
    \<Rightarrow> jsnum \<times> jsnum" where
  "pool_columns st x poolType area b d xR [] (minMaxValue, avgValue) = (minMaxValue, avgValue)"
| "pool_columns st x poolType area b d xR (xC # xCs) (minMaxValue, avgValue) =
     (let pixel = get_st st x [b, xR, xC, d]
      in if isNaN pixel then (NaN, NaN)
         else if (poolType = PoolMax \<and> js_less minMaxValue pixel)
                 \<or> (poolType = PoolMin \<and> js_less pixel minMaxValue)
         then pool_columns st x poolType area b d xR xCs (pixel, avgValue)
         else if poolType = PoolAvg
         then pool_columns st x poolType area b d xR xCs
                (minMaxValue, js_add avgValue (js_div pixel (Fin (of_int area))))
         else pool_columns st x poolType area b d xR xCs (minMaxValue, avgValue))"

fun pool_rows ::
  "store \<Rightarrow> Tensor \<Rightarrow> PoolType \<Rightarrow> int \<Rightarrow> int \<Rightarrow> int \<Rightarrow> int list \<Rightarrow> int list \<Rightarrow> jsnum \<times> jsnum
    \<Rightarrow> jsnum \<times> jsnum" where
  "pool_rows st x poolType area b d [] xCs s = s"
| "pool_rows st x poolType area b d (xR # xRs) xCs s =
     (let s' = pool_columns st x poolType area b d xR xCs s
      in if isNaN (fst s') then s' else pool_rows st x poolType area b d xRs xCs s')"

definition pool_st :: "Tensor \<Rightarrow> Conv2DInfo \<Rightarrow> PoolType \<Rightarrow> store \<Rightarrow> Tensor \<times> store" where
  "pool_st x convInfo poolType st =
     (let strideHeight = int (strideHeight convInfo);
          strideWidth = int (strideWidth convInfo);
          filterHeight = int (filterHeight convInfo);
          filterWidth = int (filterWidth convInfo);
          (y, st1) = zeros_st (outShape convInfo) Float32 st;
          padTop = padTop convInfo;
          padLeft = padLeft convInfo
      in (y,
          fold (\<lambda>b. fold (\<lambda>d. fold (\<lambda>yR.
            let xRCorner = int yR * strideHeight - padTop;
                xRMin = max 0 xRCorner;
                xRMax = min (int (inHeight convInfo)) (filterHeight + xRCorner)
            in fold (\<lambda>yC st.
                 let xCCorner = int yC * strideWidth - padLeft;
                     xCMin = max 0 xCCorner;
                     xCMax = min (int (inWidth convInfo)) (filterWidth + xCCorner);
                     (minMaxValue, avgValue) =
                       pool_rows st x poolType (filterHeight * filterWidth) (int b) (int d)
                         (int_range xRMin xRMax) (int_range xCMin xCMax)
                         (if poolType = PoolMax then NegInf else PosInf, Fin 0)
                 in set_st y (if poolType = PoolAvg then avgValue else minMaxValue)
                      [int b, int yR, int yC, int d] st)
              [0..<outWidth convInfo])
            [0..<outHeight convInfo])
            [0..<inChannels convInfo])
          [0..<batchSize convInfo] st1))"

definition maxPool_st :: "Tensor \<Rightarrow> Conv2DInfo \<Rightarrow> store \<Rightarrow> Tensor \<times> store" where
  "maxPool_st x convInfo st = pool_st x convInfo PoolMax st"

definition minPool_st :: "Tensor \<Rightarrow> Conv2DInfo \<Rightarrow> store \<Rightarrow> Tensor \<times> store" where
  "minPool_st x convInfo st = pool_st x convInfo PoolMin st"

definition avgPool_st :: "Tensor \<Rightarrow> Conv2DInfo \<Rightarrow> store \<Rightarrow> Tensor \<times> store" where
  "avgPool_st x convInfo st = pool_st x convInfo PoolAvg st"

definition maxPoolPositions_st :: "Tensor \<Rightarrow> Conv2DInfo \<Rightarrow> store \<Rightarrow> Tensor \<times> store" where
  "maxPoolPositions_st x convInfo st =
     (let (maxPositions, st1) = zeros_st (outShape convInfo) Float32 st;
          strideHeight = int (strideHeight convInfo);
          strideWidth = int (strideWidth convInfo);
          filterHeight = int (filterHeight convInfo);
          filterWidth = int (filterWidth convInfo);
          padTop = padTop convInfo;
          padLeft = padLeft convInfo
      in (maxPositions,
          fold (\<lambda>b. fold (\<lambda>d. fold (\<lambda>yR.
            let xRCorner = int yR * strideHeight - padTop;
                xRMin = max 0 xRCorner;
                xRMax = min (int (inHeight convInfo)) (filterHeight + xRCorner)
            in fold (\<lambda>yC st.
                 let xCCorner = int yC * strideWidth - padLeft;
                     xCMin = max 0 xCCorner;
                     xCMax = min (int (inWidth convInfo)) (filterWidth + xCCorner);
                     (maxValue, maxPosition) = fold (\<lambda>xR.
                         let wR = xR - xRCorner
                         in fold (\<lambda>xC (maxValue, maxPosition).
                              let wC = xC - xCCorner;
                                  pixel = get_st st x [int b, xR, xC, int d]
                              in if js_less maxValue pixel then (pixel, wR * filterWidth + wC)
                                 else (maxValue, maxPosition))
                            (int_range xCMin xCMax))
                       (int_range xRMin xRMax) (NegInf, - 1)
                 in set_st maxPositions (Fin (of_int maxPosition))
                      [int b, int yR, int yC, int d] st)
              [0..<outWidth convInfo])
            [0..<outHeight convInfo])
            [0..<inChannels convInfo])
          [0..<batchSize convInfo] st1))"

definition maxPoolBackprop_st :: "Tensor \<Rightarrow> Tensor \<Rightarrow> Conv2DInfo \<Rightarrow> store \<Rightarrow> Tensor \<times> store" where
  "maxPoolBackprop_st dy x convInfo st =
     (let (maxPositions, st1) = maxPoolPositions_st x convInfo st;
          strideHeight = int (strideHeight convInfo);
          strideWidth = int (strideWidth convInfo);
          filterHeight = int (filterHeight convInfo);
          filterWidth = int (filterWidth convInfo);
          padLeft = filterWidth - 1 - padLeft convInfo;
          padTop = filterHeight - 1 - padTop convInfo;
          (dx, st2) = zeros_st (tshape x) Float32 st1
      in (dx,
          fold (\<lambda>b. fold (\<lambda>d. fold (\<lambda>dxR. fold (\<lambda>dxC st.
            let dyRCorner = int dxR - padTop;
                dyCCorner = int dxC - padLeft;
                dotProd = fold (\<lambda>wR dotProd.
                    let dyR = js_div (Fin (of_int (dyRCorner + int wR)))
                                (Fin (of_int strideHeight))
                    in if js_less dyR (Fin 0) \<or> js_ge dyR (Fin (of_nat (outHeight convInfo)))
                          \<or> \<not> js_eq (js_floor dyR) dyR
                       then dotProd
                       else fold (\<lambda>wC dotProd.
                           let dyC = js_div (Fin (of_int (dyCCorner + int wC)))
                                       (Fin (of_int strideWidth))
                           in if js_less dyC (Fin 0)
                                 \<or> js_ge dyC (Fin (of_nat (outWidth convInfo)))
                                 \<or> \<not> js_eq (js_floor dyC) dyC
                              then dotProd
                              else
                                let maxPos = js_sub (Fin (of_int (filterHeight * filterWidth - 1)))
                                      (get_st st maxPositions
                                         [int b, js_to_int dyR, js_to_int dyC, int d]);
                                    curPos = int wR * filterWidth + int wC;
                                    mask = (if js_eq maxPos (Fin (of_int curPos)) then 1 else 0 :: rat)
                                in if mask = 0 then dotProd
                                   else
                                     let pixel = get_st st dy
                                           [int b, js_to_int dyR, js_to_int dyC, int d]
                                     in js_add dotProd (js_mul pixel (Fin mask)))
                         [0..<Conv2DInfo.filterWidth convInfo] dotProd)
                  [0..<Conv2DInfo.filterHeight convInfo] (Fin 0)
            in set_st dx dotProd [int b, int dxR, int dxC, int d] st)
            [0..<inWidth convInfo])
            [0..<inHeight convInfo])
            [0..<inChannels convInfo])
          [0..<batchSize convInfo] st2))"

subsection \<open>Resizing, batch normalization, sampling and one-hot encoding\<close>

text \<open>
  \<open>MathBackendCPU.resizeBilinear3D\<close>. The source coordinates are quotients; the four
  elements are read at coordinates that are numbers.
\<close>

definition resizeBilinear3D_st :: "Tensor \<Rightarrow> nat \<times> nat \<Rightarrow> bool \<Rightarrow> store \<Rightarrow> Tensor \<times> store" where
  "resizeBilinear3D_st x newShape2D alignCorners st =
     (let (output, st1) = zeros_st [fst newShape2D, snd newShape2D, tshape x ! 2] Float32 st;
          effectiveInputSize =
            (if alignCorners
             then [int (tshape x ! 0) - 1, int (tshape x ! 1) - 1, int (tshape x ! 2)]
             else map int (tshape x));
          effectiveOutputSize =
            (if alignCorners
             then [int (tshape output ! 0) - 1, int (tshape output ! 1) - 1,
                   int (tshape output ! 2)]
             else map int (tshape output))
      in (output,
          fold (\<lambda>r. fold (\<lambda>c. fold (\<lambda>d st.
            let sourceFracRow = js_div (Fin (of_int (effectiveInputSize ! 0 * int r)))
                                  (Fin (of_int (effectiveOutputSize ! 0)));
                sourceFracCol = js_div (Fin (of_int (effectiveInputSize ! 1 * int c)))
                                  (Fin (of_int (effectiveOutputSize ! 1)));
                sourceRowFloor = js_floor sourceFracRow;
                sourceRowCeil = js_min (Fin (of_int (int (tshape x ! 0) - 1)))
                                  (js_ceil sourceFracRow);
                sourceColFloor = js_floor sourceFracCol;
                sourceColCeil = js_min (Fin (of_int (int (tshape x ! 1) - 1)))
                                  (js_ceil sourceFracCol);
                topLeft = get_js st x [sourceRowFloor, sourceColFloor, Fin (of_nat d)];
                bottomLeft = get_js st x [sourceRowCeil, sourceColFloor, Fin (of_nat d)];
                topRight = get_js st x [sourceRowFloor, sourceColCeil, Fin (of_nat d)];
                bottomRight = get_js st x [sourceRowCeil, sourceColCeil, Fin (of_nat d)];
                rowFrac = js_sub sourceFracRow sourceRowFloor;
                colFrac = js_sub sourceFracCol sourceColFloor;
                top = js_add topLeft (js_mul (js_sub topRight topLeft) colFrac);
                bottom = js_add bottomLeft (js_mul (js_sub bottomRight bottomLeft) colFrac);
                newValue = js_add top (js_mul (js_sub bottom top) rowFrac)
            in set_st output newValue [int r, int c, int d] st)
            [0..<tshape output ! 2])
            [0..<tshape output ! 1])
          [0..<tshape output ! 0] st1))"

text \<open>
  The body that \<open>batchNormalization2D\<close> and \<open>batchNormalization3D\<close> share. Without a
  scale or an offset, a typed array of one element is allocated in its place.
\<close>

definition batchNormalization_st ::
  "(jsnum \<Rightarrow> jsnum) \<Rightarrow> Tensor \<Rightarrow> Tensor \<Rightarrow> Tensor \<Rightarrow> jsnum \<Rightarrow> Tensor option \<Rightarrow> Tensor option
    \<Rightarrow> store \<Rightarrow> Tensor \<times> store" where
  "batchNormalization_st Math_sqrt x mean variance varianceEpsilon scale' offset st =
     (let xValues = tvalues x;
          meanValues = tvalues mean;
          varianceValues = tvalues variance;
          (scaleValues, st1) = (case scale' of Some s \<Rightarrow> (tvalues s, st)
                                | None \<Rightarrow> alloc [Fin 1] st);
          (offsetValues, st2) = (case offset of Some off \<Rightarrow> (tvalues off, st1)
                                 | None \<Rightarrow> alloc [Fin 0] st1);
          (outValues, st3) = new_array (length (contents st2 xValues)) st2
      in (make_st (tshape x) outValues Float32,
          fold (\<lambda>i st.
              store_at Float32 outValues i
                (js_add (load_mod st offsetValues i)
                   (js_div (js_mul (js_sub (load st xValues i) (load_mod st meanValues i))
                              (load_mod st scaleValues i))
                      (Math_sqrt (js_add (load_mod st varianceValues i) varianceEpsilon)))) st)
            [0..<length (contents st3 xValues)] st3))"

definition batchNormalization2D_st ::
  "(jsnum \<Rightarrow> jsnum) \<Rightarrow> Tensor \<Rightarrow> Tensor \<Rightarrow> Tensor \<Rightarrow> jsnum \<Rightarrow> Tensor option \<Rightarrow> Tensor option
    \<Rightarrow> store \<Rightarrow> Tensor \<times> store" where
  "batchNormalization2D_st Math_sqrt x mean variance varianceEpsilon scale' offset st =
     batchNormalization_st Math_sqrt x mean variance varianceEpsilon scale' offset st"

definition batchNormalization3D_st ::
  "(jsnum \<Rightarrow> jsnum) \<Rightarrow> Tensor \<Rightarrow> Tensor \<Rightarrow> Tensor \<Rightarrow> jsnum \<Rightarrow> Tensor option \<Rightarrow> Tensor option
    \<Rightarrow> store \<Rightarrow> Tensor \<times> store" where
  "batchNormalization3D_st Math_sqrt x mean variance varianceEpsilon scale' offset st =
     batchNormalization_st Math_sqrt x mean variance varianceEpsilon scale' offset st"

text \<open>The loops of \<open>multinomial\<close>, as \<open>find_event\<close> and \<open>sample_loop\<close>, on the store.\<close>

fun find_event_st :: "jsnum \<Rightarrow> nat \<Rightarrow> nat list \<Rightarrow> nat \<Rightarrow> nat \<Rightarrow> store \<Rightarrow> store" where
  "find_event_st r cdf [] resVals pos st = st"
| "find_event_st r cdf (event # es) resVals pos st =
     (if js_less r (load st cdf event) then store_at Int32 resVals pos (Fin (of_nat event)) st
      else find_event_st r cdf es resVals pos st)"

fun sample_loop_st ::
  "('g \<Rightarrow> jsnum \<times> 'g) \<Rightarrow> nat \<Rightarrow> nat \<Rightarrow> nat list \<Rightarrow> 'g \<Rightarrow> nat \<Rightarrow> store \<Rightarrow> store" where
  "sample_loop_st random cdf outOffset [] g resVals st = st"
| "sample_loop_st random cdf outOffset (sampleId # ids) g resVals st =
     (let (r, g') = random g;
          st1 = store_at Int32 resVals (outOffset + sampleId)
                  (Fin (of_nat (length (contents st cdf)))) st;
          st2 = find_event_st r cdf [0..<length (contents st1 cdf)] resVals
                  (outOffset + sampleId) st1
      in sample_loop_st random cdf outOffset ids g' resVals st2)"

text \<open>A loop on the store whose body may throw: the first error ends it.\<close>

fun fold_throw ::
  "('a \<Rightarrow> store \<Rightarrow> error option \<times> store) \<Rightarrow> 'a list \<Rightarrow> store \<Rightarrow> error option \<times> store" where
  "fold_throw f [] st = (None, st)"
| "fold_throw f (x # xs) st =
     (case f x st of (Some e, st1) \<Rightarrow> (Some e, st1) | (None, st1) \<Rightarrow> fold_throw f xs st1)"

definition multinomial_st ::
  "('s \<Rightarrow> 'g) \<Rightarrow> ('g \<Rightarrow> jsnum \<times> 'g) \<Rightarrow> Tensor \<Rightarrow> nat \<Rightarrow> 's \<Rightarrow> store
    \<Rightarrow> (error + Tensor) \<times> store" where
  "multinomial_st alea random probabilities numSamples seed st =
     (let batchSize = tshape probabilities ! 0;
          numEvents = tshape probabilities ! 1;
          (res, st1) = zeros_st [batchSize, numSamples] Int32 st;
          resVals = tvalues res;
          probVals = tvalues probabilities
      in case fold_throw (\<lambda>b st.
                 let offset = b * numEvents
                 in if numEvents = 0 then (Some RangeError, st)
                    else
                      let (cdf, st2) = new_array (numEvents - 1) st;
                          st3 = store_at Float32 cdf 0 (load st2 probVals offset) st2;
                          st4 = fold (\<lambda>event st.
                                    store_at Float32 cdf event
                                      (js_add (load st cdf (event - 1))
                                         (load st probVals (offset + event))) st)
                                  [1..<length (contents st3 cdf)] st3;
                          g = alea seed;
                          outOffset = b * numSamples
                      in (None,
                          sample_loop_st random cdf outOffset [0..<numSamples] g resVals st4))
               [0..<batchSize] st1 of
           (Some e, st') \<Rightarrow> (Inl e, st')
         | (None, st') \<Rightarrow> (Inr res, st'))"

text \<open>
  \<open>MathBackendCPU.oneHot\<close>; \<open>res.fill(offValue)\<close> stores \<open>offValue\<close> at every element. The
  index \<open>event * depth + indices.get(event)\<close> is a number.
\<close>

definition oneHot_st :: "Tensor \<Rightarrow> nat \<Rightarrow> jsnum \<Rightarrow> jsnum \<Rightarrow> store \<Rightarrow> Tensor \<times> store" where
  "oneHot_st indices depth onValue offValue st =
     (let (res, st1) = new_array (tsize indices * depth) st;
          st2 = fold (\<lambda>i st. store_at Float32 res i offValue st)
                  [0..<length (contents st1 res)] st1
      in (make_st [tsize indices, depth] res Float32,
          fold (\<lambda>event st.
              store_at_js Float32 res
                (js_add (Fin (of_nat (event * depth))) (get_st st indices [int event]))
                onValue st)
            [0..<tsize indices] st2))"

section \<open>Auxiliary lemmas\<close>

subsection \<open>Typed-array loops and comparisons\<close>

lemma fold_ta_set_gen:
  "k \<le> length vals0 \<Longrightarrow>
   fold (\<lambda>i vals. ta_set dt vals i (f i)) [0..<k] vals0
     = map (\<lambda>i. ta_convert dt (f i)) [0..<k] @ drop k vals0"
proof (induction k)
  case 0
  then show ?case by simp
next
  case (Suc k)
  then have k: "k < length vals0" by simp
  let ?pre = "map (\<lambda>i. ta_convert dt (f i)) [0..<k]"
  have IH: "fold (\<lambda>i vals. ta_set dt vals i (f i)) [0..<k] vals0 = ?pre @ drop k vals0"
    using Suc.IH k by simp
  have d: "drop k vals0 = vals0 ! k # drop (Suc k) vals0"
    using k by (simp add: Cons_nth_drop_Suc)
  have "fold (\<lambda>i vals. ta_set dt vals i (f i)) [0..<Suc k] vals0
          = ta_set dt (?pre @ drop k vals0) k (f k)"
    by (simp add: IH)
  also have "\<dots> = (?pre @ drop k vals0)[k := ta_convert dt (f k)]"
    using k by (simp add: ta_set_def)
  also have "\<dots> = ?pre @ (drop k vals0)[0 := ta_convert dt (f k)]"
    by (simp add: list_update_append)
  also have "\<dots> = ?pre @ ta_convert dt (f k) # drop (Suc k) vals0"
    by (subst d) simp
  finally show ?case by simp
qed

lemma fold_ta_set_all:
  "length vals0 = n \<Longrightarrow>
   fold (\<lambda>i vals. ta_set dt vals i (f i)) [0..<n] vals0 = map (\<lambda>i. ta_convert dt (f i)) [0..<n]"
  using fold_ta_set_gen [of n vals0 dt f] by simp

lemma js_less_irrefl: "\<not> js_less a a"
  by (cases a) auto

lemma js_less_trans: "js_less a b \<Longrightarrow> js_less b c \<Longrightarrow> js_less a c"
  by (cases a; cases b; cases c) auto

lemma js_less_total: "\<not> isNaN a \<Longrightarrow> \<not> isNaN b \<Longrightarrow> js_less a b \<or> a = b \<or> js_less b a"
  by (cases a; cases b) auto

lemma argMin_scan_nan:
  "\<exists>j\<in>set js. isNaN (ta_get aVals (offset + j)) \<Longrightarrow>
   argMin_scan aVals offset nanIdx js m mi = nanIdx"
  by (induction js arbitrary: m mi) (auto simp: Let_def)

lemma argMin_scan_upt:
  assumes "\<forall>j<n. \<not> isNaN (ta_get aVals (offset + j))"
    and "p \<le> k" "k \<le> n" "p < n" "m = ta_get aVals (offset + p)"
    and "\<forall>q<k. \<not> js_less (ta_get aVals (offset + q)) m"
    and "\<forall>q<p. js_less m (ta_get aVals (offset + q))"
  shows "\<exists>p'<n. argMin_scan aVals offset nanIdx [k..<n] m (int p) = int p'
           \<and> (\<forall>q<n. \<not> js_less (ta_get aVals (offset + q)) (ta_get aVals (offset + p')))
           \<and> (\<forall>q<p'. js_less (ta_get aVals (offset + p')) (ta_get aVals (offset + q)))"
  using assms
proof (induction "n - k" arbitrary: k p m)
  case 0
  then have "k = n" by simp
  with 0 show ?case by auto
next
  case (Suc d)
  let ?g = "\<lambda>j. ta_get aVals (offset + j)"
  from Suc.hyps(2) have kn: "k < n" by simp
  have upt: "[k..<n] = k # [Suc k..<n]" using kn by (simp add: upt_conv_Cons)
  have nn: "\<not> isNaN (?g k)" using Suc.prems(1) kn by simp
  have d: "d = n - Suc k" using Suc.hyps(2) by simp
  show ?case
  proof (cases "js_less (?g k) m")
    case True
    have a: "\<forall>q<Suc k. \<not> js_less (?g q) (?g k)"
    proof (intro allI impI)
      fix q assume "q < Suc k"
      show "\<not> js_less (?g q) (?g k)"
      proof (cases "q = k")
        case True then show ?thesis by (simp add: js_less_irrefl)
      next
        case False
        then have "q < k" using \<open>q < Suc k\<close> by simp
        then have "\<not> js_less (?g q) m" using Suc.prems(6) by simp
        then show ?thesis using True js_less_trans by blast
      qed
    qed
    have b: "\<forall>q<k. js_less (?g k) (?g q)"
    proof (intro allI impI)
      fix q assume qk: "q < k"
      then have n1: "\<not> js_less (?g q) m" using Suc.prems(6) by simp
      have n2: "\<not> isNaN (?g q)" using Suc.prems(1) qk kn by simp
      have n3: "\<not> isNaN m" using Suc.prems(1,4,5) by simp
      from js_less_total [OF n2 n3] n1 have "?g q = m \<or> js_less m (?g q)" by blast
      then show "js_less (?g k) (?g q)" using True js_less_trans by blast
    qed
    have "\<exists>p'<n. argMin_scan aVals offset nanIdx [Suc k..<n] (?g k) (int k) = int p'
           \<and> (\<forall>q<n. \<not> js_less (?g q) (?g p')) \<and> (\<forall>q<p'. js_less (?g p') (?g q))"
      using Suc.hyps(1) [OF d Suc.prems(1), of k "?g k"] kn a b by simp
    then show ?thesis using True nn upt by (simp add: Let_def)
  next
    case False
    have a: "\<forall>q<Suc k. \<not> js_less (?g q) m"
      using Suc.prems(6) False by (auto simp: less_Suc_eq)
    have "\<exists>p'<n. argMin_scan aVals offset nanIdx [Suc k..<n] m (int p) = int p'
           \<and> (\<forall>q<n. \<not> js_less (?g q) (?g p')) \<and> (\<forall>q<p'. js_less (?g p') (?g q))"
      using Suc.hyps(1) [OF d Suc.prems(1), of p m] kn a Suc.prems by simp
    then show ?thesis using False nn upt by (simp add: Let_def)
  qed
qed


lemma argMax_scan_nan:
  "\<exists>j\<in>set js. isNaN (ta_get aVals (offset + j)) \<Longrightarrow>
   argMax_scan aVals offset nanIdx js m mi = nanIdx"
  by (induction js arbitrary: m mi) (auto simp: Let_def)

lemma argMax_scan_upt:
  assumes "\<forall>j<n. \<not> isNaN (ta_get aVals (offset + j))"
    and "p \<le> k" "k \<le> n" "p < n" "m = ta_get aVals (offset + p)"
    and "\<forall>q<k. \<not> js_less m (ta_get aVals (offset + q))"
    and "\<forall>q<p. js_less (ta_get aVals (offset + q)) m"
  shows "\<exists>p'<n. argMax_scan aVals offset nanIdx [k..<n] m (int p) = int p'
           \<and> (\<forall>q<n. \<not> js_less (ta_get aVals (offset + p')) (ta_get aVals (offset + q)))
           \<and> (\<forall>q<p'. js_less (ta_get aVals (offset + q)) (ta_get aVals (offset + p')))"
  using assms
proof (induction "n - k" arbitrary: k p m)
  case 0
  then have "k = n" by simp
  with 0 show ?case by auto
next
  case (Suc d)
  let ?g = "\<lambda>j. ta_get aVals (offset + j)"
  from Suc.hyps(2) have kn: "k < n" by simp
  have upt: "[k..<n] = k # [Suc k..<n]" using kn by (simp add: upt_conv_Cons)
  have nn: "\<not> isNaN (?g k)" using Suc.prems(1) kn by simp
  have d: "d = n - Suc k" using Suc.hyps(2) by simp
  show ?case
  proof (cases "js_less m (?g k)")
    case True
    have a: "\<forall>q<Suc k. \<not> js_less (?g k) (?g q)"
    proof (intro allI impI)
      fix q assume "q < Suc k"
      show "\<not> js_less (?g k) (?g q)"
      proof (cases "q = k")
        case True then show ?thesis by (simp add: js_less_irrefl)
      next
        case False
        then have "q < k" using \<open>q < Suc k\<close> by simp
        then have "\<not> js_less m (?g q)" using Suc.prems(6) by simp
        then show ?thesis using True js_less_trans by blast
      qed
    qed
    have b: "\<forall>q<k. js_less (?g q) (?g k)"
    proof (intro allI impI)
      fix q assume qk: "q < k"
      then have n1: "\<not> js_less m (?g q)" using Suc.prems(6) by simp
      have n2: "\<not> isNaN (?g q)" using Suc.prems(1) qk kn by simp
      have n3: "\<not> isNaN m" using Suc.prems(1,4,5) by simp
      from js_less_total [OF n2 n3] n1 have "?g q = m \<or> js_less (?g q) m" by blast
      then show "js_less (?g q) (?g k)" using True js_less_trans by blast
    qed
    have "\<exists>p'<n. argMax_scan aVals offset nanIdx [Suc k..<n] (?g k) (int k) = int p'
           \<and> (\<forall>q<n. \<not> js_less (?g p') (?g q)) \<and> (\<forall>q<p'. js_less (?g q) (?g p'))"
      using Suc.hyps(1) [OF d Suc.prems(1), of k "?g k"] kn a b by simp
    then show ?thesis using True nn upt by (simp add: Let_def)
  next
    case False
    have a: "\<forall>q<Suc k. \<not> js_less m (?g q)"
      using Suc.prems(6) False by (auto simp: less_Suc_eq)
    have "\<exists>p'<n. argMax_scan aVals offset nanIdx [Suc k..<n] m (int p) = int p'
           \<and> (\<forall>q<n. \<not> js_less (?g p') (?g q)) \<and> (\<forall>q<p'. js_less (?g q) (?g p'))"
      using Suc.hyps(1) [OF d Suc.prems(1), of p m] kn a Suc.prems by simp
    then show ?thesis using False nn upt by (simp add: Let_def)
  qed
qed

lemma js_trunc_of_int: "js_trunc (of_int z) = z"
  by (simp add: js_trunc_def)

lemma toInt32_id: "- 2147483648 \<le> z \<Longrightarrow> z < 2147483648 \<Longrightarrow> toInt32 z = z"
  by (simp add: toInt32_def)

lemma ta_convert_Int32_int:
  "- 2147483648 \<le> z \<Longrightarrow> z < 2147483648 \<Longrightarrow> ta_convert Int32 (Fin (of_int z)) = Fin (of_int z)"
  by (simp add: js_trunc_of_int toInt32_id)

lemma window_nth:
  "offset + rs \<le> length aVals \<Longrightarrow> j < rs \<Longrightarrow>
   take rs (drop offset aVals) ! j = ta_get aVals (offset + j)"
  by (simp add: ta_get_def)

lemma window_length:
  "offset + rs \<le> length aVals \<Longrightarrow> length (take rs (drop offset aVals)) = rs"
  by simp

lemma window_nan_iff:
  assumes "offset + rs \<le> length aVals"
  shows "list_ex isNaN (take rs (drop offset aVals))
           \<longleftrightarrow> (\<exists>j<rs. isNaN (ta_get aVals (offset + j)))"
proof -
  let ?w = "take rs (drop offset aVals)"
  have len: "length ?w = rs" using assms by simp
  have "list_ex isNaN ?w \<longleftrightarrow> (\<exists>x\<in>set ?w. isNaN x)"
    by (rule list_ex_iff)
  also have "\<dots> \<longleftrightarrow> (\<exists>j<length ?w. isNaN (?w ! j))"
    by (metis in_set_conv_nth)
  also have "\<dots> \<longleftrightarrow> (\<exists>j<rs. isNaN (ta_get aVals (offset + j)))"
    using window_nth [OF assms] len by auto
  finally show ?thesis .
qed

lemma argMin_element:
  assumes fits: "offset + rs \<le> length aVals" and pos: "0 < rs"
    and lo: "- 2147483648 \<le> nanIdx" and hi: "nanIdx < 0" and small: "rs \<le> 2147483648"
  shows "arg_result_ok first_min_at nanIdx (take rs (drop offset aVals))
           (ta_convert Int32 (Fin (of_int
              (argMin_scan aVals offset nanIdx [0..<rs] (ta_get aVals offset) 0))))"
proof (cases "\<exists>j<rs. isNaN (ta_get aVals (offset + j))")
  case True
  then have eq: "argMin_scan aVals offset nanIdx [0..<rs] (ta_get aVals offset) 0 = nanIdx"
    by (intro argMin_scan_nan) auto
  have ex: "list_ex isNaN (take rs (drop offset aVals))"
    using True window_nan_iff [OF fits] by simp
  have conv: "ta_convert Int32 (Fin (of_int nanIdx)) = Fin (of_int nanIdx)"
    using lo hi by (intro ta_convert_Int32_int) auto
  show ?thesis
    unfolding arg_result_ok_def by (simp only: ex eq conv if_True)
next
  case False
  let ?g = "\<lambda>j. ta_get aVals (offset + j)"
  let ?w = "take rs (drop offset aVals)"
  from False have nn: "\<forall>j<rs. \<not> isNaN (?g j)" by simp
  obtain p where p: "p < rs"
    "argMin_scan aVals offset nanIdx [0..<rs] (ta_get aVals offset) (int 0) = int p"
    "\<forall>q<rs. \<not> js_less (?g q) (?g p)" "\<forall>q<p. js_less (?g p) (?g q)"
    using argMin_scan_upt [OF nn, of 0 0 "ta_get aVals offset" nanIdx] pos by auto
  have gw: "\<forall>j<rs. ?g j = ?w ! j"
    using window_nth [OF fits] by simp
  have m1: "\<forall>q<rs. \<not> js_less (?w ! q) (?w ! p)"
    using p(1,3) gw by auto
  have m2: "\<forall>q<p. js_less (?w ! p) (?w ! q)"
    using p(1,4) gw by auto
  have fm: "first_min_at ?w p"
    using p(1) m1 m2 fits by (simp add: first_min_at_def list_all_iff)
  have conv: "ta_convert Int32 (Fin (of_int (int p))) = Fin (of_int (int p))"
    using p(1) small by (intro ta_convert_Int32_int) auto
  have "list_ex (\<lambda>j. Fin (of_int (int p)) = Fin (of_int (int j)) \<and> first_min_at ?w j) [0..<length ?w]"
    using fm p(1) fits by (auto simp: list_ex_iff)
  moreover have "\<not> list_ex isNaN ?w"
    using False window_nan_iff [OF fits] by simp
  moreover have "argMin_scan aVals offset nanIdx [0..<rs] (ta_get aVals offset) 0 = int p"
    using p(2) by simp
  ultimately show ?thesis
    unfolding arg_result_ok_def using conv by (simp only: if_False)
qed

lemma argMax_element:
  assumes fits: "offset + rs \<le> length aVals" and pos: "0 < rs"
    and lo: "- 2147483648 \<le> nanIdx" and hi: "nanIdx < 0" and small: "rs \<le> 2147483648"
  shows "arg_result_ok first_max_at nanIdx (take rs (drop offset aVals))
           (ta_convert Int32 (Fin (of_int
              (argMax_scan aVals offset nanIdx [0..<rs] (ta_get aVals offset) 0))))"
proof (cases "\<exists>j<rs. isNaN (ta_get aVals (offset + j))")
  case True
  then have eq: "argMax_scan aVals offset nanIdx [0..<rs] (ta_get aVals offset) 0 = nanIdx"
    by (intro argMax_scan_nan) auto
  have ex: "list_ex isNaN (take rs (drop offset aVals))"
    using True window_nan_iff [OF fits] by simp
  have conv: "ta_convert Int32 (Fin (of_int nanIdx)) = Fin (of_int nanIdx)"
    using lo hi by (intro ta_convert_Int32_int) auto
  show ?thesis
    unfolding arg_result_ok_def by (simp only: ex eq conv if_True)
next
  case False
  let ?g = "\<lambda>j. ta_get aVals (offset + j)"
  let ?w = "take rs (drop offset aVals)"
  from False have nn: "\<forall>j<rs. \<not> isNaN (?g j)" by simp
  obtain p where p: "p < rs"
    "argMax_scan aVals offset nanIdx [0..<rs] (ta_get aVals offset) (int 0) = int p"
    "\<forall>q<rs. \<not> js_less (?g p) (?g q)" "\<forall>q<p. js_less (?g q) (?g p)"
    using argMax_scan_upt [OF nn, of 0 0 "ta_get aVals offset" nanIdx] pos by auto
  have gw: "\<forall>j<rs. ?g j = ?w ! j"
    using window_nth [OF fits] by simp
  have m1: "\<forall>q<rs. \<not> js_less (?w ! p) (?w ! q)"
    using p(1,3) gw by auto
  have m2: "\<forall>q<p. js_less (?w ! q) (?w ! p)"
    using p(1,4) gw by auto
  have fm: "first_max_at ?w p"
    using p(1) m1 m2 fits by (simp add: first_max_at_def list_all_iff)
  have conv: "ta_convert Int32 (Fin (of_int (int p))) = Fin (of_int (int p))"
    using p(1) small by (intro ta_convert_Int32_int) auto
  have "list_ex (\<lambda>j. Fin (of_int (int p)) = Fin (of_int (int j)) \<and> first_max_at ?w j) [0..<length ?w]"
    using fm p(1) fits by (auto simp: list_ex_iff)
  moreover have "\<not> list_ex isNaN ?w"
    using False window_nan_iff [OF fits] by simp
  moreover have "argMax_scan aVals offset nanIdx [0..<rs] (ta_get aVals offset) 0 = int p"
    using p(2) by simp
  ultimately show ?thesis
    unfolding arg_result_ok_def using conv by (simp only: if_False)
qed


lemma map_nth_upt_drop: "k \<le> length xs \<Longrightarrow> map (\<lambda>d. xs ! d) [k..<length xs] = drop k xs"
  by (rule nth_equalityI) auto

lemma map_nth_upt_take: "k \<le> length xs \<Longrightarrow> map (\<lambda>d. xs ! d) [0..<k] = take k xs"
  by (rule nth_equalityI) auto

lemma filter_not_member_upt:
  "k \<le> r \<Longrightarrow> filter (\<lambda>d. d \<notin> set [k..<r]) [0..<r] = [0..<k]"
proof -
  assume kr: "k \<le> r"
  have split: "[0..<r] = [0..<k] @ [k..<r]"
    using kr by (metis le0 upt_add_eq_append le_add_diff_inverse)
  have a: "filter (\<lambda>d. d \<notin> set [k..<r]) [0..<k] = [0..<k]"
    by (rule filter_True) auto
  have b: "filter (\<lambda>d. d \<notin> set [k..<r]) [k..<r] = []"
    by (rule filter_False) auto
  show ?thesis by (simp only: split filter_append a b append_Nil2)
qed

lemma inner_shapes:
  assumes "axesAreInnerMostDims axes (length shp)"
  shows "computeOutAndReduceShapes shp axes
           = (take (length shp - length axes) shp, drop (length shp - length axes) shp)"
proof -
  let ?k = "length shp - length axes"
  from assms have ax: "axes = [?k..<length shp]" and le: "?k \<le> length shp"
    by (auto simp: axesAreInnerMostDims_def)
  have "filter (\<lambda>d. d \<notin> set axes) [0..<length shp] = [0..<?k]"
    by (subst ax) (rule filter_not_member_upt [OF le])
  moreover have "map (\<lambda>d. shp ! d) axes = drop ?k shp"
    by (subst ax) (rule map_nth_upt_drop [OF le])
  ultimately show ?thesis
    by (simp add: computeOutAndReduceShapes_def map_nth_upt_take [OF le])
qed

lemma inner_sizes:
  "sizeFromShape (take k shp) * sizeFromShape (drop k shp) = sizeFromShape shp"
  unfolding sizeFromShape_def by (metis append_take_drop_id prod_list.append)

lemma sizeFromShape_pos: "list_all (\<lambda>d. 0 < d) shp \<Longrightarrow> 0 < sizeFromShape shp"
  by (induction shp) (auto simp: sizeFromShape_def)

lemma list_all_drop: "list_all P xs \<Longrightarrow> list_all P (drop k xs)"
  by (auto simp: list_all_iff dest: in_set_dropD)

lemma window_fits:
  "length aVals = n * rs \<Longrightarrow> i < n \<Longrightarrow> i * rs + rs \<le> length aVals"
proof -
  assume len: "length aVals = n * rs" and i: "i < n"
  have "Suc i * rs \<le> n * rs" using i by (intro mult_le_mono1) simp
  then show ?thesis using len by simp
qed

subsection \<open>Sorting and the copy loop of top-k\<close>

lemma js_cmp_desc: "js_less (Fin 0) (js_sub b a) = js_less a b"
  by (cases a; cases b) (auto simp: js_sub_def)

lemma mset_js_insert: "mset (js_insert c a bs) = add_mset a (mset bs)"
  by (induction bs) auto

lemma mset_js_sort: "mset (js_sort c xs) = mset xs"
  by (induction xs) (auto simp: js_sort_def mset_js_insert)

lemma length_js_sort: "length (js_sort c xs) = length xs"
  using mset_js_sort [of c xs] by (metis size_mset)

lemma set_js_sort: "set (js_sort c xs) = set xs"
  by (rule mset_eq_setD) (rule mset_js_sort)

lemma set_js_insert: "set (js_insert c a bs) = insert a (set bs)"
  using mset_js_insert [of c a bs] by (metis set_mset_add_mset_insert set_mset_mset)

lemma js_less_le_trans:
  "js_less c b \<or> c = b \<Longrightarrow> js_less b a \<or> b = a \<Longrightarrow> js_less c a \<or> c = a"
  using js_less_trans by blast

lemma sorted_js_insert:
  assumes "sorted_wrt desc_stable bs"
    and "\<forall>b\<in>set bs. snd a < snd b"
    and "\<not> isNaN (fst a)" and "\<forall>b\<in>set bs. \<not> isNaN (fst b)"
  shows "sorted_wrt desc_stable (js_insert (\<lambda>a b. js_sub (fst b) (fst a)) a bs)"
  using assms
proof (induction bs)
  case Nil
  then show ?case by simp
next
  case (Cons b bs)
  show ?case
  proof (cases "js_less (fst a) (fst b)")
    case True
    then have "desc_stable b a" by (simp add: desc_stable_def)
    then show ?thesis
      using True Cons by (auto simp: js_cmp_desc set_js_insert)
  next
    case False
    have ab: "js_less (fst b) (fst a) \<or> fst b = fst a"
      using False js_less_total [of "fst a" "fst b"] Cons.prems by auto
    have "desc_stable a z" if z: "z \<in> set (b # bs)" for z
    proof -
      have zb: "js_less (fst z) (fst b) \<or> fst z = fst b"
        using z Cons.prems(1) by (auto simp: desc_stable_def)
      have "js_less (fst z) (fst a) \<or> fst z = fst a"
        using js_less_le_trans [OF zb ab] .
      moreover have "snd a < snd z" using z Cons.prems(2) by auto
      ultimately show ?thesis by (auto simp: desc_stable_def)
    qed
    then show ?thesis
      using False Cons.prems(1) by (simp add: js_cmp_desc)
  qed
qed

lemma sorted_js_sort_indexed:
  assumes "\<forall>i<n. \<not> isNaN (f i)"
  shows "j \<le> n \<Longrightarrow>
    sorted_wrt desc_stable (js_sort (\<lambda>a b. js_sub (fst b) (fst a)) (map (\<lambda>i. (f i, i)) [j..<n]))"
proof (induction "n - j" arbitrary: j)
  case 0
  then show ?case by (simp add: js_sort_def)
next
  case (Suc d)
  then have jn: "j < n" by simp
  let ?c = "\<lambda>a b. js_sub (fst b) (fst a)"
  let ?rest = "js_sort ?c (map (\<lambda>i. (f i, i)) [Suc j..<n])"
  have upt: "[j..<n] = j # [Suc j..<n]" using jn by (simp add: upt_conv_Cons)
  have IH: "sorted_wrt desc_stable ?rest" using Suc jn by simp
  have set_rest: "set ?rest = (\<lambda>i. (f i, i)) ` {Suc j..<n}"
    by (simp add: set_js_sort)
  have "sorted_wrt desc_stable (js_insert ?c (f j, j) ?rest)"
    using IH set_rest assms jn by (intro sorted_js_insert) auto
  then show ?case by (simp add: upt js_sort_def)
qed

lemma topK_copy_upt:
  "k \<le> length vi \<Longrightarrow> length tv = k \<Longrightarrow> length ti = k \<Longrightarrow> j \<le> k \<Longrightarrow>
   topK_copy vi dt [j..<k] (tv, ti)
     = Inr (take j tv @ map (\<lambda>i. ta_convert dt (fst (vi ! i))) [j..<k],
            take j ti @ map (\<lambda>i. ta_convert Int32 (Fin (of_nat (snd (vi ! i))))) [j..<k])"
proof (induction "k - j" arbitrary: j tv ti)
  case 0
  then show ?case by simp
next
  case (Suc d)
  then have jk: "j < k" by simp
  have upt: "[j..<k] = j # [Suc j..<k]" using jk by (simp add: upt_conv_Cons)
  let ?tv = "tv[j := ta_convert dt (fst (vi ! j))]"
  let ?ti = "ti[j := ta_convert Int32 (Fin (of_nat (snd (vi ! j))))]"
  have step: "topK_copy vi dt [j..<k] (tv, ti) = topK_copy vi dt [Suc j..<k] (?tv, ?ti)"
    using jk Suc.prems by (simp add: upt ta_set_def)
  have IH: "topK_copy vi dt [Suc j..<k] (?tv, ?ti)
     = Inr (take (Suc j) ?tv @ map (\<lambda>i. ta_convert dt (fst (vi ! i))) [Suc j..<k],
            take (Suc j) ?ti @ map (\<lambda>i. ta_convert Int32 (Fin (of_nat (snd (vi ! i))))) [Suc j..<k])"
    using Suc.hyps(1) [of "Suc j" ?tv ?ti] Suc.hyps(2) Suc.prems jk by simp
  have t1: "take (Suc j) ?tv = take j tv @ [ta_convert dt (fst (vi ! j))]"
    using jk Suc.prems by (simp add: take_Suc_conv_app_nth)
  have t2: "take (Suc j) ?ti = take j ti @ [ta_convert Int32 (Fin (of_nat (snd (vi ! j))))]"
    using jk Suc.prems by (simp add: take_Suc_conv_app_nth)
  show ?case
    unfolding step IH t1 t2 by (simp add: upt)
qed

lemma topK_copy_past_end:
  "length vi < k \<Longrightarrow> j \<le> length vi \<Longrightarrow> topK_copy vi dt [j..<k] (tv, ti) = Inl TypeError"
proof (induction "length vi - j" arbitrary: j tv ti)
  case 0
  then have "[j..<k] = j # [Suc j..<k]" by (simp add: upt_conv_Cons)
  then show ?case using 0 by simp
next
  case (Suc d)
  then have "[j..<k] = j # [Suc j..<k]" by (simp add: upt_conv_Cons)
  moreover have "topK_copy vi dt [Suc j..<k] (a, b) = Inl TypeError" for a b
    using Suc.hyps(1) [of "Suc j"] Suc.hyps(2) Suc.prems by simp
  ultimately show ?case using Suc by simp
qed


lemma map_nth_take: "k \<le> length xs \<Longrightarrow> map (\<lambda>i. g (xs ! i)) [0..<k] = map g (take k xs)"
  by (rule nth_equalityI) auto

lemma indexed_eq_zip:
  "map (\<lambda>i. (ta_get vals i, i)) [0..<length vals] = zip vals [0..<length vals]"
  by (rule nth_equalityI) (auto simp: ta_get_def)

lemma ta_convert_Int32_nat:
  "m < 2147483648 \<Longrightarrow> ta_convert Int32 (Fin (of_nat m)) = Fin (of_nat m)"
  using ta_convert_Int32_int [of "int m"] by simp

lemma new_typed_array_ok:
  "0 \<le> k \<Longrightarrow> k \<le> int limit
   \<Longrightarrow> new_typed_array limit k a = (Inr (replicate (nat k) (Fin 0)), Suc a)"
  by (simp add: new_typed_array_def)

lemma topK_in_range:
  assumes k: "0 \<le> k" "nat k \<le> length (getValues x)"
    and lim: "k \<le> int (maxLength (dtype x))" "k \<le> int (maxLength Int32)"
  shows "topK maxLength x k allocated =
    (Inr (map (\<lambda>p. ta_convert (dtype x) (fst p))
            (take (nat k) (js_sort (\<lambda>a b. js_sub (fst b) (fst a))
               (zip (getValues x) [0..<length (getValues x)]))),
          map (\<lambda>p. ta_convert Int32 (Fin (of_nat (snd p))))
            (take (nat k) (js_sort (\<lambda>a b. js_sub (fst b) (fst a))
               (zip (getValues x) [0..<length (getValues x)])))),
     allocated + 2)"
proof -
  let ?s = "js_sort (\<lambda>a b. js_sub (fst b) (fst a)) (zip (getValues x) [0..<length (getValues x)])"
  have len: "nat k \<le> length ?s" using k by (simp add: length_js_sort)
  have copy: "topK_copy ?s (dtype x) [0..<nat k] (replicate (nat k) (Fin 0), replicate (nat k) (Fin 0))
      = Inr (map (\<lambda>i. ta_convert (dtype x) (fst (?s ! i))) [0..<nat k],
             map (\<lambda>i. ta_convert Int32 (Fin (of_nat (snd (?s ! i))))) [0..<nat k])"
    using topK_copy_upt [OF len, of "replicate (nat k) (Fin 0)" "replicate (nat k) (Fin 0)" 0 "dtype x"]
    by (simp del: ta_convert.simps)
  have m1: "map (\<lambda>i. ta_convert (dtype x) (fst (?s ! i))) [0..<nat k]
             = map (\<lambda>p. ta_convert (dtype x) (fst p)) (take (nat k) ?s)"
    by (rule map_nth_take [OF len])
  have m2: "map (\<lambda>i. ta_convert Int32 (Fin (of_nat (snd (?s ! i))))) [0..<nat k]
             = map (\<lambda>p. ta_convert Int32 (Fin (of_nat (snd p)))) (take (nat k) ?s)"
    by (rule map_nth_take [OF len])
  show ?thesis
    using k(1) lim
    by (simp add: topK_def Let_def indexed_eq_zip new_typed_array_ok copy m1 m2
        del: ta_convert.simps)
qed

subsection \<open>Rounding\<close>

lemma pow2_code [code]:
  "pow2 e = (if e < 0 then 1 / pow2 (- e) else if e = 0 then 1
             else let h = pow2 (e div 2) in if even e then h * h else 2 * h * h)"
proof -
  have ev: "pow2 e = pow2 (e div 2) * pow2 (e div 2)" if "even e"
  proof -
    from that have "e = e div 2 + e div 2" by presburger
    then have "pow2 e = 2 powi (e div 2 + e div 2)" by (simp only: pow2_def)
    also have "\<dots> = 2 powi (e div 2) * 2 powi (e div 2)" by (rule power_int_add) simp
    finally show ?thesis by (simp only: pow2_def)
  qed
  have od: "pow2 e = 2 * pow2 (e div 2) * pow2 (e div 2)" if "odd e"
  proof -
    from that have "e = 1 + (e div 2 + e div 2)" by presburger
    then have "pow2 e = 2 powi (1 + (e div 2 + e div 2))" by (simp only: pow2_def)
    also have "\<dots> = 2 powi 1 * 2 powi (e div 2 + e div 2)" by (rule power_int_add) simp
    also have "2 powi (e div 2 + e div 2) = (2::rat) powi (e div 2) * 2 powi (e div 2)"
      by (rule power_int_add) simp
    finally show ?thesis by (simp add: pow2_def)
  qed
  have ng: "pow2 e = 1 / pow2 (- e)"
    by (simp add: pow2_def power_int_minus divide_inverse)
  show ?thesis using ev od ng by (auto simp: Let_def pow2_def)
qed

lemma pow2_pos: "0 < pow2 e"
  by (simp add: pow2_def)

lemma round_half_even_of_int: "round_half_even (of_int z) = z"
  by (simp add: round_half_even_def)

lemma round_binary_minus:
  "round_binary prec emin emax (- r) = js_neg (round_binary prec emin emax r)"
  by (cases "r = 0"; cases "0 < r") (auto simp: round_binary_def Let_def)

lemma round_to_neg: "round_to prec emin emax (js_neg v) = js_neg (round_to prec emin emax v)"
  by (cases v) (simp_all add: round_binary_minus)

lemma fround_neg: "fround (js_neg v) = js_neg (fround v)"
  by (simp add: fround_def round_to_neg)

lemma dround_neg: "dround (js_neg v) = js_neg (dround v)"
  by (simp add: dround_def round_to_neg)

lemma round_binary_coarser:
  assumes fx: "round_binary prec emin emax r = Fin r"
    and le: "prec \<le> prec'" "emin' \<le> emin" "emax \<le> emax'"
  shows "round_binary prec' emin' emax' r = Fin r"
proof (cases "r = 0")
  case True
  then show ?thesis by (simp add: round_binary_def)
next
  case False
  let ?l = "floor_log2 \<bar>r\<bar>"
  let ?e = "max ?l emin"
  let ?e' = "max ?l emin'"
  let ?ulp = "pow2 (?e - int prec + 1)"
  let ?ulp' = "pow2 (?e' - int prec' + 1)"
  let ?n = "round_half_even (\<bar>r\<bar> / ?ulp)"
  let ?m = "of_int ?n * ?ulp"
  from fx False have lt: "?m < pow2 emax"
    by (auto simp: round_binary_def Let_def split: if_splits)
  from fx False lt have m: "?m = \<bar>r\<bar>"
    by (auto simp: round_binary_def Let_def split: if_splits)
  define k where "k = nat ((?e - int prec + 1) - (?e' - int prec' + 1))"
  have "0 \<le> (?e - int prec + 1) - (?e' - int prec' + 1)" using le by auto
  then have kk: "int k = (?e - int prec + 1) - (?e' - int prec' + 1)" by (simp add: k_def)
  have "?e - int prec + 1 = int k + (?e' - int prec' + 1)" using kk by linarith
  then have "?ulp = pow2 (int k + (?e' - int prec' + 1))" by (rule arg_cong)
  also have "\<dots> = 2 ^ k * ?ulp'" by (simp add: pow2_def power_int_add)
  finally have ulp: "?ulp = 2 ^ k * ?ulp'" .
  have pos: "0 < ?ulp'" by (rule pow2_pos)
  have "\<bar>r\<bar> / ?ulp' = of_int ?n * 2 ^ k" 
    using m [symmetric] pos unfolding ulp by (simp add: field_simps)
  also have "\<dots> = of_int (?n * 2 ^ k)" by simp
  finally have q: "\<bar>r\<bar> / ?ulp' = of_int (?n * 2 ^ k)" .
  have m': "of_int (round_half_even (\<bar>r\<bar> / ?ulp')) * ?ulp' = \<bar>r\<bar>"
    unfolding q round_half_even_of_int using m ulp by simp
  have "pow2 emax \<le> pow2 emax'"
    unfolding pow2_def using le by (intro power_int_increasing) auto
  with lt m have lt': "\<bar>r\<bar> < pow2 emax'" by simp
  show ?thesis using False m' lt'
    by (auto simp: round_binary_def Let_def)
qed

lemma float32_value_dround: "float32_value v \<Longrightarrow> dround v = v"
  by (cases v)
     (auto simp: float32_value_def fround_def dround_def intro: round_binary_coarser)

text \<open>
  The exponent that \<open>floor_log2\<close> computes is the one of the binade of the number.
\<close>

lemma floor_log2_bounds:
  assumes "0 < r"
  shows "pow2 (floor_log2 r) \<le> r \<and> r < pow2 (floor_log2 r + 1)"
proof -
  obtain p q where pq: "quotient_of r = (p, q)" by (cases "quotient_of r")
  then have q: "0 < q" by (rule quotient_of_denom_pos)
  from pq have r: "r = of_int p / of_int q" by (rule quotient_of_div)
  with assms q have p: "0 < p" by (simp add: zero_less_divide_iff)
  let ?bp = "bitlen p" and ?bq = "bitlen q"
  have pow: "(2::rat) powi z = of_int (2 ^ nat z)" if "0 \<le> z" for z
    using that by (simp add: power_int_def)
  from p have bp: "0 \<le> ?bp - 1" by (simp add: bitlen_alt_def)
  from q have bq: "0 \<le> ?bq - 1" by (simp add: bitlen_alt_def)
  have p1: "(2::rat) powi (?bp - 1) \<le> of_int p"
    unfolding pow [OF bp] using bitlen_bounds [OF p] by (simp only: of_int_le_iff)
  have p2: "of_int p < (2::rat) powi ?bp"
    unfolding pow [OF bitlen_nonneg] using bitlen_bounds [OF p] by (simp only: of_int_less_iff)
  have q1: "(2::rat) powi (?bq - 1) \<le> of_int q"
    unfolding pow [OF bq] using bitlen_bounds [OF q] by (simp only: of_int_le_iff)
  have q2: "of_int q < (2::rat) powi ?bq"
    unfolding pow [OF bitlen_nonneg] using bitlen_bounds [OF q] by (simp only: of_int_less_iff)
  have "r < 2 powi ?bp / 2 powi (?bq - 1)"
    unfolding r using p p2 q1 by (intro frac_less) simp_all
  also have "\<dots> = 2 powi (?bp - ?bq + 1)"
    by (simp add: power_int_diff [symmetric] algebra_simps)
  finally have up: "r < 2 powi (?bp - ?bq + 1)" .
  have "(2::rat) powi (?bp - 1) / 2 powi ?bq < r"
    unfolding r using p1 q q2 by (intro frac_less2) simp_all
  moreover have "(2::rat) powi (?bp - 1) / 2 powi ?bq = 2 powi (?bp - ?bq - 1)"
    by (simp add: power_int_diff [symmetric] algebra_simps)
  ultimately have lo: "2 powi (?bp - ?bq - 1) < r" by simp
  show ?thesis
    using up lo by (auto simp: floor_log2_def pow2_def pq Let_def)
qed


text \<open>
  Some roundings: a tie goes to the even significand, the largest binary32 number, the
  overflow to the infinity, the subnormal range and the underflow to zero, and two
  roundings to binary64.
\<close>

lemma fround_examples:
  "fround (Fin 16777217) = Fin 16777216
   \<and> fround (Fin 16777219) = Fin 16777220
   \<and> fround (Fin (1 / 3)) = Fin (11184811 / 33554432)
   \<and> fround (Fin (- (2 ^ 128 - 2 ^ 103 - 1))) = Fin (- (2 ^ 128 - 2 ^ 104))
   \<and> fround (Fin (2 ^ 128 - 2 ^ 103)) = PosInf
   \<and> fround (Fin (3 / 2 ^ 150)) = Fin (1 / 2 ^ 148)
   \<and> fround (Fin (1 / 2 ^ 150)) = Fin 0
   \<and> dround (Fin (1 / 10)) = Fin (3602879701896397 / 2 ^ 55)
   \<and> dround (Fin 9007199254740993) = Fin 9007199254740992"
  by code_simp

subsection \<open>Negation and the scaled sum\<close>

lemma js_mul_neg_one: "js_mul (Fin (- 1)) v = js_neg v"
  by (cases v) (auto simp: inf_times_def)

lemma js_times_neg_one_neg: "js_times (Fin (- 1)) (js_neg w) = js_times (Fin 1) w"
  by (cases w) (auto simp: js_times_def inf_times_def)

lemma neg_float32_value:
  "float32_value v \<Longrightarrow> fround (js_times (Fin (- 1)) v) = js_neg v"
  by (simp add: js_times_def js_mul_neg_one dround_neg fround_neg float32_value_dround)
     (simp add: float32_value_def)

lemma fold_ta_store_all:
  "length vals0 = n \<Longrightarrow>
   fold (\<lambda>i vals. ta_store Float32 vals i (f i)) [0..<n] vals0 = map (\<lambda>i. fround (f i)) [0..<n]"
  using fold_ta_set_all [of vals0 n Float32 "\<lambda>i. fround (f i)"] by (simp add: ta_store_def)

lemma broadcast_scalar: "assertAndGetBroadcastShape [] shp = Inr shp"
  by (simp add: assertAndGetBroadcastShape_def)

lemma neg_values:
  assumes "well_formed b" and f32: "list_all float32_value (getValues b)"
  shows "neg b = Inr \<lparr>shape = shape b, dtype = Float32, getValues = map js_neg (getValues b)\<rparr>"
proof -
  let ?n = "sizeFromShape (shape b)"
  from assms have len: "length (getValues b) = ?n" by (simp add: well_formed_def)
  have "map (\<lambda>i. fround (js_times (ta_get_mod [Fin (- 1)] i (sizeFromShape []))
                       (ta_get_mod (getValues b) i ?n))) [0..<?n]
        = map js_neg (getValues b)"
    using len f32
    by (intro nth_equalityI)
       (auto simp: ta_get_mod_def ta_get_def sizeFromShape_def list_all_length neg_float32_value)
  then show ?thesis
    by (simp add: neg_def multiply_def broadcast_scalar Scalar_NEG_ONE_def size_nd_def
        fold_ta_store_all make_nd_def)
qed

lemma ta_get_map_neg: "ta_get (map js_neg vs) i = js_neg (ta_get vs i)"
  by (simp add: ta_get_def)

subsection \<open>The loops of multinomial\<close>

lemma fold_err_total:
  "(\<And>x s. x \<in> set xs \<Longrightarrow> f x s = Inr (g x s)) \<Longrightarrow> fold_err f xs s = Inr (fold g xs s)"
  by (induction xs arbitrary: s) auto

lemma find_event_pick:
  "pos < length resVals \<Longrightarrow>
   find_event r cdf es (resVals[pos := ta_convert Int32 (Fin (of_nat dflt))]) pos
     = resVals[pos := ta_convert Int32 (Fin (of_nat (pick_event r cdf es dflt)))]"
  by (induction es) (auto simp: ta_set_def simp del: ta_convert.simps)

lemma length_row_samples: "length (row_samples random cdf n g) = n"
  by (induction n arbitrary: g) auto

lemma sample_loop_segment:
  "outOffset + k + m \<le> length resVals \<Longrightarrow>
   sample_loop random cdf outOffset [k..<k + m] g resVals
     = take (outOffset + k) resVals @ row_samples random cdf m g
         @ drop (outOffset + k + m) resVals"
proof (induction m arbitrary: k g resVals)
  case 0
  then show ?case by simp
next
  case (Suc m)
  let ?p = "outOffset + k"
  let ?v = "ta_convert Int32 (Fin (of_nat (pick_event (fst (random g)) cdf [0..<length cdf] (length cdf))))"
  let ?rv = "resVals[?p := ?v]"
  have p: "?p < length resVals" using Suc.prems by simp
  have upt: "[k..<k + Suc m] = k # [Suc k..<Suc k + m]" by (simp add: upt_conv_Cons)
  have step: "sample_loop random cdf outOffset [k..<k + Suc m] g resVals
        = sample_loop random cdf outOffset [Suc k..<Suc k + m] (snd (random g)) ?rv"
    unfolding upt
    using p find_event_pick [OF p, of "fst (random g)" cdf "[0..<length cdf]" "length cdf"]
    by (simp add: ta_set_def split_beta Let_def del: ta_convert.simps upt_Suc)
  have IH: "sample_loop random cdf outOffset [Suc k..<Suc k + m] (snd (random g)) ?rv
        = take (outOffset + Suc k) ?rv @ row_samples random cdf m (snd (random g))
            @ drop (outOffset + Suc k + m) ?rv"
    using Suc.prems by (intro Suc.IH) simp
  have t: "take (outOffset + Suc k) ?rv = take ?p resVals @ [?v]"
    using p by (simp add: take_Suc_conv_app_nth del: ta_convert.simps)
  have d: "drop (outOffset + Suc k + m) ?rv = drop (outOffset + k + Suc m) resVals"
    by simp
  show ?case
    unfolding step IH t d by (simp del: ta_convert.simps)
qed

lemma rows_concat:
  assumes len: "length init = B * ns"
  shows "j \<le> B \<Longrightarrow>
    fold (\<lambda>b resVals. sample_loop random (cdf b) (b * ns) [0..<ns] (g b) resVals) [0..<j] init
      = concat (map (\<lambda>b. row_samples random (cdf b) ns (g b)) [0..<j]) @ drop (j * ns) init"
proof (induction j)
  case 0
  then show ?case by simp
next
  case (Suc j)
  let ?C = "concat (map (\<lambda>b. row_samples random (cdf b) ns (g b)) [0..<j])"
  let ?cur = "?C @ drop (j * ns) init"
  have lenC: "length ?C = j * ns"
    by (induction j) (simp_all add: length_row_samples)
  have "Suc j * ns \<le> B * ns" using Suc.prems by (intro mult_le_mono1) simp
  then have fit: "j * ns + ns \<le> length init" using len by simp
  have fits: "j * ns + 0 + ns \<le> length ?cur" using fit lenC by simp
  have IH: "fold (\<lambda>b resVals. sample_loop random (cdf b) (b * ns) [0..<ns] (g b) resVals) [0..<j] init
              = ?cur"
    using Suc by simp
  have "sample_loop random (cdf j) (j * ns) [0..<0 + ns] (g j) ?cur
      = take (j * ns + 0) ?cur @ row_samples random (cdf j) ns (g j) @ drop (j * ns + 0 + ns) ?cur"
    using fits by (rule sample_loop_segment)
  also have "\<dots> = ?C @ row_samples random (cdf j) ns (g j) @ drop (Suc j * ns) init"
    using lenC fit by (simp add: add.commute)
  finally show ?case
    by (simp add: IH)
qed

lemma concat_segment:
  assumes "\<And>b. b < B \<Longrightarrow> length (f b) = ns" and "b < B"
  shows "take ns (drop (b * ns) (concat (map f [0..<B]))) = f b"
proof -
  have split: "[0..<B] = [0..<b] @ b # [Suc b..<B]"
    using assms(2) by (metis le0 upt_add_eq_append upt_conv_Cons le_add_diff_inverse less_imp_le_nat)
  have lenpre: "length (concat (map f [0..<b])) = b * ns"
    using assms by (induction b) auto
  show ?thesis
    unfolding split using lenpre assms by simp
qed

lemma build_cdf_row:
  assumes "offset + n \<le> length probVals"
  shows "build_cdf probVals offset n = build_cdf (take n (drop offset probVals)) 0 n"
proof -
  have g: "ta_get probVals (offset + e) = ta_get (take n (drop offset probVals)) e" if "e < n" for e
    using that assms by (simp add: ta_get_def)
  let ?cdf0 = "replicate (n - 1) (Fin 0)"
  show ?thesis
  proof (cases "n = 0")
    case True
    then show ?thesis by (simp add: build_cdf_def ta_set_def)
  next
    case False
    then have g0: "ta_get probVals offset = ta_get (take n (drop offset probVals)) 0"
      using g [of 0] by simp
    have len: "length (ta_set Float32 ?cdf0 0 v) = n - 1" for v
      by (simp add: ta_set_def)
    have "fold (\<lambda>event cdf. ta_set Float32 cdf event
                 (js_add (ta_get cdf (event - 1)) (ta_get probVals (offset + event))))
            [1..<n - 1] c
        = fold (\<lambda>event cdf. ta_set Float32 cdf event
                 (js_add (ta_get cdf (event - 1)) (ta_get (take n (drop offset probVals)) (0 + event))))
            [1..<n - 1] c" for c
      by (rule fold_cong) (auto simp: g)
    then show ?thesis
      unfolding build_cdf_def Let_def len g0 by simp
  qed
qed

subsection \<open>The loop nests of max-pooling\<close>



lemma set4_fields [simp]:
  "shape (set4 a v i j k l) = shape a" "dtype (set4 a v i j k l) = dtype a"
  "getValues (set4 a v i j k l) = ta_set_int (dtype a) (getValues a) (index4 (shape a) i j k l) v"
  by (simp_all add: set4_def)

lemma length_ta_set_int [simp]: "length (ta_set_int dt buf i v) = length buf"
  by (simp add: ta_set_int_def)


lemma length_fold_ta_set_int [simp]:
  "length (fold (\<lambda>k buf. ta_set_int dt buf (ix k) (v k)) ks buf) = length buf"
  by (induction ks arbitrary: buf) simp_all
















lemma js_less_asym: "js_less a b \<Longrightarrow> \<not> js_less b a"
  using js_less_trans js_less_irrefl by blast





lemma distinct_int_range: "distinct (int_range lo hi)"
  by (simp add: int_range_def distinct_map inj_on_def)


lemma strict_max_at_iff:
  "strict_max_at x convInfo b d yR yC p \<longleftrightarrow>
     p \<in> set (pool_window convInfo yR yC)
   \<and> js_less NegInf (get4 x (int b) (fst p) (snd p) (int d))
   \<and> (\<forall>q\<in>set (pool_window convInfo yR yC).
         q = p \<or> js_less (get4 x (int b) (fst q) (snd q) (int d))
                          (get4 x (int b) (fst p) (snd p) (int d)))"
  by (auto simp: strict_max_at_def list_ex_iff list_all_iff)

lemma strict_max_unique:
  assumes "strict_max_at x convInfo b d yR yC p" and "strict_max_at x convInfo b d yR yC q"
  shows "p = q"
proof (rule ccontr)
  assume ne: "p \<noteq> q"
  let ?px = "\<lambda>p. get4 x (int b) (fst p) (snd p) (int d)"
  let ?W = "set (pool_window convInfo yR yC)"
  from assms(1) have p: "p \<in> ?W" and ap: "\<forall>z\<in>?W. z = p \<or> js_less (?px z) (?px p)"
    unfolding strict_max_at_iff by simp_all
  from assms(2) have q: "q \<in> ?W" and aq: "\<forall>z\<in>?W. z = q \<or> js_less (?px z) (?px q)"
    unfolding strict_max_at_iff by simp_all
  from ap q ne have "js_less (?px q) (?px p)" by auto
  moreover from aq p ne have "js_less (?px p) (?px q)" by auto
  ultimately show False using js_less_asym by blast
qed















subsection \<open>The typed arrays a kernel writes to\<close>

text \<open>
  \<open>keeps n base st\<close>: the store \<open>st\<close> has the typed arrays of \<open>base\<close>, and possibly more,
  and the first \<open>n\<close> of them are as they are in \<open>base\<close>. Stores into typed arrays from
  the \<open>n\<close>-th on, and allocations, keep it.
\<close>

lemma keeps_refl: "n \<le> length base \<Longrightarrow> keeps n base base"
  by (simp add: keeps_def)

lemma keeps_append: "keeps n base st \<Longrightarrow> keeps n base (st @ [vs])"
  by (simp add: keeps_def)

lemma keeps_update: "keeps n base st \<Longrightarrow> n \<le> a \<Longrightarrow> keeps n base (st[a := vs])"
  unfolding keeps_def by (simp only: length_list_update take_update_cancel)

lemma keeps_store_at: "keeps n base st \<Longrightarrow> n \<le> a \<Longrightarrow> keeps n base (store_at dt a i v st)"
  by (simp add: store_at_def keeps_update)

lemma keeps_store_at_int:
  "keeps n base st \<Longrightarrow> n \<le> a \<Longrightarrow> keeps n base (store_at_int dt a i v st)"
  by (simp add: store_at_int_def keeps_update)

lemma keeps_store_at_js:
  "keeps n base st \<Longrightarrow> n \<le> a \<Longrightarrow> keeps n base (store_at_js dt a idx v st)"
  by (simp add: store_at_js_def keeps_store_at_int split: option.split)

lemma keeps_set_st: "keeps n base st \<Longrightarrow> n \<le> tvalues t \<Longrightarrow> keeps n base (set_st t v loc st)"
  by (simp add: set_st_def keeps_store_at_int)

lemma keeps_set_js: "keeps n base st \<Longrightarrow> n \<le> tvalues t \<Longrightarrow> keeps n base (set_js t v loc st)"
  by (simp add: set_js_def keeps_store_at_js)

lemma keeps_fold:
  "keeps n base st \<Longrightarrow> (\<And>x s. keeps n base s \<Longrightarrow> keeps n base (f x s))
   \<Longrightarrow> keeps n base (fold f xs st)"
  by (induction xs arbitrary: st) simp_all


lemma pure_callI:
  "keeps (length st) (st @ [buf]) st' \<Longrightarrow> tvalues r = length st \<Longrightarrow> pure_call st (r, st')"
  by (auto simp add: keeps_def pure_call_def extends_def allocated_since_def)

lemma pure_call_errI:
  "keeps (length st) (st @ [buf]) st' \<Longrightarrow> tvalues r = length st
   \<Longrightarrow> pure_call_err st (Inr r, st')"
  by (auto simp add: keeps_def pure_call_err_def extends_def allocated_since_def)


lemma keeps_trans: "keeps n a b \<Longrightarrow> keeps n b c \<Longrightarrow> keeps n a c"
  by (simp add: keeps_def)

lemma keeps_le: "keeps n base st \<Longrightarrow> n \<le> length st"
  by (simp add: keeps_def)

lemma keeps_fold_snd:
  "keeps n base st \<Longrightarrow> (\<And>x s. keeps n base (snd s) \<Longrightarrow> keeps n base (snd (f x s)))
   \<Longrightarrow> keeps n base (snd (fold f xs (c, st)))"
proof (induction xs arbitrary: c st)
  case Nil
  then show ?case by simp
next
  case (Cons x xs)
  from Cons.prems have "keeps n base (snd (f x (c, st)))" by simp
  from Cons.IH [OF this Cons.prems(2), of "fst (f x (c, st))"] show ?case by simp
qed



lemma pure_call_err_refl: "pure_call_err st (Inl e, st)"
  by (simp add: pure_call_err_def extends_def)

lemmas store_defs = zeros_st_def new_array_def alloc_def make_st_def Let_def split_beta

lemmas keeps_intros = keeps_fold keeps_set_st keeps_set_js keeps_store_at keeps_store_at_int
  keeps_store_at_js keeps_refl

lemma clone_pure: "pure_call st (clone_st x st)"
  by (auto simp: clone_st_def store_defs intro!: pure_callI keeps_intros)

lemma slice1D_pure: "pure_call st (slice1D_st x start size' st)"
  by (auto simp: slice1D_st_def store_defs intro!: pure_callI keeps_intros)

lemma slice2D_pure: "pure_call st (slice2D_st x start size' st)"
  by (auto simp: slice2D_st_def store_defs intro!: pure_callI keeps_intros)

lemma slice3D_pure: "pure_call st (slice3D_st x start size' st)"
  by (auto simp: slice3D_st_def store_defs intro!: pure_callI keeps_intros)

lemma slice4D_pure: "pure_call st (slice4D_st x start size' st)"
  by (auto simp: slice4D_st_def store_defs intro!: pure_callI keeps_intros)

lemma ta_set_all_keeps:
  "keeps n base st \<Longrightarrow> n \<le> target
   \<Longrightarrow> keeps n base (snd (ta_set_all dt target source offset st))"
  by (auto simp: ta_set_all_def intro!: keeps_intros)

lemma concat_axis0_keeps:
  assumes "keeps n base st" "n \<le> tvalues result"
  shows "keeps n base (snd (concat_axis0 a b result st))"
proof -
  let ?s1 = "ta_set_all (tdtype result) (tvalues result) (tvalues a) 0 st"
  let ?s2 = "ta_set_all (tdtype result) (tvalues result) (tvalues b) (tsize a) (snd ?s1)"
  have k1: "keeps n base (snd ?s1)"
    using assms by (rule ta_set_all_keeps)
  hence k2: "keeps n base (snd ?s2)"
    using assms(2) by (rule ta_set_all_keeps)
  have "snd (concat_axis0 a b result st) = snd ?s1 \<or> snd (concat_axis0 a b result st) = snd ?s2"
    by (cases ?s1; cases ?s2) (auto simp: concat_axis0_def Let_def split: option.split)
  with k1 k2 show ?thesis by auto
qed

lemma concat_axis0_result:
  "fst (concat_axis0 a b result st) = Inr r \<Longrightarrow> r = result"
  by (auto simp: concat_axis0_def Let_def split: prod.splits option.splits)

lemma concat_axis0_pure:
  "pure_call_err st (concat_axis0 a b \<lparr>tshape = shp, tdtype = dt, tvalues = length st\<rparr>
     (st @ [buf]))"
proof -
  let ?res = "\<lparr>tshape = shp, tdtype = dt, tvalues = length st\<rparr>"
  let ?out = "concat_axis0 a b ?res (st @ [buf])"
  have k: "keeps (length st) (st @ [buf]) (snd ?out)"
    by (rule concat_axis0_keeps) (simp_all add: keeps_refl)
  show ?thesis
  proof (cases "fst ?out")
    case (Inl e)
    with k show ?thesis
      by (auto simp: pure_call_err_def extends_def keeps_def)
  next
    case (Inr r)
    hence "r = ?res" by (rule concat_axis0_result)
    with Inr k show ?thesis
      by (auto simp: pure_call_err_def extends_def keeps_def allocated_since_def)
  qed
qed

lemma concat1D_pure: "pure_call_err st (concat1D_st a b st)"
  by (simp add: concat1D_st_def store_defs concat_axis0_pure)

lemma concat2D_pure: "pure_call_err st (concat2D_st a b axis st)"
  by (auto simp: concat2D_st_def store_defs concat_axis0_pure
      intro!: pure_call_errI keeps_intros)

lemma concat3D_pure: "pure_call_err st (concat3D_st a b axis st)"
  by (auto simp: concat3D_st_def store_defs concat_axis0_pure
      intro!: pure_call_errI keeps_intros)

lemma concat4D_pure: "pure_call_err st (concat4D_st a b axis st)"
  by (auto simp: concat4D_st_def store_defs concat_axis0_pure
      intro!: pure_call_errI keeps_intros)

lemma broadcastedBinaryOp_pure: "pure_call_err st (broadcastedBinaryOp_st a b dt op st)"
  by (auto simp: broadcastedBinaryOp_st_def store_defs split: sum.split
      intro!: pure_call_errI pure_call_err_refl keeps_intros)

lemma scaledArrayAdd_pure: "pure_call_err st (scaledArrayAdd_st c1 a c2 b st)"
  by (simp add: scaledArrayAdd_st_def Let_def broadcastedBinaryOp_pure)

lemma add_pure: "pure_call_err st (add_st ONE a b st)"
  by (simp add: add_st_def scaledArrayAdd_pure)

lemma subtract_pure: "pure_call_err st (subtract_st ONE NEG_ONE a b st)"
  by (simp add: subtract_st_def scaledArrayAdd_pure)

lemma multiply_pure: "pure_call_err st (multiply_st a b st)"
  by (auto simp: multiply_st_def store_defs split: sum.split
      intro!: pure_call_errI pure_call_err_refl keeps_intros)

lemma divide_pure: "pure_call_err st (divide_st a b st)"
  by (auto simp: divide_st_def store_defs split: sum.split
      intro!: pure_call_errI pure_call_err_refl keeps_intros)

lemma neg_pure: "pure_call_err st (neg_st NEG_ONE x st)"
  by (simp add: neg_st_def multiply_pure)

lemma equal_pure: "pure_call_err st (equal_st isValNaN getNaN a b st)"
  by (simp add: equal_st_def broadcastedBinaryOp_pure)

lemma matMul_pure: "pure_call st (matMul_st a b aOrientation bOrientation st)"
  by (auto simp: matMul_st_def store_defs
      intro!: pure_callI keeps_fold_snd keeps_intros)

lemma sum_pure: "pure_call_err st (sum_st SumTypesMap x axes st)"
  by (auto simp: sum_st_def store_defs
      intro!: pure_call_errI pure_call_err_refl keeps_intros)

lemma argMin_pure: "pure_call_err st (argMin_st nanIdx x axes st)"
  by (auto simp: argMin_st_def store_defs
      intro!: pure_call_errI pure_call_err_refl keeps_intros)

lemma argMax_pure: "pure_call_err st (argMax_st nanIdx x axes st)"
  by (auto simp: argMax_st_def store_defs
      intro!: pure_call_errI pure_call_err_refl keeps_intros)

lemma min_pure: "pure_call_err st (min_st x axes st)"
  by (auto simp: min_st_def store_defs
      intro!: pure_call_errI pure_call_err_refl keeps_intros)

lemma max_pure: "pure_call_err st (max_st x axes st)"
  by (auto simp: max_st_def store_defs
      intro!: pure_call_errI pure_call_err_refl keeps_intros)

lemma topK_copy_keeps:
  "keeps n base st \<Longrightarrow> n \<le> topkValues \<Longrightarrow> n \<le> topkIndices
   \<Longrightarrow> keeps n base (snd (topK_copy_st valuesAndIndices dt topkValues topkIndices is st))"
  by (induction "is" arbitrary: st) (simp_all add: keeps_store_at)

lemma topK_frame:
  "extends st (snd (topK_st maxLength ndarray k st))
   \<and> (case fst (topK_st maxLength ndarray k st) of
        Inl e \<Rightarrow> True
      | Inr r \<Rightarrow> allocated_since st (snd (topK_st maxLength ndarray k st)) (fst r)
               \<and> allocated_since st (snd (topK_st maxLength ndarray k st)) (snd r))"
proof -
  let ?b = "replicate (nat k) (Fin 0)"
  consider (first) "k < 0 \<or> int (maxLength (tdtype ndarray)) < k"
    | (second) "\<not> (k < 0 \<or> int (maxLength (tdtype ndarray)) < k)" "int (maxLength Int32) < k"
    | (both) "\<not> (k < 0 \<or> int (maxLength (tdtype ndarray)) < k)" "\<not> int (maxLength Int32) < k"
    by blast
  then show ?thesis
  proof cases
    case first
    then have "topK_st maxLength ndarray k st = (Inl RangeError, st)"
      by (simp add: topK_st_def new_array_int_def)
    then show ?thesis
      by (simp add: extends_def)
  next
    case second
    then have "topK_st maxLength ndarray k st = (Inl RangeError, st @ [?b])"
      by (simp add: topK_st_def new_array_int_def new_array_def alloc_def Let_def)
    then show ?thesis
      by (simp add: extends_def)
  next
    case both
    let ?base = "st @ [?b] @ [?b]"
    let ?copy = "topK_copy_st
        (js_sort (\<lambda>a b. js_sub (fst b) (fst a))
           (map (\<lambda>i. (load st (tvalues ndarray) i, i))
              [0..<length (contents st (tvalues ndarray))]))
        (tdtype ndarray) (length st) (Suc (length st)) [0..<nat k] ?base"
    have base: "keeps (length st) ?base ?base"
      by (simp add: keeps_refl)
    have k: "keeps (length st) ?base (snd ?copy)"
      by (rule topK_copy_keeps [OF base]) simp_all
    have eq: "topK_st maxLength ndarray k st =
        (case ?copy of
           (Some e, st3) \<Rightarrow> (Inl e, st3)
         | (None, st3) \<Rightarrow>
             (Inr (make_st [length (contents st3 (length st))] (length st) Float32,
                   make_st [length (contents st3 (length (st @ [?b])))] (length (st @ [?b]))
                     Float32),
              st3))"
      using both
      by (simp add: topK_st_def new_array_int_def new_array_def alloc_def Let_def)
    obtain e st3 where c: "?copy = (e, st3)"
      by (cases ?copy)
    from k c have k3: "keeps (length st) ?base st3"
      by simp
    show ?thesis
      unfolding eq c using k3
      by (cases e) (auto simp: keeps_def extends_def allocated_since_def make_st_def)
  qed
qed

lemma topKValues_pure: "pure_call_err st (topKValues_st maxLength x k st)"
  using topK_frame [of st maxLength x k]
  by (cases "topK_st maxLength x k st"; cases "fst (topK_st maxLength x k st)")
     (auto simp: topKValues_st_def pure_call_err_def)

lemma topKIndices_pure: "pure_call_err st (topKIndices_st maxLength x k st)"
  using topK_frame [of st maxLength x k]
  by (cases "topK_st maxLength x k st"; cases "fst (topK_st maxLength x k st)")
     (auto simp: topKIndices_st_def pure_call_err_def)

lemma map_values_pure: "pure_call st (map_values n f x st)"
  by (auto simp: map_values_def store_defs intro!: pure_callI keeps_intros)

lemma relu_pure: "pure_call st (relu_st isValNaN getNaN x st)"
  by (auto simp: relu_st_def store_defs intro!: pure_callI keeps_intros)

lemma conv2d_pure: "pure_call st (conv2d_st x filter' bias convInfo st)"
  by (auto simp: conv2d_st_def store_defs intro!: pure_callI keeps_intros)

lemma conv2dDerInput_pure: "pure_call st (conv2dDerInput_st dy filter' convInfo st)"
  by (auto simp: conv2dDerInput_st_def store_defs intro!: pure_callI keeps_intros)

lemma conv2dDerFilter_pure: "pure_call st (conv2dDerFilter_st x dy convInfo st)"
  by (auto simp: conv2dDerFilter_st_def store_defs intro!: pure_callI keeps_intros)

lemma conv2dDerBias_pure: "pure_call st (conv2dDerBias_st dy st)"
  by (auto simp: conv2dDerBias_st_def store_defs intro!: pure_callI keeps_intros)

lemma depthwiseConv2D_pure: "pure_call st (depthwiseConv2D_st x filter' convInfo st)"
  by (auto simp: depthwiseConv2D_st_def store_defs intro!: pure_callI keeps_intros)

lemma tile_pure: "pure_call st (tile_st x reps st)"
  by (auto simp: tile_st_def store_defs intro!: pure_callI keeps_intros)

lemma transpose_pure: "pure_call st (transpose_st x perm st)"
  by (auto simp: transpose_st_def store_defs intro!: pure_callI keeps_intros)

lemma pool_pure: "pure_call st (pool_st x convInfo poolType st)"
  by (auto simp: pool_st_def store_defs intro!: pure_callI keeps_intros)

lemma maxPoolPositions_keeps:
  "keeps n base st \<Longrightarrow> keeps n base (snd (maxPoolPositions_st x convInfo st))"
  by (auto simp: maxPoolPositions_st_def store_defs dest: keeps_le
      intro!: keeps_intros keeps_append)


lemma pure_call_after:
  "keeps (length st) st st2 \<Longrightarrow> keeps (length st) (st2 @ [buf]) st' \<Longrightarrow> tvalues r = length st2
   \<Longrightarrow> pure_call st (r, st')"
  by (auto simp add: keeps_def pure_call_def extends_def allocated_since_def)

lemma maxPoolBackprop_pure: "pure_call st (maxPoolBackprop_st dy x convInfo st)"
proof -
  let ?st1 = "snd (maxPoolPositions_st x convInfo st)"
  let ?base = "?st1 @ [replicate (sizeFromShape (tshape x)) (Fin 0)]"
  have k1: "keeps (length st) st ?st1"
    by (rule maxPoolPositions_keeps) (simp add: keeps_refl)
  hence le: "length st \<le> length ?st1"
    by (simp add: keeps_def)
  hence kb: "keeps (length st) ?base ?base"
    by (simp add: keeps_refl)
  have "keeps (length st) ?base (snd (maxPoolBackprop_st dy x convInfo st))"
    using kb le
    by (auto simp: maxPoolBackprop_st_def store_defs intro!: keeps_intros)
  moreover have "tvalues (fst (maxPoolBackprop_st dy x convInfo st)) = length ?st1"
    by (simp add: maxPoolBackprop_st_def store_defs)
  ultimately show ?thesis
    using k1
    by (cases "maxPoolBackprop_st dy x convInfo st") (auto intro: pure_call_after)
qed

lemma resizeBilinear3D_pure: "pure_call st (resizeBilinear3D_st x newShape2D alignCorners st)"
  by (auto simp: resizeBilinear3D_st_def store_defs intro!: pure_callI keeps_intros)

lemma batchNormalization_pure:
  "pure_call st (batchNormalization_st Math_sqrt x mean variance varianceEpsilon scale' offset st)"
proof -
  obtain scaleValues st1 where
    s1: "(case scale' of Some s \<Rightarrow> (tvalues s, st) | None \<Rightarrow> alloc [Fin 1] st) = (scaleValues, st1)"
    by (cases "case scale' of Some s \<Rightarrow> (tvalues s, st) | None \<Rightarrow> alloc [Fin 1] st")
  obtain offsetValues st2 where
    s2: "(case offset of Some off \<Rightarrow> (tvalues off, st1) | None \<Rightarrow> alloc [Fin 0] st1)
         = (offsetValues, st2)"
    by (cases "case offset of Some off \<Rightarrow> (tvalues off, st1) | None \<Rightarrow> alloc [Fin 0] st1")
  from s1 have k1: "keeps (length st) st st1"
    by (auto simp: alloc_def keeps_def split: option.splits)
  from s2 have "keeps (length st) st1 st2"
    using k1 by (auto simp: alloc_def keeps_def split: option.splits)
  with k1 have k2: "keeps (length st) st st2"
    by (rule keeps_trans)
  hence le: "length st \<le> length st2"
    by (simp add: keeps_def)
  let ?base = "st2 @ [replicate (length (contents st2 (tvalues x))) (Fin 0)]"
  from le have kb: "keeps (length st) ?base ?base"
    by (simp add: keeps_refl)
  show ?thesis
    unfolding batchNormalization_st_def Let_def s1 prod.case s2
    unfolding new_array_def alloc_def prod.case make_st_def
    using kb le
    by (intro pure_call_after [OF k2, where buf = "replicate (length (contents st2 (tvalues x))) (Fin 0)"])
       (auto intro!: keeps_intros)
qed

lemma batchNormalization2D_pure:
  "pure_call st
     (batchNormalization2D_st Math_sqrt x mean variance varianceEpsilon scale' offset st)"
  by (simp add: batchNormalization2D_st_def batchNormalization_pure)

lemma batchNormalization3D_pure:
  "pure_call st
     (batchNormalization3D_st Math_sqrt x mean variance varianceEpsilon scale' offset st)"
  by (simp add: batchNormalization3D_st_def batchNormalization_pure)

lemma oneHot_pure: "pure_call st (oneHot_st indices depth onValue offValue st)"
  by (auto simp: oneHot_st_def store_defs intro!: pure_callI keeps_intros)

lemma find_event_keeps:
  "keeps n base st \<Longrightarrow> n \<le> resVals
   \<Longrightarrow> keeps n base (find_event_st r cdf es resVals pos st)"
  by (induction es) (simp_all add: keeps_store_at)

lemma sample_loop_keeps:
  "keeps n base st \<Longrightarrow> n \<le> resVals
   \<Longrightarrow> keeps n base (sample_loop_st random cdf outOffset ids g resVals st)"
proof (induction ids arbitrary: g st)
  case Nil
  then show ?case by simp
next
  case (Cons sampleId ids)
  show ?case
    by (simp add: Let_def split_beta)
       (intro Cons.IH find_event_keeps keeps_store_at Cons.prems)
qed

lemma fold_throw_keeps:
  "keeps n base st \<Longrightarrow> (\<And>x s. keeps n base s \<Longrightarrow> keeps n base (snd (f x s)))
   \<Longrightarrow> keeps n base (snd (fold_throw f xs st))"
proof (induction xs arbitrary: st)
  case Nil
  then show ?case by simp
next
  case (Cons x xs)
  from Cons.prems have k: "keeps n base (snd (f x st))" by simp
  show ?case
  proof (cases "f x st")
    case (Pair e st1)
    with k have k1: "keeps n base st1" by simp
    show ?thesis
    proof (cases e)
      case None
      with Pair Cons.IH [OF k1 Cons.prems(2)] show ?thesis by simp
    next
      case (Some err)
      with Pair k1 show ?thesis by simp
    qed
  qed
qed

lemma multinomial_pure:
  "pure_call_err st (multinomial_st alea random probabilities numSamples seed st)"
proof -
  let ?n = "length st"
  let ?base = "st @ [replicate (sizeFromShape [tshape probabilities ! 0, numSamples]) (Fin 0)]"
  let ?numEvents = "tshape probabilities ! 1"
  let ?body = "\<lambda>b st.
      let offset = b * ?numEvents
      in if ?numEvents = 0 then (Some RangeError, st)
         else
           let (cdf, st2) = new_array (?numEvents - 1) st;
               st3 = store_at Float32 cdf 0 (load st2 (tvalues probabilities) offset) st2;
               st4 = fold (\<lambda>event st.
                         store_at Float32 cdf event
                           (js_add (load st cdf (event - 1))
                              (load st (tvalues probabilities) (offset + event))) st)
                       [1..<length (contents st3 cdf)] st3;
               g = alea seed;
               outOffset = b * numSamples
           in (None, sample_loop_st random cdf outOffset [0..<numSamples] g ?n st4)"
  have step: "keeps ?n ?base (snd (?body b s))" if "keeps ?n ?base s" for b s
  proof -
    from that have le: "?n \<le> length s" by (rule keeps_le)
    with that show ?thesis
      by (auto simp: store_defs intro!: sample_loop_keeps keeps_intros keeps_append)
  qed
  have "keeps ?n ?base ?base"
    by (simp add: keeps_refl)
  hence k: "keeps ?n ?base (snd (fold_throw ?body [0..<tshape probabilities ! 0] ?base))"
    using step by (rule fold_throw_keeps)
  have eq: "multinomial_st alea random probabilities numSamples seed st =
      (case fold_throw ?body [0..<tshape probabilities ! 0] ?base of
         (Some e, st') \<Rightarrow> (Inl e, st')
       | (None, st') \<Rightarrow>
           (Inr \<lparr>tshape = [tshape probabilities ! 0, numSamples], tdtype = Int32,
                  tvalues = ?n\<rparr>, st'))"
    unfolding multinomial_st_def zeros_st_def new_array_def [of "sizeFromShape _"] alloc_def
      Let_def prod.case Tensor.simps
    by (rule refl)
  obtain e st' where f: "fold_throw ?body [0..<tshape probabilities ! 0] ?base = (e, st')"
    by (cases "fold_throw ?body [0..<tshape probabilities ! 0] ?base")
  with k have "keeps ?n ?base st'" by simp
  thus ?thesis
    unfolding eq f
    by (cases e) (auto simp: keeps_def pure_call_err_def extends_def allocated_since_def)
qed

lemma ceil_pure: "pure_call st (ceil_st x st)"
  by (simp add: ceil_st_def map_values_pure)

lemma floor_pure: "pure_call st (floor_st x st)"
  by (simp add: floor_st_def map_values_pure)

lemma exp_pure: "pure_call st (exp_st Math_exp x st)"
  by (simp add: exp_st_def map_values_pure)

lemma log_pure: "pure_call st (log_st Math_log x st)"
  by (simp add: log_st_def map_values_pure)

lemma sqrt_pure: "pure_call st (sqrt_st Math_sqrt x st)"
  by (simp add: sqrt_st_def map_values_pure)

lemma square_pure: "pure_call st (square_st x st)"
  by (simp add: square_st_def map_values_pure)

lemma elu_pure: "pure_call st (elu_st Math_exp x st)"
  by (simp add: elu_st_def map_values_pure)

lemma eluDer_pure: "pure_call st (eluDer_st Math_exp x st)"
  by (simp add: eluDer_st_def map_values_pure)

lemma selu_pure: "pure_call st (selu_st Math_exp x st)"
  by (simp add: selu_st_def map_values_pure)

lemma leakyRelu_pure: "pure_call st (leakyRelu_st x alpha st)"
  by (simp add: leakyRelu_st_def map_values_pure)

lemma clip_pure: "pure_call st (clip_st x min' max' st)"
  by (simp add: clip_st_def map_values_pure)

lemma abs_pure: "pure_call st (abs_st x st)"
  by (simp add: abs_st_def map_values_pure)

lemma sigmoid_pure: "pure_call st (sigmoid_st Math_exp x st)"
  by (simp add: sigmoid_st_def map_values_pure)

lemma sin_pure: "pure_call st (sin_st Math_sin x st)"
  by (simp add: sin_st_def map_values_pure)

lemma cos_pure: "pure_call st (cos_st Math_cos x st)"
  by (simp add: cos_st_def map_values_pure)

lemma tan_pure: "pure_call st (tan_st Math_tan x st)"
  by (simp add: tan_st_def map_values_pure)

lemma asin_pure: "pure_call st (asin_st Math_asin x st)"
  by (simp add: asin_st_def map_values_pure)

lemma acos_pure: "pure_call st (acos_st Math_acos x st)"
  by (simp add: acos_st_def map_values_pure)

lemma atan_pure: "pure_call st (atan_st Math_atan x st)"
  by (simp add: atan_st_def map_values_pure)

lemma sinh_pure: "pure_call st (sinh_st Math_sinh x st)"
  by (simp add: sinh_st_def map_values_pure)

lemma cosh_pure: "pure_call st (cosh_st Math_cosh x st)"
  by (simp add: cosh_st_def map_values_pure)

lemma tanh_pure: "pure_call st (tanh_st util_tanh x st)"
  by (simp add: tanh_st_def map_values_pure)

lemma step_pure: "pure_call st (step_st x alpha st)"
  by (simp add: step_st_def map_values_pure)

lemma maxPool_pure: "pure_call st (maxPool_st x convInfo st)"
  by (simp add: maxPool_st_def pool_pure)

lemma minPool_pure: "pure_call st (minPool_st x convInfo st)"
  by (simp add: minPool_st_def pool_pure)

lemma avgPool_pure: "pure_call st (avgPool_st x convInfo st)"
  by (simp add: avgPool_st_def pool_pure)

section \<open>Theorems\<close>

text \<open>
  C2 (the code departs from the claim). On the \<open>2 \<times> 2\<close> tensor \<open>[[1, 2], [3, 4]]\<close> reduced
  over its last axis, the second output element of \<open>min\<close> is 1, the value of \<open>aVals[0]\<close>,
  where the minimum of its own window \<open>[3, 4]\<close> is 3.
\<close>

theorem min_op_first_element_leaks:
  "min_op \<lparr>shape = [2, 2], dtype = Float32, getValues = [Fin 1, Fin 2, Fin 3, Fin 4]\<rparr> [1]
     = Inr \<lparr>shape = [2], dtype = Float32, getValues = [Fin 1, Fin 1]\<rparr>
   \<and> map (\<lambda>i. window_min_spec (window [Fin 1, Fin 2, Fin 3, Fin 4] 2 i)) [0..<2]
     = [Fin 1, Fin 3]"
  by code_simp

text \<open>
  C5. For a well-formed tensor and trailing reduction axes, \<open>argMin\<close> and \<open>argMax\<close> return
  one int32 element per contiguous window of \<open>reduceSize\<close> elements. When the window holds
  a NaN the element is the sentinel \<open>nanIdx\<close>, whatever the other values are, and the
  sentinel is no offset of the window; otherwise the element is the offset of the window's
  minimum (maximum), the first one among equals. The scan stops at the first NaN: the
  recursion of \<open>argMin_scan\<close> and \<open>argMax_scan\<close> returns there. The sentinel is taken as any
  negative int32, and the tensor has at most \<open>2^31\<close> elements, so that offsets fit int32.
\<close>

theorem argMin_argMax_nan_sentinel_or_offset:
  assumes wf: "well_formed x" and inner: "axesAreInnerMostDims axes (rank x)"
    and lo: "- 2147483648 \<le> nanIdx" and hi: "nanIdx < 0"
    and small: "sizeFromShape (shape x) \<le> 2147483648"
  shows "\<exists>rmin rmax outShape reduceShape.
           computeOutAndReduceShapes (shape x) axes = (outShape, reduceShape)
         \<and> argMin nanIdx x axes = Inr rmin \<and> argMax nanIdx x axes = Inr rmax
         \<and> shape rmin = outShape \<and> shape rmax = outShape
         \<and> dtype rmin = Int32 \<and> dtype rmax = Int32
         \<and> length (getValues rmin) = sizeFromShape outShape
         \<and> length (getValues rmax) = sizeFromShape outShape
         \<and> (\<forall>i<sizeFromShape outShape.
               arg_result_ok first_min_at nanIdx
                 (window (getValues x) (sizeFromShape reduceShape) i) (getValues rmin ! i)
             \<and> arg_result_ok first_max_at nanIdx
                 (window (getValues x) (sizeFromShape reduceShape) i) (getValues rmax ! i)
             \<and> (list_ex isNaN (window (getValues x) (sizeFromShape reduceShape) i) \<longrightarrow>
                  getValues rmin ! i = Fin (of_int nanIdx)
                \<and> getValues rmax ! i = Fin (of_int nanIdx)
                \<and> \<not> in_window_index (window (getValues x) (sizeFromShape reduceShape) i)
                      (Fin (of_int nanIdx))))"
proof -
  let ?k = "length (shape x) - length axes"
  let ?out = "take ?k (shape x)" and ?red = "drop ?k (shape x)"
  let ?rs = "sizeFromShape ?red" and ?n = "sizeFromShape ?out"
  let ?a = "getValues x"
  let ?fmin = "\<lambda>i. Fin (of_int (argMin_scan ?a (i * ?rs) nanIdx [0..<?rs] (ta_get ?a (i * ?rs)) 0))"
  let ?fmax = "\<lambda>i. Fin (of_int (argMax_scan ?a (i * ?rs) nanIdx [0..<?rs] (ta_get ?a (i * ?rs)) 0))"
  let ?rmin = "\<lparr>shape = ?out, dtype = Int32, getValues = map (\<lambda>i. ta_convert Int32 (?fmin i)) [0..<?n]\<rparr>"
  let ?rmax = "\<lparr>shape = ?out, dtype = Int32, getValues = map (\<lambda>i. ta_convert Int32 (?fmax i)) [0..<?n]\<rparr>"
  from inner have shapes: "computeOutAndReduceShapes (shape x) axes = (?out, ?red)"
    by (simp add: rank_def inner_shapes)
  from wf have len: "length ?a = ?n * ?rs"
    by (simp add: well_formed_def inner_sizes)
  from wf have pos: "0 < ?rs"
    by (intro sizeFromShape_pos list_all_drop) (simp add: well_formed_def)
  have rs_small: "?rs \<le> 2147483648"
  proof -
    have "0 < ?n" using wf by (intro sizeFromShape_pos) (auto simp: well_formed_def list_all_iff dest: in_set_takeD)
    then have "?rs \<le> ?n * ?rs" by simp
    also have "\<dots> = sizeFromShape (shape x)" by (rule inner_sizes)
    finally show ?thesis using small by simp
  qed
  have emin: "argMin nanIdx x axes = Inr ?rmin"
    using inner by (simp add: argMin_def shapes zeros_def fold_ta_set_all Let_def)
  have emax: "argMax nanIdx x axes = Inr ?rmax"
    using inner by (simp add: argMax_def shapes zeros_def fold_ta_set_all Let_def)
  have elems: "arg_result_ok first_min_at nanIdx (window ?a ?rs i) (getValues ?rmin ! i)
             \<and> arg_result_ok first_max_at nanIdx (window ?a ?rs i) (getValues ?rmax ! i)
             \<and> (list_ex isNaN (window ?a ?rs i) \<longrightarrow>
                  getValues ?rmin ! i = Fin (of_int nanIdx)
                \<and> getValues ?rmax ! i = Fin (of_int nanIdx)
                \<and> \<not> in_window_index (window ?a ?rs i) (Fin (of_int nanIdx)))"
    if i: "i < ?n" for i
  proof -
    have fits: "i * ?rs + ?rs \<le> length ?a" using len i by (rule window_fits)
    have a: "arg_result_ok first_min_at nanIdx (window ?a ?rs i) (getValues ?rmin ! i)"
      using argMin_element [OF fits pos lo hi rs_small] i by (simp add: window_def)
    have b: "arg_result_ok first_max_at nanIdx (window ?a ?rs i) (getValues ?rmax ! i)"
      using argMax_element [OF fits pos lo hi rs_small] i by (simp add: window_def)
    have c: "\<not> in_window_index w (Fin (of_int nanIdx))" for w
      using hi by (auto simp: in_window_index_def list_ex_iff)
    show ?thesis
      using a b c by (auto simp: arg_result_ok_def)
  qed
  show ?thesis
    apply (rule exI [of _ ?rmin], rule exI [of _ ?rmax], rule exI [of _ ?out], rule exI [of _ ?red])
    using shapes emin emax elems by simp
qed

theorem argMin_argMax_witness:
  "well_formed \<lparr>shape = [2, 3], dtype = Float32,
                 getValues = [Fin 3, Fin 1, Fin 2, Fin 5, NaN, Fin 0]\<rparr>
   \<and> axesAreInnerMostDims [1] (rank \<lparr>shape = [2, 3], dtype = Float32,
                 getValues = [Fin 3, Fin 1, Fin 2, Fin 5, NaN, Fin 0]\<rparr>)
   \<and> (\<exists>rmin rmax.
         argMin (- 2147483648) \<lparr>shape = [2, 3], dtype = Float32,
                 getValues = [Fin 3, Fin 1, Fin 2, Fin 5, NaN, Fin 0]\<rparr> [1] = Inr rmin
       \<and> argMax (- 2147483648) \<lparr>shape = [2, 3], dtype = Float32,
                 getValues = [Fin 3, Fin 1, Fin 2, Fin 5, NaN, Fin 0]\<rparr> [1] = Inr rmax
       \<and> getValues rmin = [Fin 1, Fin (- 2147483648)]
       \<and> getValues rmax = [Fin 0, Fin (- 2147483648)]
       \<and> arg_result_ok first_min_at (- 2147483648) [Fin 5, NaN, Fin 0] (getValues rmin ! 1)
       \<and> arg_result_ok first_max_at (- 2147483648) [Fin 3, Fin 1, Fin 2] (getValues rmax ! 0))"
proof -
  let ?x = "\<lparr>shape = [2, 3], dtype = Float32,
             getValues = [Fin 3, Fin 1, Fin 2, Fin 5, NaN, Fin 0]\<rparr>"
  have h1: "well_formed ?x" by code_simp
  have h2: "axesAreInnerMostDims [1] (rank ?x)" by code_simp
  have h3: "sizeFromShape (shape ?x) \<le> 2147483648" by (simp add: sizeFromShape_def)
  have h4: "- 2147483648 \<le> (- 2147483648 :: int)" by simp
  have h5: "(- 2147483648 :: int) < 0" by simp
  have s: "computeOutAndReduceShapes (shape ?x) [1] = ([2], [3])" by code_simp
  have w0: "window (getValues ?x) (sizeFromShape [3]) 0 = [Fin 3, Fin 1, Fin 2]" by code_simp
  have w1: "window (getValues ?x) (sizeFromShape [3]) 1 = [Fin 5, NaN, Fin 0]" by code_simp
  have e1: "argMin (- 2147483648) ?x [1]
              = Inr \<lparr>shape = [2], dtype = Int32, getValues = [Fin 1, Fin (- 2147483648)]\<rparr>"
    by code_simp
  have e2: "argMax (- 2147483648) ?x [1]
              = Inr \<lparr>shape = [2], dtype = Int32, getValues = [Fin 0, Fin (- 2147483648)]\<rparr>"
    by code_simp
  from argMin_argMax_nan_sentinel_or_offset [OF h1 h2 h4 h5 h3]
  obtain rmin rmax outShape reduceShape where
    sh: "computeOutAndReduceShapes (shape ?x) [1] = (outShape, reduceShape)"
    and r1: "argMin (- 2147483648) ?x [1] = Inr rmin"
    and r2: "argMax (- 2147483648) ?x [1] = Inr rmax"
    and el: "\<forall>i<sizeFromShape outShape.
               arg_result_ok first_min_at (- 2147483648)
                 (window (getValues ?x) (sizeFromShape reduceShape) i) (getValues rmin ! i)
             \<and> arg_result_ok first_max_at (- 2147483648)
                 (window (getValues ?x) (sizeFromShape reduceShape) i) (getValues rmax ! i)
             \<and> (list_ex isNaN (window (getValues ?x) (sizeFromShape reduceShape) i) \<longrightarrow>
                  getValues rmin ! i = Fin (of_int (- 2147483648))
                \<and> getValues rmax ! i = Fin (of_int (- 2147483648))
                \<and> \<not> in_window_index (window (getValues ?x) (sizeFromShape reduceShape) i)
                      (Fin (of_int (- 2147483648))))"
    by (elim exE conjE)
  from sh s have o: "outShape = [2]" "reduceShape = [3]" by simp_all
  have n: "sizeFromShape [2] = 2" by (simp add: sizeFromShape_def)
  from el have a: "arg_result_ok first_min_at (- 2147483648)
                 (window (getValues ?x) (sizeFromShape [3]) 1) (getValues rmin ! 1)"
    unfolding o n by simp
  from el have b: "arg_result_ok first_max_at (- 2147483648)
                 (window (getValues ?x) (sizeFromShape [3]) 0) (getValues rmax ! 0)"
    unfolding o n by simp
  from r1 e1 have v1: "getValues rmin = [Fin 1, Fin (- 2147483648)]" by simp
  from r2 e2 have v2: "getValues rmax = [Fin 0, Fin (- 2147483648)]" by simp
  from a b show ?thesis
    unfolding w0 w1 using h1 h2 r1 r2 v1 v2 by blast
qed

text \<open>
  C3 (amended). The claim says that \<open>topKValues\<close> and \<open>topKIndices\<close> fail for every
  \<open>k \<le> 0\<close> and every \<open>k > x.size\<close>, before any output buffer is allocated. The backend
  validates nothing: it fails only where the runtime does. For \<open>k = 0\<close> both return an
  empty sequence. For \<open>k = 3\<close> on two elements both output buffers are allocated (and
  partly filled) before the read past the end of the sorted pairs throws. The limit of the
  runtime is taken as \<open>2^32 - 1\<close> elements here.
\<close>

theorem topK_invalid_k_counterexample:
  "topKValues (\<lambda>dt. 4294967295)
     \<lparr>shape = [2], dtype = Float32, getValues = [Fin 5, Fin 1]\<rparr> 0 0 = (Inr [], 2)
   \<and> topKIndices (\<lambda>dt. 4294967295)
     \<lparr>shape = [2], dtype = Float32, getValues = [Fin 5, Fin 1]\<rparr> 0 0 = (Inr [], 2)
   \<and> topKValues (\<lambda>dt. 4294967295)
     \<lparr>shape = [2], dtype = Float32, getValues = [Fin 5, Fin 1]\<rparr> 3 0 = (Inl TypeError, 2)
   \<and> topKIndices (\<lambda>dt. 4294967295)
     \<lparr>shape = [2], dtype = Float32, getValues = [Fin 5, Fin 1]\<rparr> 3 0 = (Inl TypeError, 2)"
  by (simp add: topKValues_def topKIndices_def topK_def new_typed_array_def js_sort_def
      ta_get_def js_sub_def) code_simp

text \<open>
  C3, as the code has it. For a well-formed tensor, with \<open>maxLength dt\<close> the greatest
  length at which the runtime allocates a typed array of the element type \<open>dt\<close>:
  a negative \<open>k\<close>, and a \<open>k\<close> above the limit for the dtype of the tensor, throw a
  RangeError at the allocation of the first output buffer, and none is allocated; a \<open>k\<close>
  that the first allocation takes and that is above the limit for \<open>Int32Array\<close> throws a
  RangeError at the second allocation, after one buffer has been allocated; a \<open>k > x.size\<close>
  that both allocations take throws a TypeError in the copy loop, after both output
  buffers have been allocated; \<open>k = 0\<close> returns empty values and indices. A failure returns
  no tensor: the result is the error.
\<close>

theorem topK_invalid_k:
  assumes wf: "well_formed x"
  shows "(k < 0 \<or> int (maxLength (dtype x)) < k \<longrightarrow>
            topKValues maxLength x k allocated = (Inl RangeError, allocated)
          \<and> topKIndices maxLength x k allocated = (Inl RangeError, allocated))
       \<and> (0 \<le> k \<and> k \<le> int (maxLength (dtype x)) \<and> int (maxLength Int32) < k \<longrightarrow>
            topKValues maxLength x k allocated = (Inl RangeError, allocated + 1)
          \<and> topKIndices maxLength x k allocated = (Inl RangeError, allocated + 1))
       \<and> (int (size_nd x) < k \<and> k \<le> int (maxLength (dtype x)) \<and> k \<le> int (maxLength Int32) \<longrightarrow>
            topKValues maxLength x k allocated = (Inl TypeError, allocated + 2)
          \<and> topKIndices maxLength x k allocated = (Inl TypeError, allocated + 2))
       \<and> (k = 0 \<longrightarrow>
            topKValues maxLength x k allocated = (Inr [], allocated + 2)
          \<and> topKIndices maxLength x k allocated = (Inr [], allocated + 2))"
proof (intro conjI impI)
  assume "k < 0 \<or> int (maxLength (dtype x)) < k"
  then have "topK maxLength x k allocated = (Inl RangeError, allocated)"
    by (auto simp add: topK_def new_typed_array_def Let_def)
  then show "topKValues maxLength x k allocated = (Inl RangeError, allocated)"
    and "topKIndices maxLength x k allocated = (Inl RangeError, allocated)"
    by (simp_all add: topKValues_def topKIndices_def)
next
  assume "0 \<le> k \<and> k \<le> int (maxLength (dtype x)) \<and> int (maxLength Int32) < k"
  then have "topK maxLength x k allocated = (Inl RangeError, allocated + 1)"
    by (simp add: topK_def new_typed_array_def Let_def)
  then show "topKValues maxLength x k allocated = (Inl RangeError, allocated + 1)"
    and "topKIndices maxLength x k allocated = (Inl RangeError, allocated + 1)"
    by (simp_all add: topKValues_def topKIndices_def)
next
  assume big: "int (size_nd x) < k \<and> k \<le> int (maxLength (dtype x)) \<and> k \<le> int (maxLength Int32)"
  let ?s = "js_sort (\<lambda>a b. js_sub (fst b) (fst a))
              (map (\<lambda>i. (ta_get (getValues x) i, i)) [0..<length (getValues x)])"
  from wf have n: "size_nd x = length (getValues x)" by (simp add: well_formed_def size_nd_def)
  from big have "int (size_nd x) < k" by simp
  then have "length ?s < nat k" using n by (simp add: length_js_sort)
  then have "topK_copy ?s (dtype x) [0..<nat k] (tv, ti) = Inl TypeError" for tv ti
    by (intro topK_copy_past_end) simp_all
  moreover have "0 \<le> k" using big by simp
  ultimately have "topK maxLength x k allocated = (Inl TypeError, allocated + 2)"
    using big by (simp add: topK_def Let_def new_typed_array_ok)
  then show "topKValues maxLength x k allocated = (Inl TypeError, allocated + 2)"
    and "topKIndices maxLength x k allocated = (Inl TypeError, allocated + 2)"
    by (simp_all add: topKValues_def topKIndices_def)
next
  assume "k = 0"
  then have "topK maxLength x k allocated = (Inr ([], []), allocated + 2)"
    by (simp add: topK_def Let_def new_typed_array_def)
  then show "topKValues maxLength x k allocated = (Inr [], allocated + 2)"
    and "topKIndices maxLength x k allocated = (Inr [], allocated + 2)"
    by (simp_all add: topKValues_def topKIndices_def)
qed

text \<open>
  The witness: a bool tensor of two elements, in a runtime that allocates a \<open>Uint8Array\<close>
  up to \<open>2^32 - 1\<close> elements and the other typed arrays up to \<open>2^30 - 1\<close>. The lengths are
  \<open>-1\<close>, \<open>2^53\<close>, \<open>2 * 10^9\<close>, 3 and 0.
\<close>

theorem topK_invalid_k_witness:
  "well_formed \<lparr>shape = [2], dtype = Bool, getValues = [Fin 1, Fin 0]\<rparr>
   \<and> topKValues (\<lambda>dt. if dt = Bool then 4294967295 else 1073741823)
       \<lparr>shape = [2], dtype = Bool, getValues = [Fin 1, Fin 0]\<rparr> (- 1) 0
       = (Inl RangeError, 0)
   \<and> topKValues (\<lambda>dt. if dt = Bool then 4294967295 else 1073741823)
       \<lparr>shape = [2], dtype = Bool, getValues = [Fin 1, Fin 0]\<rparr> 9007199254740992 0
       = (Inl RangeError, 0)
   \<and> topKIndices (\<lambda>dt. if dt = Bool then 4294967295 else 1073741823)
       \<lparr>shape = [2], dtype = Bool, getValues = [Fin 1, Fin 0]\<rparr> 2000000000 0
       = (Inl RangeError, 1)
   \<and> topKIndices (\<lambda>dt. if dt = Bool then 4294967295 else 1073741823)
       \<lparr>shape = [2], dtype = Bool, getValues = [Fin 1, Fin 0]\<rparr> 3 0
       = (Inl TypeError, 2)
   \<and> topKValues (\<lambda>dt. if dt = Bool then 4294967295 else 1073741823)
       \<lparr>shape = [2], dtype = Bool, getValues = [Fin 1, Fin 0]\<rparr> 0 0
       = (Inr [], 2)"
proof -
  let ?x = "\<lparr>shape = [2], dtype = Bool, getValues = [Fin 1, Fin 0]\<rparr>"
  let ?m = "\<lambda>dt. if dt = Bool then 4294967295 else (1073741823 :: nat)"
  have h: "well_formed ?x" by code_simp
  have n: "size_nd ?x = 2" by code_simp
  have a: "topKValues ?m ?x (- 1) 0 = (Inl RangeError, 0)"
    using topK_invalid_k [OF h, of "- 1" ?m 0] by simp
  have b: "topKValues ?m ?x 9007199254740992 0 = (Inl RangeError, 0)"
    using topK_invalid_k [OF h, of 9007199254740992 ?m 0] by simp
  have c: "topKIndices ?m ?x 2000000000 0 = (Inl RangeError, 1)"
    using topK_invalid_k [OF h, of 2000000000 ?m 0] by simp
  have d: "topKIndices ?m ?x 3 0 = (Inl TypeError, 2)"
    using topK_invalid_k [OF h, of 3 ?m 0] n by simp
  have e: "topKValues ?m ?x 0 0 = (Inr [], 2)"
    using topK_invalid_k [OF h, of 0 ?m 0] by simp
  from h a b c d e show ?thesis by blast
qed

text \<open>
  C6 (amended). The claim's example is wrong in its indices: on \<open>[5, 1, 4, 2, 3]\<close> with
  \<open>k = 3\<close> the values are \<open>[5, 4, 3]\<close> and their original indices are \<open>[0, 2, 4]\<close>, not
  \<open>[0, 3, 4]\<close>. And the values are not sorted when one of them is NaN: on \<open>[1, NaN, 5]\<close>
  every difference \<open>b.value - a.value\<close> of two neighbours is NaN, the sort moves nothing,
  and \<open>topK\<close> with \<open>k = 3\<close> returns the values \<open>[1, NaN, 5]\<close>, the 1 before the 5, with the
  indices \<open>[0, 1, 2]\<close>. The limit of the runtime is taken as \<open>2^32 - 1\<close> elements here.
\<close>

theorem topK_example_and_nan_counterexample:
  "topK (\<lambda>dt. 4294967295) \<lparr>shape = [5], dtype = Float32,
          getValues = [Fin 5, Fin 1, Fin 4, Fin 2, Fin 3]\<rparr> 3 0
     = (Inr ([Fin 5, Fin 4, Fin 3], [Fin 0, Fin 2, Fin 4]), 2)
   \<and> topK (\<lambda>dt. 4294967295) \<lparr>shape = [5], dtype = Float32,
          getValues = [Fin 5, Fin 1, Fin 4, Fin 2, Fin 3]\<rparr> 3 0
     \<noteq> (Inr ([Fin 5, Fin 4, Fin 3], [Fin 0, Fin 3, Fin 4]), 2)
   \<and> topK (\<lambda>dt. 4294967295) \<lparr>shape = [3], dtype = Float32,
          getValues = [Fin 1, NaN, Fin 5]\<rparr> 3 0
     = (Inr ([Fin 1, NaN, Fin 5], [Fin 0, Fin 1, Fin 2]), 2)
   \<and> js_less (Fin 1) (Fin 5)"
  by (simp add: topK_def new_typed_array_def js_sort_def ta_get_def js_sub_def) code_simp

text \<open>
  A pair whose value is NaN and a pair whose value is a number stand in the claim's order
  in neither direction: no arrangement of the pairs of such a tensor is sorted.
\<close>

lemma desc_stable_nan:
  "isNaN (fst p) \<Longrightarrow> \<not> isNaN (fst q) \<Longrightarrow> \<not> desc_stable p q \<and> \<not> desc_stable q p"
  by (cases "fst p"; cases "fst q") (auto simp: desc_stable_def)

text \<open>
  C6, as the code has it. For a well-formed tensor without NaN, whose values are values of
  its dtype and whose indices fit int32, and \<open>0 < k \<le> x.size\<close> within the limits of the
  runtime for the two typed arrays: \<open>topK\<close> returns the values and the original linear
  indices of the first \<open>k\<close> pairs of \<open>s\<close>, where \<open>s\<close> is the rearrangement of the pairs
  (value, index) of the input in descending order of value, equal values in ascending
  order of index (the stable order). On \<open>[5, 1, 4, 2, 3]\<close> with \<open>k = 3\<close> the values are
  \<open>[5, 4, 3]\<close> and the indices \<open>[0, 2, 4]\<close>. With a NaN among the values the comparator
  \<open>b.value - a.value\<close> is not consistent, and ECMAScript leaves the order to the
  implementation.
\<close>

theorem topK_sorted_prefix:
  assumes wf: "well_formed x" and k: "0 < k" "k \<le> int (size_nd x)"
    and nonan: "\<not> list_ex isNaN (getValues x)"
    and conf: "list_all (conforms (dtype x)) (getValues x)"
    and small: "size_nd x \<le> 2147483648"
    and lim: "k \<le> int (maxLength (dtype x))" "k \<le> int (maxLength Int32)"
  shows "(\<exists>s. mset s = mset (zip (getValues x) [0..<size_nd x])
            \<and> sorted_wrt desc_stable s
            \<and> topK maxLength x k allocated =
                (Inr (map fst (take (nat k) s), map (\<lambda>p. Fin (of_nat (snd p))) (take (nat k) s)),
                 allocated + 2))
       \<and> topK (\<lambda>dt. 4294967295) \<lparr>shape = [5], dtype = Float32,
                 getValues = [Fin 5, Fin 1, Fin 4, Fin 2, Fin 3]\<rparr> 3 0
           = (Inr ([Fin 5, Fin 4, Fin 3], [Fin 0, Fin 2, Fin 4]), 2)"
proof
  let ?vals = "getValues x"
  let ?n = "length ?vals"
  let ?s = "js_sort (\<lambda>a b. js_sub (fst b) (fst a)) (zip ?vals [0..<?n])"
  from wf have n: "size_nd x = ?n" by (simp add: well_formed_def size_nd_def)
  have perm: "mset ?s = mset (zip ?vals [0..<?n])" by (rule mset_js_sort)
  have "\<forall>i<?n. \<not> isNaN (ta_get ?vals i)"
    using nonan by (auto simp: list_ex_iff ta_get_def)
  then have "sorted_wrt desc_stable
      (js_sort (\<lambda>a b. js_sub (fst b) (fst a)) (map (\<lambda>i. (ta_get ?vals i, i)) [0..<?n]))"
    by (intro sorted_js_sort_indexed) auto
  then have sorted: "sorted_wrt desc_stable ?s" by (simp only: indexed_eq_zip)
  have mem: "fst p \<in> set ?vals \<and> snd p < ?n" if "p \<in> set (take (nat k) ?s)" for p
  proof -
    from that have "p \<in> set ?s" by (rule in_set_takeD)
    then have pz: "p \<in> set (zip ?vals [0..<?n])" by (simp add: set_js_sort)
    obtain a b where ab: "p = (a, b)" by (cases p)
    from pz ab have "a \<in> set ?vals" and "b \<in> set [0..<?n]"
      by (auto dest: set_zip_leftD set_zip_rightD)
    then show ?thesis using ab by simp
  qed
  have c1: "map (\<lambda>p. ta_convert (dtype x) (fst p)) (take (nat k) ?s) = map fst (take (nat k) ?s)"
    using mem conf by (intro map_cong) (auto simp: list_all_iff conforms_def)
  have c2: "map (\<lambda>p. ta_convert Int32 (Fin (of_nat (snd p)))) (take (nat k) ?s)
             = map (\<lambda>p. Fin (of_nat (snd p))) (take (nat k) ?s)"
  proof (intro map_cong refl)
    fix p assume "p \<in> set (take (nat k) ?s)"
    then have "snd p < 2147483648" using mem [of p] small n by simp
    then show "ta_convert Int32 (Fin (of_nat (snd p))) = Fin (of_nat (snd p))"
      by (rule ta_convert_Int32_nat)
  qed
  have "topK maxLength x k allocated =
      (Inr (map fst (take (nat k) ?s), map (\<lambda>p. Fin (of_nat (snd p))) (take (nat k) ?s)),
       allocated + 2)"
    using topK_in_range [of k x maxLength allocated] k n lim
    by (simp add: c1 c2 del: ta_convert.simps)
  with perm sorted n
  show "\<exists>s. mset s = mset (zip (getValues x) [0..<size_nd x])
            \<and> sorted_wrt desc_stable s
            \<and> topK maxLength x k allocated =
                (Inr (map fst (take (nat k) s), map (\<lambda>p. Fin (of_nat (snd p))) (take (nat k) s)),
                 allocated + 2)"
    by auto
next
  show "topK (\<lambda>dt. 4294967295) \<lparr>shape = [5], dtype = Float32,
                 getValues = [Fin 5, Fin 1, Fin 4, Fin 2, Fin 3]\<rparr> 3 0
           = (Inr ([Fin 5, Fin 4, Fin 3], [Fin 0, Fin 2, Fin 4]), 2)"
    by (simp add: topK_def new_typed_array_def js_sort_def ta_get_def js_sub_def) code_simp
qed

theorem topK_sorted_prefix_witness:
  "well_formed \<lparr>shape = [4], dtype = Int32, getValues = [Fin 2, Fin 7, Fin 2, Fin 7]\<rparr>
   \<and> (\<exists>s. mset s = mset [(Fin 2, 0), (Fin 7, 1), (Fin 2, 2), (Fin 7, 3)]
          \<and> sorted_wrt desc_stable s
          \<and> topK (\<lambda>dt. 4294967295)
                \<lparr>shape = [4], dtype = Int32, getValues = [Fin 2, Fin 7, Fin 2, Fin 7]\<rparr> 3 0
              = (Inr (map fst (take 3 s), map (\<lambda>p. Fin (of_nat (snd p))) (take 3 s)), 2))
   \<and> topK (\<lambda>dt. 4294967295)
         \<lparr>shape = [4], dtype = Int32, getValues = [Fin 2, Fin 7, Fin 2, Fin 7]\<rparr> 3 0
       = (Inr ([Fin 7, Fin 7, Fin 2], [Fin 1, Fin 3, Fin 0]), 2)"
proof -
  let ?x = "\<lparr>shape = [4], dtype = Int32, getValues = [Fin 2, Fin 7, Fin 2, Fin 7]\<rparr>"
  let ?m = "\<lambda>dt::dtype. 4294967295 :: nat"
  have h1: "well_formed ?x" by code_simp
  have h2: "(0::int) < 3" by simp
  have n: "size_nd ?x = 4" by code_simp
  have h3: "(3::int) \<le> int (size_nd ?x)" unfolding n by simp
  have h4: "\<not> list_ex isNaN (getValues ?x)" by code_simp
  have h5: "list_all (conforms (dtype ?x)) (getValues ?x)" by code_simp
  have h6: "size_nd ?x \<le> 2147483648" unfolding n by simp
  have h7: "(3::int) \<le> int (?m (dtype ?x))" by simp
  have h8: "(3::int) \<le> int (?m Int32)" by simp
  have z: "zip (getValues ?x) [0..<size_nd ?x] = [(Fin 2, 0), (Fin 7, 1), (Fin 2, 2), (Fin 7, 3)]"
    by code_simp
  have k: "nat 3 = 3" by simp
  have e: "topK ?m ?x 3 0 = (Inr ([Fin 7, Fin 7, Fin 2], [Fin 1, Fin 3, Fin 0]), 2)"
    by (simp add: topK_def new_typed_array_def js_sort_def ta_get_def js_sub_def) code_simp
  from topK_sorted_prefix [OF h1 h2 h3 h4 h5 h6 h7 h8, of 0]
  have "\<exists>s. mset s = mset (zip (getValues ?x) [0..<size_nd ?x])
          \<and> sorted_wrt desc_stable s
          \<and> topK ?m ?x 3 0
              = (Inr (map fst (take (nat 3) s), map (\<lambda>p. Fin (of_nat (snd p))) (take (nat 3) s)),
                 0 + 2)"
    by (rule conjunct1)
  then have "\<exists>s. mset s = mset [(Fin 2, 0), (Fin 7, 1), (Fin 2, 2), (Fin 7, 3)]
          \<and> sorted_wrt desc_stable s
          \<and> topK ?m ?x 3 0
              = (Inr (map fst (take 3 s), map (\<lambda>p. Fin (of_nat (snd p))) (take 3 s)), 2)"
    unfolding z k add_0 .
  with h1 e show ?thesis by blast
qed

text \<open>
  C8. For a well-formed tensor \<open>b\<close> whose elements are float32 values, as the elements of
  every float32 tensor are, and a tensor \<open>a\<close> of a broadcast-compatible shape, \<open>neg b\<close>
  succeeds and \<open>add a b\<close> and \<open>subtract a (neg b)\<close> return the same tensor: the same
  shape, dtype and elements. Every product and sum is rounded to binary64 and every store
  into the \<open>Float32Array\<close> of a result to binary32: the negation of a float32 value is
  exact, and so is the product of its negation with -1.
\<close>

theorem add_eq_subtract_neg:
  assumes wf: "well_formed b"
    and f32: "list_all float32_value (getValues b)"
    and compat: "assertAndGetBroadcastShape (shape a) (shape b) = Inr newShape"
  shows "\<exists>nb r. neg b = Inr nb \<and> add a b = Inr r \<and> subtract a nb = Inr r \<and> shape r = newShape"
proof -
  let ?nb = "\<lparr>shape = shape b, dtype = Float32, getValues = map js_neg (getValues b)\<rparr>"
  have n: "neg b = Inr ?nb" using wf f32 by (rule neg_values)
  have eq: "subtract a ?nb = add a b"
    using compat
    by (simp add: add_def subtract_def scaledArrayAdd_def broadcastedBinaryOp_def
        Scalar_ONE_def Scalar_NEG_ONE_def scalar_get_def rank_def Let_def
        ta_get_map_neg js_times_neg_one_neg ta_get_def [of "[_]"])
  have "\<exists>r. add a b = Inr r \<and> shape r = newShape"
    using compat
    by (simp add: add_def scaledArrayAdd_def broadcastedBinaryOp_def Let_def zeros_def)
  with n eq show ?thesis by auto
qed

theorem add_eq_subtract_neg_witness:
  "well_formed \<lparr>shape = [2], dtype = Float32, getValues = [Fin 1, NegInf]\<rparr>
   \<and> list_all float32_value [Fin 1, NegInf]
   \<and> assertAndGetBroadcastShape [2, 2] [2] = Inr [2, 2]
   \<and> (\<exists>nb r. neg \<lparr>shape = [2], dtype = Float32, getValues = [Fin 1, NegInf]\<rparr> = Inr nb
         \<and> add \<lparr>shape = [2, 2], dtype = Float32,
                  getValues = [Fin 16777216, Fin 2, Fin (1 / 2), PosInf]\<rparr>
               \<lparr>shape = [2], dtype = Float32, getValues = [Fin 1, NegInf]\<rparr> = Inr r
         \<and> subtract \<lparr>shape = [2, 2], dtype = Float32,
                  getValues = [Fin 16777216, Fin 2, Fin (1 / 2), PosInf]\<rparr>
               nb = Inr r
         \<and> getValues r = [Fin 16777216, NegInf, Fin (3 / 2), NaN])"
proof -
  let ?a = "\<lparr>shape = [2, 2], dtype = Float32,
              getValues = [Fin 16777216, Fin 2, Fin (1 / 2), PosInf]\<rparr>"
  let ?b = "\<lparr>shape = [2], dtype = Float32, getValues = [Fin 1, NegInf]\<rparr>"
  have h1: "well_formed ?b" by code_simp
  have f: "list_all float32_value [Fin 1, NegInf]" by code_simp
  then have h2: "list_all float32_value (getValues ?b)" by simp
  have c: "assertAndGetBroadcastShape [2, 2] [2] = Inr [2, 2]" by code_simp
  then have h3: "assertAndGetBroadcastShape (shape ?a) (shape ?b) = Inr [2, 2]" by simp
  have e: "add ?a ?b = Inr \<lparr>shape = [2, 2], dtype = Float32,
                              getValues = [Fin 16777216, NegInf, Fin (3 / 2), NaN]\<rparr>"
    by code_simp
  from add_eq_subtract_neg [OF h1 h2 h3]
  obtain nb r where r: "neg ?b = Inr nb" "add ?a ?b = Inr r" "subtract ?a nb = Inr r"
    by blast
  from r(2) e have "r = \<lparr>shape = [2, 2], dtype = Float32,
                              getValues = [Fin 16777216, NegInf, Fin (3 / 2), NaN]\<rparr>" by simp
  then have "getValues r = [Fin 16777216, NegInf, Fin (3 / 2), NaN]" by simp
  with h1 f c r show ?thesis by blast
qed


text \<open>
  The elements of \<open>b\<close> have to be float32 values: \<open>neg\<close> stores into a \<open>Float32Array\<close>,
  and on the int32 tensor \<open>[16777217]\<close> it returns \<open>[-16777216]\<close>; with the float32 tensor
  \<open>a = [1]\<close> the sum \<open>add a b\<close> is \<open>[16777218]\<close> and \<open>subtract a (neg b)\<close> is
  \<open>[16777216]\<close>.
\<close>

lemma add_subtract_neg_int32_example:
  "neg \<lparr>shape = [1], dtype = Int32, getValues = [Fin 16777217]\<rparr>
     = Inr \<lparr>shape = [1], dtype = Float32, getValues = [Fin (- 16777216)]\<rparr>
   \<and> add \<lparr>shape = [1], dtype = Float32, getValues = [Fin 1]\<rparr>
         \<lparr>shape = [1], dtype = Int32, getValues = [Fin 16777217]\<rparr>
     = Inr \<lparr>shape = [1], dtype = Float32, getValues = [Fin 16777218]\<rparr>
   \<and> subtract \<lparr>shape = [1], dtype = Float32, getValues = [Fin 1]\<rparr>
         \<lparr>shape = [1], dtype = Float32, getValues = [Fin (- 16777216)]\<rparr>
     = Inr \<lparr>shape = [1], dtype = Float32, getValues = [Fin 16777216]\<rparr>
   \<and> \<not> float32_value (Fin 16777217)"
  by code_simp

text \<open>
  C9. For tensors of broadcast-compatible shapes, whatever their dtypes, \<open>divide\<close> succeeds
  and returns a tensor of dtype float32 with the broadcast shape.
\<close>

theorem divide_returns_float32:
  assumes "assertAndGetBroadcastShape (shape a) (shape b) = Inr newShape"
  shows "\<exists>r. divide a b = Inr r \<and> dtype r = Float32 \<and> shape r = newShape
            \<and> length (getValues r) = sizeFromShape newShape"
  using assms by (simp add: divide_def make_nd_def Let_def fold_ta_store_all)

theorem divide_returns_float32_witness:
  "assertAndGetBroadcastShape [2, 1] [2] = Inr [2, 2]
   \<and> (\<exists>r. divide \<lparr>shape = [2, 1], dtype = Int32, getValues = [Fin 7, Fin 3]\<rparr>
                  \<lparr>shape = [2], dtype = Bool, getValues = [Fin 1, Fin 0]\<rparr> = Inr r
          \<and> dtype r = Float32 \<and> shape r = [2, 2])"
proof -
  let ?a = "\<lparr>shape = [2, 1], dtype = Int32, getValues = [Fin 7, Fin 3]\<rparr>"
  let ?b = "\<lparr>shape = [2], dtype = Bool, getValues = [Fin 1, Fin 0]\<rparr>"
  have c: "assertAndGetBroadcastShape [2, 1] [2] = Inr [2, 2]" by code_simp
  then have h: "assertAndGetBroadcastShape (shape ?a) (shape ?b) = Inr [2, 2]" by simp
  from divide_returns_float32 [OF h] c show ?thesis by blast
qed

text \<open>
  C10. \<open>multinomial\<close> makes the generator anew from the seed inside the loop over the batch
  rows: for a \<open>batchSize \<times> numEvents\<close> matrix with at least one event, the call succeeds,
  and the samples of every row are the events picked by the draws of a generator freshly
  made from the seed, against the cumulative distribution of that row alone. So two rows
  holding equal probability vectors hold equal rows of sampled events.
\<close>

theorem multinomial_equal_rows:
  assumes shp: "shape probabilities = [nBatch, numEvents]"
    and ne: "0 < numEvents"
    and len: "length (getValues probabilities) = nBatch * numEvents"
    and b1: "b1 < nBatch" and b2: "b2 < nBatch"
    and rows: "window (getValues probabilities) numEvents b1
                 = window (getValues probabilities) numEvents b2"
  shows "\<exists>res. multinomial alea random probabilities numSamples seed = Inr res
           \<and> shape res = [nBatch, numSamples] \<and> dtype res = Int32
           \<and> length (getValues res) = nBatch * numSamples
           \<and> (\<forall>b<nBatch. window (getValues res) numSamples b
                  = row_samples random
                      (build_cdf (window (getValues probabilities) numEvents b) 0 numEvents)
                      numSamples (alea seed))
           \<and> window (getValues res) numSamples b1 = window (getValues res) numSamples b2"
proof -
  let ?pv = "getValues probabilities"
  let ?cdf = "\<lambda>b. build_cdf ?pv (b * numEvents) numEvents"
  let ?row = "\<lambda>b. row_samples random (?cdf b) numSamples (alea seed)"
  let ?init = "replicate (nBatch * numSamples) (Fin 0)"
  let ?vals = "concat (map ?row [0..<nBatch])"
  let ?res = "\<lparr>shape = [nBatch, numSamples], dtype = Int32, getValues = ?vals\<rparr>"
  have loop: "fold_err (\<lambda>b resVals.
                 if numEvents = 0 then Inl RangeError
                 else Inr (sample_loop random (build_cdf ?pv (b * numEvents) numEvents)
                             (b * numSamples) [0..<numSamples] (alea seed) resVals))
               [0..<nBatch] ?init
             = Inr (fold (\<lambda>b resVals.
                      sample_loop random (?cdf b) (b * numSamples) [0..<numSamples] (alea seed) resVals)
                    [0..<nBatch] ?init)"
    using ne by (intro fold_err_total) simp
  have vals: "fold (\<lambda>b resVals.
                 sample_loop random (?cdf b) (b * numSamples) [0..<numSamples] (alea seed) resVals)
               [0..<nBatch] ?init = ?vals"
    using rows_concat [of ?init nBatch numSamples nBatch random ?cdf "\<lambda>b. alea seed"]
    by simp
  have res: "multinomial alea random probabilities numSamples seed = Inr ?res"
  proof -
    have n0: "[nBatch, numEvents] ! 0 = nBatch" and n1: "[nBatch, numEvents] ! 1 = numEvents"
      by simp_all
    show ?thesis
      unfolding multinomial_def Let_def shp n0 n1
      by (simp add: zeros_def sizeFromShape_def loop vals del: fold_err.simps)
  qed
  have seg: "window ?vals numSamples b = ?row b" if "b < nBatch" for b
    unfolding window_def using that
    by (intro concat_segment [where B = nBatch]) (simp_all add: length_row_samples)
  have fit: "b * numEvents + numEvents \<le> length ?pv" if "b < nBatch" for b
    using len that by (rule window_fits)
  have cdf_row: "?cdf b = build_cdf (window ?pv numEvents b) 0 numEvents" if "b < nBatch" for b
    unfolding window_def using fit [OF that] by (rule build_cdf_row)
  have lenv: "length ?vals = nBatch * numSamples"
    by (induction nBatch) (simp_all add: length_row_samples)
  have each: "\<forall>b<nBatch. window ?vals numSamples b
                  = row_samples random (build_cdf (window ?pv numEvents b) 0 numEvents)
                      numSamples (alea seed)"
    using seg cdf_row by simp
  then have "window ?vals numSamples b1 = window ?vals numSamples b2"
    using b1 b2 rows by simp
  with res each lenv show ?thesis by simp
qed

theorem multinomial_equal_rows_witness:
  "(\<exists>res. multinomial (\<lambda>s. s) (\<lambda>g. (Fin (if even g then 1 / 4 else 3 / 4), Suc g))
            \<lparr>shape = [2, 2], dtype = Float32,
               getValues = [Fin (1 / 2), Fin (1 / 2), Fin (1 / 2), Fin (1 / 2)]\<rparr> 2 (0::nat)
            = Inr res
         \<and> getValues res = [Fin 0, Fin 1, Fin 0, Fin 1]
         \<and> window (getValues res) 2 0 = window (getValues res) 2 1)"
proof -
  let ?p = "\<lparr>shape = [2, 2], dtype = Float32,
               getValues = [Fin (1 / 2), Fin (1 / 2), Fin (1 / 2), Fin (1 / 2)]\<rparr>"
  let ?random = "\<lambda>g::nat. (Fin (if even g then 1 / 4 else 3 / 4), Suc g)"
  have h1: "shape ?p = [2, 2]" by simp
  have h2: "(0::nat) < 2" by simp
  have h3: "length (getValues ?p) = 2 * 2" by simp
  have h4: "(1::nat) < 2" by simp
  have h5: "window (getValues ?p) 2 0 = window (getValues ?p) 2 1" by code_simp
  have e: "multinomial (\<lambda>s. s) ?random ?p 2 (0::nat)
            = Inr \<lparr>shape = [2, 2], dtype = Int32, getValues = [Fin 0, Fin 1, Fin 0, Fin 1]\<rparr>"
    by code_simp
  from multinomial_equal_rows [OF h1 h2 h3 h2 h4 h5, of "\<lambda>s. s" ?random 2 0]
  obtain res where r: "multinomial (\<lambda>s. s) ?random ?p 2 (0::nat) = Inr res"
    "window (getValues res) 2 0 = window (getValues res) 2 1"
    by blast
  from r(1) e have "res = \<lparr>shape = [2, 2], dtype = Int32, getValues = [Fin 0, Fin 1, Fin 0, Fin 1]\<rparr>"
    by simp
  then have "getValues res = [Fin 0, Fin 1, Fin 0, Fin 1]" by simp
  with r show ?thesis by blast
qed

text \<open>
  C1 (the code departs from the claim). \<open>conv2d\<close> takes the corner of the rows with
  \<open>padLeft\<close> and the corner of the columns with \<open>padTop\<close>. With a \<open>1 \<times> 3\<close> filter of ones over
  the \<open>1 \<times> 3\<close> image \<open>[1, 2, 3]\<close>, stride 1 and the paddings of the mode "same" (top 0,
  left 1), the code clips every window of rows to nothing and returns \<open>[0, 0, 0]\<close>; the
  claim's windows give \<open>[3, 6, 5]\<close>.
\<close>

theorem conv2d_swaps_paddings:
  "getValues (conv2d \<lparr>shape = [1, 1, 3, 1], dtype = Float32, getValues = [Fin 1, Fin 2, Fin 3]\<rparr>
      \<lparr>shape = [1, 3, 1, 1], dtype = Float32, getValues = [Fin 1, Fin 1, Fin 1]\<rparr> None
      \<lparr>batchSize = 1, inHeight = 1, inWidth = 3, inChannels = 1, outHeight = 1, outWidth = 3,
        outChannels = 1, filterHeight = 1, filterWidth = 3, strideHeight = 1, strideWidth = 1,
        padTop = 0, padLeft = 1,
        inShape = [1, 1, 3, 1], filterShape = [1, 3, 1, 1],
        outShape = [1, 1, 3, 1]\<rparr>)
     = [Fin 0, Fin 0, Fin 0]
   \<and> map (\<lambda>yC. conv2d_claim
            \<lparr>shape = [1, 1, 3, 1], dtype = Float32, getValues = [Fin 1, Fin 2, Fin 3]\<rparr>
            \<lparr>shape = [1, 3, 1, 1], dtype = Float32, getValues = [Fin 1, Fin 1, Fin 1]\<rparr> None
            \<lparr>batchSize = 1, inHeight = 1, inWidth = 3, inChannels = 1, outHeight = 1,
              outWidth = 3, outChannels = 1, filterHeight = 1, filterWidth = 3, strideHeight = 1,
              strideWidth = 1, padTop = 0, padLeft = 1,
              inShape = [1, 1, 3, 1], filterShape = [1, 3, 1, 1],
              outShape = [1, 1, 3, 1]\<rparr> 0 0 yC 0)
       [0..<3]
     = [Fin 3, Fin 6, Fin 5]"
  by code_simp


text \<open>
  A window of a single element \<open>-Infinity\<close> has that element as its maximum, but
  \<open>maxPoolPositions\<close> finds no position for it (no element is greater than the initial
  \<open>-Infinity\<close>) and no gradient is routed. The amended claim asks the maximum to be greater
  than \<open>-Infinity\<close>.
\<close>

lemma maxPoolBackprop_neg_infinity_example:
  "getValues (maxPoolBackprop
     \<lparr>shape = [1, 1, 1, 1], dtype = Float32, getValues = [Fin 7]\<rparr>
     \<lparr>shape = [1, 1, 1, 1], dtype = Float32, getValues = [NegInf]\<rparr>
     \<lparr>batchSize = 1, inHeight = 1, inWidth = 1, inChannels = 1, outHeight = 1, outWidth = 1,
       outChannels = 1, filterHeight = 1, filterWidth = 1, strideHeight = 1, strideWidth = 1,
       padTop = 0, padLeft = 0,
       inShape = [1, 1, 1, 1], filterShape = [1, 1, 1, 1],
       outShape = [1, 1, 1, 1]\<rparr>) = [Fin 0]"
  by code_simp



text \<open>
  What \<open>extends\<close> gives for an operand: its typed array reads the same, element by
  element, after the call.
\<close>

lemma extends_contents:
  assumes "extends st st'" and "a < length st"
  shows "contents st' a = contents st a"
proof -
  from assms have "a < length st'" and t: "take (length st) st' = st"
    by (simp_all add: extends_def)
  moreover have "take (length st) st' ! a = st' ! a"
    using assms(2) by simp
  ultimately show ?thesis
    using assms(2) by (simp add: contents_def)
qed

text \<open>
  What \<open>pure_call\<close> excludes: a call that stores into a typed array of the store it
  started in, and a call that returns a tensor on one of those typed arrays.
\<close>

lemma store_into_operand_is_not_pure:
  "\<not> pure_call [[Fin 1]]
       (\<lparr>tshape = [1], tdtype = Float32, tvalues = 1\<rparr>,
        store_at Float32 0 0 (Fin 5) [[Fin 1], [Fin 0]])"
  by (simp add: pure_call_def extends_def store_at_def ta_set_def)

lemma returned_operand_is_not_pure:
  "\<not> pure_call [[Fin 1]]
       (\<lparr>tshape = [1], tdtype = Float32, tvalues = 0\<rparr>, [[Fin 1], [Fin 0]])"
  by (simp add: pure_call_def allocated_since_def)

text \<open>
  The kernels on the store run: the spec's example \<open>oneHot([1,0], depth=3, on=1, off=0)\<close>,
  with the indices in the typed array 0, leaves \<open>[[0,1,0],[1,0,0]]\<close> in the new typed
  array 1.
\<close>

lemma oneHot_on_the_store:
  "oneHot_st \<lparr>tshape = [2], tdtype = Float32, tvalues = 0\<rparr> 3 (Fin 1) (Fin 0) [[Fin 1, Fin 0]]
   = (\<lparr>tshape = [2, 3], tdtype = Float32, tvalues = 1\<rparr>,
      [[Fin 1, Fin 0], [Fin 0, Fin 1, Fin 0, Fin 1, Fin 0, Fin 0]])"
  by code_simp

text \<open>
  Claim C7: no backend method mutates an input tensor, and the result is a newly allocated
  tensor distinct from every input. On the store: in whatever store \<open>st\<close> a public method
  of \<open>MathBackendCPU\<close> is called, and with whatever arguments, every typed array of \<open>st\<close>
  --- the typed array of every operand among them --- is in the store the call leaves, at
  its place and with its contents, and the typed array of the tensor returned is one that
  the call has allocated. A call that throws returns no tensor and leaves the typed arrays
  of \<open>st\<close> as they were. The 63 public methods are listed in the order of the source.
\<close>

theorem backend_methods_keep_their_operands:
  "pure_call st (clone_st x st)
   \<and> pure_call st (slice1D_st x start1 size1 st)
   \<and> pure_call st (slice2D_st x start2 size2 st)
   \<and> pure_call st (slice3D_st x start3 size3 st)
   \<and> pure_call st (slice4D_st x start4 size4 st)
   \<and> pure_call_err st (concat1D_st a b st)
   \<and> pure_call_err st (concat2D_st a b axis st)
   \<and> pure_call_err st (concat3D_st a b axis st)
   \<and> pure_call_err st (concat4D_st a b axis st)
   \<and> pure_call_err st (neg_st NEG_ONE x st)
   \<and> pure_call_err st (add_st ONE a b st)
   \<and> pure_call_err st (subtract_st ONE NEG_ONE a b st)
   \<and> pure_call_err st (multiply_st a b st)
   \<and> pure_call_err st (divide_st a b st)
   \<and> pure_call st (matMul_st a b aOrientation bOrientation st)
   \<and> pure_call_err st (sum_st SumTypesMap x axes st)
   \<and> pure_call_err st (argMin_st nanIdx x axes st)
   \<and> pure_call_err st (argMax_st nanIdx x axes st)
   \<and> pure_call_err st (equal_st isValNaN getNaN a b st)
   \<and> pure_call_err st (topKValues_st maxLength x k st)
   \<and> pure_call_err st (topKIndices_st maxLength x k st)
   \<and> pure_call_err st (min_st x axes st)
   \<and> pure_call_err st (max_st x axes st)
   \<and> pure_call st (ceil_st x st)
   \<and> pure_call st (floor_st x st)
   \<and> pure_call st (exp_st Math_exp x st)
   \<and> pure_call st (log_st Math_log x st)
   \<and> pure_call st (sqrt_st Math_sqrt x st)
   \<and> pure_call st (square_st x st)
   \<and> pure_call st (relu_st isValNaN getNaN x st)
   \<and> pure_call st (elu_st Math_exp x st)
   \<and> pure_call st (eluDer_st Math_exp x st)
   \<and> pure_call st (selu_st Math_exp x st)
   \<and> pure_call st (leakyRelu_st x alpha st)
   \<and> pure_call st (clip_st x min' max' st)
   \<and> pure_call st (abs_st x st)
   \<and> pure_call st (sigmoid_st Math_exp x st)
   \<and> pure_call st (sin_st Math_sin x st)
   \<and> pure_call st (cos_st Math_cos x st)
   \<and> pure_call st (tan_st Math_tan x st)
   \<and> pure_call st (asin_st Math_asin x st)
   \<and> pure_call st (acos_st Math_acos x st)
   \<and> pure_call st (atan_st Math_atan x st)
   \<and> pure_call st (sinh_st Math_sinh x st)
   \<and> pure_call st (cosh_st Math_cosh x st)
   \<and> pure_call st (tanh_st util_tanh x st)
   \<and> pure_call st (step_st x alpha st)
   \<and> pure_call st (conv2d_st x filter' bias convInfo st)
   \<and> pure_call st (conv2dDerInput_st dy filter' convInfo st)
   \<and> pure_call st (conv2dDerFilter_st x dy convInfo st)
   \<and> pure_call st (conv2dDerBias_st dy st)
   \<and> pure_call st (depthwiseConv2D_st x filter' convInfo st)
   \<and> pure_call st (tile_st x reps st)
   \<and> pure_call st (transpose_st x perm st)
   \<and> pure_call st (maxPool_st x convInfo st)
   \<and> pure_call st (maxPoolBackprop_st dy x convInfo st)
   \<and> pure_call st (minPool_st x convInfo st)
   \<and> pure_call st (avgPool_st x convInfo st)
   \<and> pure_call st (resizeBilinear3D_st x newShape2D alignCorners st)
   \<and> pure_call st
         (batchNormalization2D_st Math_sqrt x mean variance varianceEpsilon scale' offset st)
   \<and> pure_call st
         (batchNormalization3D_st Math_sqrt x mean variance varianceEpsilon scale' offset st)
   \<and> pure_call_err st (multinomial_st alea random probabilities numSamples seed st)
   \<and> pure_call st (oneHot_st indices depth onValue offValue st)"
  by (intro conjI clone_pure slice1D_pure slice2D_pure slice3D_pure slice4D_pure concat1D_pure
      concat2D_pure concat3D_pure concat4D_pure neg_pure add_pure subtract_pure multiply_pure
      divide_pure matMul_pure sum_pure argMin_pure argMax_pure equal_pure topKValues_pure
      topKIndices_pure min_pure max_pure ceil_pure floor_pure exp_pure log_pure sqrt_pure
      square_pure relu_pure elu_pure eluDer_pure selu_pure leakyRelu_pure clip_pure abs_pure
      sigmoid_pure sin_pure cos_pure tan_pure asin_pure acos_pure atan_pure sinh_pure cosh_pure
      tanh_pure step_pure conv2d_pure conv2dDerInput_pure conv2dDerFilter_pure
      conv2dDerBias_pure depthwiseConv2D_pure tile_pure transpose_pure maxPool_pure
      maxPoolBackprop_pure minPool_pure avgPool_pure resizeBilinear3D_pure
      batchNormalization2D_pure batchNormalization3D_pure multinomial_pure oneHot_pure)

end
